(* ===== verification/Prelude.thy ===== *)
theory Prelude
  imports Main "HOL-Library.Code_Target_Nat"
begin

text \<open>
  Shared vocabulary of the CareerSync model. The web client is JavaScript: every
  handler may throw, and a thrown exception either reaches a \<open>try\<close>/\<open>catch\<close> of the
  source or aborts the handler. A computation that may throw returns a value of
  \<open>'a js = js_error + 'a\<close>, with \<open>Inl\<close> the exception. The theory also holds the
  generic list lemmas the component proofs share, collected in \<open>model_simps\<close>.
\<close>

named_theorems model_simps "generic facts the component proofs rewrite with"

datatype js_error = TypeError | SyntaxError | InvalidCharacterError

type_synonym 'a js = "js_error + 'a"

text \<open>Sequencing of two throwing steps: the first exception aborts the rest.\<close>

definition js_then :: "'a js \<Rightarrow> ('a \<Rightarrow> 'b js) \<Rightarrow> 'b js" where
  "js_then m f = (case m of Inl e \<Rightarrow> Inl e | Inr a \<Rightarrow> f a)"

lemma js_then_Inr [simp]: "js_then (Inr a) f = f a"
  by (simp add: js_then_def)

lemma js_then_Inl [simp]: "js_then (Inl e) f = Inl e"
  by (simp add: js_then_def)

lemma js_then_eq_Inr [model_simps]:
  "js_then m f = Inr b \<longleftrightarrow> (\<exists>a. m = Inr a \<and> f a = Inr b)"
  by (cases m) auto

subsection \<open>Counting with filters\<close>

lemma length_filter_pos_iff [model_simps]:
  "0 < length (filter P xs) \<longleftrightarrow> (\<exists>x \<in> set xs. P x)"
  by (induction xs) auto

lemma length_filter_append_single [model_simps]:
  "length (filter P (xs @ [x])) = length (filter P xs) + (if P x then 1 else 0)"
  by simp

lemma filter_filter_neg_idem [model_simps]:
  "filter (\<lambda>x. \<not> P x) (filter (\<lambda>x. \<not> P x) xs) = filter (\<lambda>x. \<not> P x) xs"
  by (induction xs) auto

lemma filter_id_if_none [model_simps]:
  "\<forall>x \<in> set xs. \<not> P x \<Longrightarrow> filter (\<lambda>x. \<not> P x) xs = xs"
  by (induction xs) auto

end
