(* ===== verification/JsValue.thy ===== *)
theory JsValue
  imports Prelude
begin

text \<open>
  JavaScript values as the client handles them: the results of \<open>JSON.parse\<close>, the
  records the components build, and the built-ins the sources call on them
  (property access, truthiness, \<open>String(v)\<close>, \<open>trim\<close>, \<open>split\<close>, \<open>join\<close>,
  \<open>parseInt\<close>), and the text a JSX expression renders. Strings are byte strings
  (UTF-8), so an emoji is several \<open>char\<close>s.
  A number is an exact decimal \<open>JNum m e\<close> = \<open>m / 10^e\<close>; the model covers the
  numbers JSON text and the API produce (at most 15 significant digits, so the
  decimal survives the round trip through a double).
\<close>

datatype jsval =
    JUndefined
  | JNull
  | JBool bool
  | JNum int nat
  | JStr string
  | JArr "jsval list"
  | JObj "(string \<times> jsval) list"

subsection \<open>Truthiness and property access\<close>

fun js_truthy :: "jsval \<Rightarrow> bool" where
  "js_truthy JUndefined = False"
| "js_truthy JNull = False"
| "js_truthy (JBool b) = b"
| "js_truthy (JNum m e) = (m \<noteq> 0)"
| "js_truthy (JStr s) = (s \<noteq> [])"
| "js_truthy (JArr vs) = True"
| "js_truthy (JObj ps) = True"

text \<open>
  \<open>v.k\<close>: reading a property of \<open>null\<close> or \<open>undefined\<close> throws a TypeError; of an
  object it is the last binding of the key (as \<open>JSON.parse\<close> keeps the last of
  duplicate keys), or \<open>undefined\<close>; strings and arrays have a \<open>length\<close>.
\<close>

fun get_prop :: "jsval \<Rightarrow> string \<Rightarrow> jsval js" where
  "get_prop JUndefined k = Inl TypeError"
| "get_prop JNull k = Inl TypeError"
| "get_prop (JObj ps) k = Inr (case map_of (rev ps) k of None \<Rightarrow> JUndefined | Some v \<Rightarrow> v)"
| "get_prop (JArr vs) k =
     Inr (if k = ''length'' then JNum (int (length vs)) 0 else JUndefined)"
| "get_prop (JStr s) k =
     Inr (if k = ''length'' then JNum (int (length s)) 0 else JUndefined)"
| "get_prop (JBool b) k = Inr JUndefined"
| "get_prop (JNum m e) k = Inr JUndefined"

text \<open>\<open>v?.k\<close>: optional chaining yields \<open>undefined\<close> on a nullish value.\<close>

definition opt_prop :: "jsval \<Rightarrow> string \<Rightarrow> jsval" where
  "opt_prop v k = (case get_prop v k of Inl _ \<Rightarrow> JUndefined | Inr w \<Rightarrow> w)"

definition is_nullish :: "jsval \<Rightarrow> bool" where
  "is_nullish v \<longleftrightarrow> v = JUndefined \<or> v = JNull"

subsection \<open>Numbers as text\<close>

fun digits_nat :: "nat \<Rightarrow> string" where
  "digits_nat n =
     (if n < 10 then [char_of (48 + n)] else digits_nat (n div 10) @ [char_of (48 + n mod 10)])"

declare digits_nat.simps [simp del]

definition show_int :: "int \<Rightarrow> string" where
  "show_int i = (if i < 0 then CHR ''-'' # digits_nat (nat (- i)) else digits_nat (nat i))"

text \<open>
  \<open>Number.prototype.toString\<close> for a canonical decimal (no trailing zero after the
  point) in the range JavaScript prints without an exponent.
\<close>

definition show_num :: "int \<Rightarrow> nat \<Rightarrow> string" where
  "show_num m e =
     (if e = 0 then show_int m
      else let a = nat \<bar>m\<bar>; fs = digits_nat (a mod 10 ^ e)
           in (if m < 0 then ''-'' else '''') @ digits_nat (a div 10 ^ e) @ ''.'' @
              replicate (e - length fs) CHR ''0'' @ fs)"

subsection \<open>String built-ins\<close>

fun js_join :: "string \<Rightarrow> string list \<Rightarrow> string" where
  "js_join sep [] = []"
| "js_join sep [x] = x"
| "js_join sep (x # y # zs) = x @ sep @ js_join sep (y # zs)"

text \<open>\<open>String(v)\<close> and template interpolation; \<open>Array.prototype.join\<close> writes nullish elements as the empty string.\<close>

fun js_to_string :: "jsval \<Rightarrow> string" where
  "js_to_string JUndefined = ''undefined''"
| "js_to_string JNull = ''null''"
| "js_to_string (JBool b) = (if b then ''true'' else ''false'')"
| "js_to_string (JNum m e) = show_num m e"
| "js_to_string (JStr s) = s"
| "js_to_string (JArr vs) =
     js_join '','' (map (\<lambda>v. if v = JUndefined \<or> v = JNull then [] else js_to_string v) vs)"
| "js_to_string (JObj ps) = ''[object Object]''"

definition join_elem :: "jsval \<Rightarrow> string" where
  "join_elem v = (if is_nullish v then [] else js_to_string v)"

definition js_arr_join :: "string \<Rightarrow> jsval list \<Rightarrow> string" where
  "js_arr_join sep vs = js_join sep (map join_elem vs)"

text \<open>The ASCII part of the white space \<open>String.prototype.trim\<close> removes.\<close>

definition js_ws :: "char \<Rightarrow> bool" where
  "js_ws c \<longleftrightarrow> of_char c \<in> {9, 10, 11, 12, 13, 32 :: nat}"

definition js_trim :: "string \<Rightarrow> string" where
  "js_trim s = rev (dropWhile js_ws (rev (dropWhile js_ws s)))"

text \<open>\<open>s.split(c)\<close> for a one-character separator: always at least one piece.\<close>

fun js_split :: "char \<Rightarrow> string \<Rightarrow> string list" where
  "js_split c [] = [[]]"
| "js_split c (x # xs) =
     (if x = c then [] # js_split c xs
      else (case js_split c xs of [] \<Rightarrow> [[x]] | p # ps \<Rightarrow> (x # p) # ps))"

definition is_digit :: "char \<Rightarrow> bool" where
  "is_digit c \<longleftrightarrow> (48 :: nat) \<le> of_char c \<and> of_char c \<le> (57 :: nat)"

definition digits_val :: "string \<Rightarrow> nat" where
  "digits_val ds = foldl (\<lambda>a d. 10 * a + (of_char d - (48 :: nat))) 0 ds"

text \<open>\<open>parseInt(s, 10)\<close>: \<open>None\<close> is \<open>NaN\<close>.\<close>

definition js_parseInt :: "string \<Rightarrow> int option" where
  "js_parseInt s =
     (let t = dropWhile js_ws s;
          (neg, u) = (case t of
                        c # r \<Rightarrow> (if c = CHR ''-'' then (True, r)
                                  else if c = CHR ''+'' then (False, r) else (False, t))
                      | [] \<Rightarrow> (False, t));
          ds = takeWhile is_digit u
      in if ds = [] then None
         else Some ((if neg then -1 else 1) * int (digits_val ds)))"

text \<open>A JavaScript comparison \<open>x >= k\<close> with \<open>x\<close> from \<open>parseInt\<close>: false on \<open>NaN\<close>.\<close>

definition ge_nan :: "int option \<Rightarrow> int \<Rightarrow> bool" where
  "ge_nan x k = (case x of None \<Rightarrow> False | Some n \<Rightarrow> k \<le> n)"

subsection \<open>Array built-ins\<close>

text \<open>
  \<open>arr.filter(p)\<close> and \<open>arr.some(p)\<close> on a value that may not be an array (then
  the method is missing and the call throws a TypeError). The callback may throw; \<open>some\<close>
  stops at the first element that satisfies it, so later elements are never read.
\<close>

fun js_filter_list :: "(jsval \<Rightarrow> bool js) \<Rightarrow> jsval list \<Rightarrow> jsval list js" where
  "js_filter_list p [] = Inr []"
| "js_filter_list p (x # xs) =
     js_then (p x) (\<lambda>b. js_then (js_filter_list p xs) (\<lambda>ys. Inr (if b then x # ys else ys)))"

definition js_filter :: "(jsval \<Rightarrow> bool js) \<Rightarrow> jsval \<Rightarrow> jsval list js" where
  "js_filter p v = (case v of JArr xs \<Rightarrow> js_filter_list p xs | _ \<Rightarrow> Inl TypeError)"

fun js_some_list :: "(jsval \<Rightarrow> bool js) \<Rightarrow> jsval list \<Rightarrow> bool js" where
  "js_some_list p [] = Inr False"
| "js_some_list p (x # xs) = js_then (p x) (\<lambda>b. if b then Inr True else js_some_list p xs)"

definition js_some :: "(jsval \<Rightarrow> bool js) \<Rightarrow> jsval \<Rightarrow> bool js" where
  "js_some p v = (case v of JArr xs \<Rightarrow> js_some_list p xs | _ \<Rightarrow> Inl TypeError)"

text \<open>The callback \<open>x => x.field === u\<close> of the sources, \<open>u\<close> a string.\<close>

definition field_is :: "string \<Rightarrow> string \<Rightarrow> jsval \<Rightarrow> bool js" where
  "field_is f u x = js_then (get_prop x f) (\<lambda>w. Inr (w = JStr u))"

text \<open>
  \<open>a === b\<close> between a value read from parsed JSON and another value: equal primitives
  are identical; an object or array that \<open>JSON.parse\<close> built is a fresh object, never
  identical to anything else.
\<close>

definition js_seq :: "jsval \<Rightarrow> jsval \<Rightarrow> bool" where
  "js_seq a b = (case a of JObj _ \<Rightarrow> False | JArr _ \<Rightarrow> False | _ \<Rightarrow> a = b)"

text \<open>\<open>arr.map(f)\<close> and \<open>arr.join(sep)\<close> as method calls on a value that may not be an array.\<close>

fun js_map_list :: "(jsval \<Rightarrow> 'a js) \<Rightarrow> jsval list \<Rightarrow> 'a list js" where
  "js_map_list f [] = Inr []"
| "js_map_list f (x # xs) = js_then (f x) (\<lambda>y. js_then (js_map_list f xs) (\<lambda>ys. Inr (y # ys)))"

definition js_map :: "(jsval \<Rightarrow> 'a js) \<Rightarrow> jsval \<Rightarrow> 'a list js" where
  "js_map f v = (case v of JArr xs \<Rightarrow> js_map_list f xs | _ \<Rightarrow> Inl TypeError)"

definition js_join_call :: "jsval \<Rightarrow> string \<Rightarrow> string js" where
  "js_join_call v sep = (case v of JArr xs \<Rightarrow> Inr (js_arr_join sep xs) | _ \<Rightarrow> Inl TypeError)"

text \<open>A property read that cannot throw: the value is an object.\<close>

definition prop_of :: "jsval \<Rightarrow> string \<Rightarrow> jsval" where
  "prop_of v k = (case get_prop v k of Inl _ \<Rightarrow> JUndefined | Inr w \<Rightarrow> w)"

definition num_canon :: "int \<Rightarrow> nat \<Rightarrow> bool" where
  "num_canon m e \<longleftrightarrow> e = 0 \<or> \<not> (10 dvd m)"

subsection \<open>Rendering\<close>

text \<open>
  Text a JSX expression renders: strings and numbers as text, \<open>null\<close>, \<open>undefined\<close> and
  booleans as nothing, arrays as their elements in turn; an object is not a valid child and
  makes the render throw.
\<close>

fun jsx_text :: "jsval \<Rightarrow> string js" and jsx_texts :: "jsval list \<Rightarrow> string js" where
  "jsx_text JUndefined = Inr []"
| "jsx_text JNull = Inr []"
| "jsx_text (JBool b) = Inr []"
| "jsx_text (JNum m e) = Inr (show_num m e)"
| "jsx_text (JStr s) = Inr s"
| "jsx_text (JArr vs) = jsx_texts vs"
| "jsx_text (JObj ps) = Inl TypeError"
| "jsx_texts [] = Inr []"
| "jsx_texts (v # vs) = js_then (jsx_text v) (\<lambda>a. js_then (jsx_texts vs) (\<lambda>b. Inr (a @ b)))"

text \<open>\<open>a || b\<close> on values.\<close>

definition js_or :: "jsval \<Rightarrow> jsval \<Rightarrow> jsval" where
  "js_or a b = (if js_truthy a then a else b)"

text \<open>\<open>v?.[0]\<close>.\<close>

definition opt_index0 :: "jsval \<Rightarrow> jsval" where
  "opt_index0 v = (case v of JArr (x # _) \<Rightarrow> x | JStr (c # _) \<Rightarrow> JStr [c]
     | JObj ps \<Rightarrow> opt_prop v ''0'' | _ \<Rightarrow> JUndefined)"

lemma get_prop_total: "\<not> is_nullish x \<Longrightarrow> get_prop x f = Inr (prop_of x f)"
  by (cases x) (auto simp: is_nullish_def prop_of_def)

lemma js_filter_list_pure:
  "(\<And>x. x \<in> set xs \<Longrightarrow> p x = Inr (q x)) \<Longrightarrow> js_filter_list p xs = Inr (filter q xs)"
  by (induction xs) auto

lemma js_map_list_pure:
  "(\<And>x. x \<in> set xs \<Longrightarrow> f x = Inr (g x)) \<Longrightarrow> js_map_list f xs = Inr (map g xs)"
  by (induction xs) auto

lemma js_filter_list_total:
  "\<forall>x\<in>set xs. \<not> is_nullish x \<Longrightarrow>
   js_filter_list (field_is f u) xs = Inr (filter (\<lambda>x. prop_of x f = JStr u) xs)"
  by (rule js_filter_list_pure) (simp add: field_is_def get_prop_total)

lemma js_some_list_pure:
  "(\<And>x. x \<in> set xs \<Longrightarrow> p x = Inr (q x)) \<Longrightarrow> js_some_list p xs = Inr (\<exists>x\<in>set xs. q x)"
  by (induction xs) auto

subsection \<open>Decimal digits\<close>


lemma of_char_digit: "n < 10 \<Longrightarrow> of_char (char_of (48 + n)) = (48 + n :: nat)"
  by (simp add: of_char_of)

lemma digits_nat_ne: "digits_nat n \<noteq> []"
  by (subst digits_nat.simps) simp

lemma digits_nat_digit: "c \<in> set (digits_nat n) \<Longrightarrow> is_digit c"
proof (induction n rule: digits_nat.induct)
  case (1 n)
  show ?case
  proof (cases "n < 10")
    case True
    with "1.prems" show ?thesis
      by (subst (asm) digits_nat.simps) (simp add: is_digit_def of_char_digit)
  next
    case False
    with "1.prems" "1.IH" show ?thesis
      by (subst (asm) digits_nat.simps) (auto simp: is_digit_def of_char_digit)
  qed
qed

lemma digits_val_snoc: "digits_val (xs @ [c]) = 10 * digits_val xs + (of_char c - 48)"
  by (simp add: digits_val_def)

lemma foldl_digits_shift:
  "foldl (\<lambda>a d. 10 * a + (of_char d - (48 :: nat))) a ys =
   a * 10 ^ length ys + foldl (\<lambda>a d. 10 * a + (of_char d - (48 :: nat))) 0 ys"
proof (induction ys arbitrary: a)
  case (Cons y ys)
  show ?case
    using Cons.IH [of "10 * a + (of_char y - 48)"] Cons.IH [of "of_char y - 48"]
    by (simp add: algebra_simps)
qed simp

lemma digits_val_append: "digits_val (xs @ ys) = digits_val xs * 10 ^ length ys + digits_val ys"
  by (simp add: digits_val_def foldl_digits_shift [of "foldl _ 0 xs"])

lemma digits_val_digits_nat: "digits_val (digits_nat n) = n"
proof (induction n rule: digits_nat.induct)
  case (1 n)
  show ?case
  proof (cases "n < 10")
    case True
    then show ?thesis
      by (subst digits_nat.simps) (simp add: digits_val_def of_char_digit)
  next
    case False
    with "1.IH" show ?thesis
      by (subst digits_nat.simps) (simp add: digits_val_snoc of_char_digit)
  qed
qed

lemma digits_val_zeros: "digits_val (replicate k CHR ''0'') = 0"
  by (induction k) (simp_all add: digits_val_def)

lemma digits_nat_hd_zero: "hd (digits_nat n) = CHR ''0'' \<Longrightarrow> n = 0"
proof (induction n rule: digits_nat.induct)
  case (1 n)
  show ?case
  proof (cases "n < 10")
    case True
    with "1.prems" have "(of_char (char_of (48 + n)) :: nat) = of_char CHR ''0''"
      by (subst (asm) digits_nat.simps) simp
    with True show ?thesis by (simp add: of_char_digit)
  next
    case False
    with "1.prems" "1.IH" show ?thesis
      by (subst (asm) digits_nat.simps) (simp add: digits_nat_ne)
  qed
qed

lemma digits_nat_length: "n < 10 ^ e \<Longrightarrow> 0 < e \<Longrightarrow> length (digits_nat n) \<le> e"
proof (induction n arbitrary: e rule: digits_nat.induct)
  case (1 n)
  show ?case
  proof (cases "n < 10")
    case True
    with "1.prems" show ?thesis by (subst digits_nat.simps) simp
  next
    case False
    obtain e' where e: "e = Suc e'"
      using "1.prems" by (cases e) auto
    have "0 < e'"
      using False "1.prems" e by (cases e') auto
    with "1.prems" e have "n div 10 < 10 ^ e'"
      by (simp add: div_less_iff_less_mult mult.commute)
    with False "1.IH" \<open>0 < e'\<close> have "length (digits_nat (n div 10)) \<le> e'"
      by simp
    with False e show ?thesis by (subst digits_nat.simps) simp
  qed
qed

lemma digits_nat_lead: "hd (digits_nat n) = CHR ''0'' \<longrightarrow> tl (digits_nat n) = []"
proof
  assume "hd (digits_nat n) = CHR ''0''"
  then have "n = 0" by (rule digits_nat_hd_zero)
  then show "tl (digits_nat n) = []" by (subst digits_nat.simps) simp
qed

lemma all_digits_nat: "\<forall>c\<in>set (digits_nat n). is_digit c"
  using digits_nat_digit by blast

subsection \<open>Strings: split, join and trim\<close>

lemma js_split_append: "c \<notin> set x \<Longrightarrow> js_split c (x @ c # r) = x # js_split c r"
  by (induction x) auto

lemma js_split_join:
  "\<forall>x \<in> set xs. c \<notin> set x \<Longrightarrow> xs \<noteq> [] \<Longrightarrow> js_split c (js_join [c] xs) = xs"
proof (induction "[c]" xs rule: js_join.induct)
  case (2 x)
  then show ?case by (induction x) (auto split: list.split)
next
  case (3 x y zs)
  then show ?case by (simp add: js_split_append)
qed simp

lemma js_split_no_sep: "p \<in> set (js_split c s) \<Longrightarrow> c \<notin> set p"
  by (induction s arbitrary: p) (auto split: if_splits list.splits)

lemma set_dropWhile_sub: "set (dropWhile P xs) \<subseteq> set xs"
  by (induction xs) auto

lemma set_js_trim: "set (js_trim s) \<subseteq> set s"
  using set_dropWhile_sub [of js_ws s] set_dropWhile_sub [of js_ws "rev (dropWhile js_ws s)"]
  by (auto simp: js_trim_def)

lemma js_trim_fixed: "t = [] \<or> \<not> js_ws (hd t) \<and> \<not> js_ws (last t) \<Longrightarrow> js_trim t = t"
proof -
  assume a: "t = [] \<or> \<not> js_ws (hd t) \<and> \<not> js_ws (last t)"
  then have "dropWhile js_ws t = t" by (auto simp: dropWhile_eq_self_iff)
  moreover have "dropWhile js_ws (rev t) = rev t" using a by (auto simp: dropWhile_eq_self_iff hd_rev)
  ultimately show ?thesis by (simp add: js_trim_def)
qed

lemma last_dropWhile: "dropWhile P xs \<noteq> [] \<Longrightarrow> last (dropWhile P xs) = last xs"
  by (induction xs) auto

lemma js_trim_ends: "js_trim s = [] \<or> \<not> js_ws (hd (js_trim s)) \<and> \<not> js_ws (last (js_trim s))"
proof (cases "js_trim s = []")
  case False
  let ?d = "dropWhile js_ws s"
  let ?x = "dropWhile js_ws (rev ?d)"
  have x: "?x \<noteq> []" using False by (simp add: js_trim_def)
  have d: "?d \<noteq> []"
  proof
    assume h: "?d = []"
    have "?x = []" by (simp only: h rev.simps dropWhile.simps)
    then show False using x by blast
  qed
  have "\<not> js_ws (hd ?x)" using x by (simp add: hd_dropWhile)
  moreover have "last ?x = hd ?d" using x d by (simp add: last_dropWhile last_rev)
  moreover have "\<not> js_ws (hd ?d)" using d by (simp add: hd_dropWhile)
  ultimately show ?thesis using x by (simp add: js_trim_def hd_rev last_rev)
qed simp

lemma js_trim_idem: "js_trim (js_trim s) = js_trim s"
  by (rule js_trim_fixed [OF js_trim_ends])

subsection \<open>Exceptions through the array built-ins\<close>

lemma js_then_isl: "(\<And>a. isl (f a)) \<Longrightarrow> isl (js_then m f)"
  by (cases m) auto

lemma js_map_list_isl: "x \<in> set xs \<Longrightarrow> isl (f x) \<Longrightarrow> isl (js_map_list f xs)"
  by (induction xs) (auto simp: js_then_def split: sum.splits)

end
