(* ===== verification/Json.thy ===== *)
theory Json
  imports JsValue "HOL-Library.AList"
begin

text \<open>
  The text format of the persistence layer: every structured record the client keeps in
  \<open>localStorage\<close> is written with \<open>JSON.stringify\<close> and read back with \<open>JSON.parse\<close>.
  \<open>json_str\<close> is the printer; \<open>json_parse\<close> the parser, a pushdown automaton that
  consumes one token per step (so it terminates on the length of the input) and keeps
  the open arrays and objects on a stack of frames. The main result is the round trip
  \<open>json_parse (json_str v) = Inr v\<close> for every value \<open>JSON.stringify\<close> prints exactly.
\<close>

subsection \<open>Printing: JSON.stringify\<close>

definition hex_digit :: "nat \<Rightarrow> char" where
  "hex_digit n = (if n < 10 then char_of (48 + n) else char_of (87 + n))"

text \<open>The escapes \<open>JSON.stringify\<close> writes: quote, backslash and the control characters.\<close>

definition json_esc :: "char \<Rightarrow> string" where
  "json_esc c =
     (let n = (of_char c :: nat) in
      if n = 34 then [CHR 0x5C, CHR 0x22]
      else if n = 92 then [CHR 0x5C, CHR 0x5C]
      else if n = 8 then [CHR 0x5C, CHR ''b'']
      else if n = 9 then [CHR 0x5C, CHR ''t'']
      else if n = 10 then [CHR 0x5C, CHR ''n'']
      else if n = 12 then [CHR 0x5C, CHR ''f'']
      else if n = 13 then [CHR 0x5C, CHR ''r'']
      else if n < 32 then [CHR 0x5C, CHR ''u'', CHR ''0'', CHR ''0'', hex_digit (n div 16), hex_digit (n mod 16)]
      else [c])"

definition json_quote :: "string \<Rightarrow> string" where
  "json_quote s = CHR 0x22 # concat (map json_esc s) @ [CHR 0x22]"

text \<open>
  Inside an array \<open>undefined\<close> prints as \<open>null\<close>; an object member whose value is
  \<open>undefined\<close> is left out.
\<close>

fun json_str :: "jsval \<Rightarrow> string" where
  "json_str JUndefined = ''null''"
| "json_str JNull = ''null''"
| "json_str (JBool b) = (if b then ''true'' else ''false'')"
| "json_str (JNum m e) = show_num m e"
| "json_str (JStr s) = json_quote s"
| "json_str (JArr vs) = CHR ''['' # js_join '','' (map json_str vs) @ '']''"
| "json_str (JObj ps) =
     CHR ''{'' # js_join '',''
       (concat (map (\<lambda>(k, v). if v = JUndefined then [] else [json_quote k @ '':'' @ json_str v]) ps))
     @ ''}''"

subsection \<open>Tokens\<close>

definition json_ws :: "char \<Rightarrow> bool" where
  "json_ws c \<longleftrightarrow> of_char c \<in> {9, 10, 13, 32 :: nat}"

definition hex_val :: "char \<Rightarrow> nat option" where
  "hex_val c =
     (let n = (of_char c :: nat) in
      if 48 \<le> n \<and> n \<le> 57 then Some (n - 48)
      else if 97 \<le> n \<and> n \<le> 102 then Some (n - 87)
      else if 65 \<le> n \<and> n \<le> 70 then Some (n - 55)
      else None)"

definition hex4 :: "char \<Rightarrow> char \<Rightarrow> char \<Rightarrow> char \<Rightarrow> nat option" where
  "hex4 a b c d =
     (case (hex_val a, hex_val b, hex_val c, hex_val d) of
        (Some w, Some x, Some y, Some z) \<Rightarrow> Some (((w * 16 + x) * 16 + y) * 16 + z)
      | _ \<Rightarrow> None)"

text \<open>
  A \<open>\u\<close> escape denotes a UTF-16 code unit; strings are UTF-8 here, so it becomes one
  to three bytes. Surrogate halves (\<open>\uD800\<close>-\<open>\uDFFF\<close>) are outside the model.
\<close>

definition utf8_enc :: "nat \<Rightarrow> string option" where
  "utf8_enc n =
     (if n < 128 then Some [char_of n]
      else if n < 2048 then Some [char_of (192 + n div 64), char_of (128 + n mod 64)]
      else if 55296 \<le> n \<and> n < 57344 then None
      else Some [char_of (224 + n div 4096), char_of (128 + (n div 64) mod 64), char_of (128 + n mod 64)])"

definition simple_unesc :: "char \<Rightarrow> char option" where
  "simple_unesc d =
     (if d = CHR 0x22 \<or> d = CHR 0x5C \<or> d = CHR ''/'' then Some d
      else if d = CHR ''b'' then Some (char_of (8 :: nat))
      else if d = CHR ''f'' then Some (char_of (12 :: nat))
      else if d = CHR ''n'' then Some (char_of (10 :: nat))
      else if d = CHR ''r'' then Some (char_of (13 :: nat))
      else if d = CHR ''t'' then Some (char_of (9 :: nat))
      else None)"

text \<open>The body of a string literal after its opening quote: the text and the rest.\<close>

fun p_str :: "string \<Rightarrow> (string \<times> string) option" where
  "p_str [] = None"
| "p_str [c] = (if c = CHR 0x22 then Some ([], []) else None)"
| "p_str (c # d # r) =
     (if c = CHR 0x22 then Some ([], d # r)
      else if c = CHR 0x5C then
        (if d = CHR ''u'' then
           (case r of
              a # b # x # y # r' \<Rightarrow>
                (case hex4 a b x y of
                   None \<Rightarrow> None
                 | Some n \<Rightarrow>
                     (case utf8_enc n of
                        None \<Rightarrow> None
                      | Some bs \<Rightarrow> map_option (\<lambda>(s, t). (bs @ s, t)) (p_str r')))
            | _ \<Rightarrow> None)
         else
           (case simple_unesc d of
              None \<Rightarrow> None
            | Some ch \<Rightarrow> map_option (\<lambda>(s, t). (ch # s, t)) (p_str r)))
      else if of_char c < (32 :: nat) then None
      else map_option (\<lambda>(s, t). (c # s, t)) (p_str (d # r)))"

text \<open>Numbers: \<open>-? (0 | [1-9][0-9]* ) (. [0-9]+)? ([eE] [+-]? [0-9]+)?\<close>, kept canonical.\<close>

fun norm_num :: "int \<Rightarrow> nat \<Rightarrow> jsval" where
  "norm_num m 0 = JNum m 0"
| "norm_num m (Suc e) = (if m mod 10 = 0 then norm_num (m div 10) e else JNum m (Suc e))"

definition mk_num :: "bool \<Rightarrow> nat \<Rightarrow> nat \<Rightarrow> int \<Rightarrow> jsval" where
  "mk_num neg a e x =
     (let m = (if neg then - int a else int a); d = x - int e
      in if 0 \<le> d then JNum (m * 10 ^ nat d) 0 else norm_num m (nat (- d)))"

definition p_frac :: "string \<Rightarrow> bool \<times> string \<times> string" where
  "p_frac s =
     (if s \<noteq> [] \<and> hd s = CHR ''.''
      then (True, takeWhile is_digit (tl s), dropWhile is_digit (tl s))
      else (False, [], s))"

definition p_exp :: "string \<Rightarrow> bool \<times> int \<times> string" where
  "p_exp s =
     (if s \<noteq> [] \<and> (hd s = CHR ''e'' \<or> hd s = CHR ''E'') then
        let t = tl s;
            neg = (t \<noteq> [] \<and> hd t = CHR ''-'');
            t' = (if t \<noteq> [] \<and> (hd t = CHR ''-'' \<or> hd t = CHR ''+'') then tl t else t);
            xp = takeWhile is_digit t'
        in (xp \<noteq> [], if neg then - int (digits_val xp) else int (digits_val xp),
            dropWhile is_digit t')
      else (True, 0, s))"

definition p_num :: "string \<Rightarrow> (jsval \<times> string) option" where
  "p_num s =
    (let neg = (s \<noteq> [] \<and> hd s = CHR ''-'');
         s1 = (if neg then tl s else s);
         ip = takeWhile is_digit s1;
         (hasf, fp, s3) = p_frac (dropWhile is_digit s1);
         (oke, x, s6) = p_exp s3
     in if ip = [] \<or> (hd ip = CHR ''0'' \<and> tl ip \<noteq> []) \<or> (hasf \<and> fp = []) \<or> \<not> oke
        then None
        else Some (mk_num neg (digits_val (ip @ fp)) (length fp) x, s6))"

text \<open>A scalar token: literal, string or number.\<close>

definition p_scalar :: "string \<Rightarrow> (jsval \<times> string) option" where
  "p_scalar s =
     (case s of
        [] \<Rightarrow> None
      | c # r \<Rightarrow>
          if take 4 s = ''null'' then Some (JNull, drop 4 s)
          else if take 4 s = ''true'' then Some (JBool True, drop 4 s)
          else if take 5 s = ''false'' then Some (JBool False, drop 5 s)
          else if c = CHR 0x22 then map_option (\<lambda>(x, t). (JStr x, t)) (p_str r)
          else p_num s)"

subsection \<open>Parsing: JSON.parse\<close>

text \<open>
  The parser's stack holds the open containers: an array with the elements read so far,
  an object with its members, or an object whose next key has been read. The mode says
  what the next token may be. A completed value is handed to the frame below it by
  \<open>finish\<close>; a key read twice keeps its first position and takes the later value
  (\<open>AList.update\<close>), as \<open>JSON.parse\<close> does.
\<close>

datatype frame = FArr "jsval list" | FObj "(string \<times> jsval) list" | FKey "(string \<times> jsval) list" string

datatype pmode = MVal bool | MKey bool | MColon | MAfter | MTop jsval

definition finish :: "jsval \<Rightarrow> frame list \<Rightarrow> (pmode \<times> frame list) option" where
  "finish v st =
     (case st of
        [] \<Rightarrow> Some (MTop v, [])
      | FArr vs # st' \<Rightarrow> Some (MAfter, FArr (vs @ [v]) # st')
      | FKey ps k # st' \<Rightarrow> Some (MAfter, FObj (AList.update k v ps) # st')
      | FObj ps # st' \<Rightarrow> None)"

function pl :: "string \<Rightarrow> pmode \<Rightarrow> frame list \<Rightarrow> jsval js" where
  "pl [] m st = (case m of MTop v \<Rightarrow> Inr v | _ \<Rightarrow> Inl SyntaxError)"
| "pl (c # r) m st =
     (if json_ws c then pl r m st
      else case m of
        MTop v \<Rightarrow> Inl SyntaxError
      | MColon \<Rightarrow> (if c = CHR '':'' then pl r (MVal False) st else Inl SyntaxError)
      | MAfter \<Rightarrow>
          (if c = CHR '','' then
             (case st of
                FArr vs # st' \<Rightarrow> pl r (MVal False) st
              | FObj ps # st' \<Rightarrow> pl r (MKey False) st
              | _ \<Rightarrow> Inl SyntaxError)
           else if c = CHR '']'' then
             (case st of
                FArr vs # st' \<Rightarrow>
                  (case finish (JArr vs) st' of None \<Rightarrow> Inl SyntaxError | Some (m', st'') \<Rightarrow> pl r m' st'')
              | _ \<Rightarrow> Inl SyntaxError)
           else if c = CHR ''}'' then
             (case st of
                FObj ps # st' \<Rightarrow>
                  (case finish (JObj ps) st' of None \<Rightarrow> Inl SyntaxError | Some (m', st'') \<Rightarrow> pl r m' st'')
              | _ \<Rightarrow> Inl SyntaxError)
           else Inl SyntaxError)
      | MKey first \<Rightarrow>
          (if c = CHR ''}'' \<and> first then
             (case st of
                FObj ps # st' \<Rightarrow>
                  (case finish (JObj ps) st' of None \<Rightarrow> Inl SyntaxError | Some (m', st'') \<Rightarrow> pl r m' st'')
              | _ \<Rightarrow> Inl SyntaxError)
           else if c = CHR 0x22 then
             (case p_str r of
                None \<Rightarrow> Inl SyntaxError
              | Some (k, r') \<Rightarrow>
                  (case st of
                     FObj ps # st' \<Rightarrow> pl r' MColon (FKey ps k # st')
                   | _ \<Rightarrow> Inl SyntaxError))
           else Inl SyntaxError)
      | MVal first \<Rightarrow>
          (if c = CHR '']'' \<and> first then
             (case st of
                FArr vs # st' \<Rightarrow>
                  (case finish (JArr vs) st' of None \<Rightarrow> Inl SyntaxError | Some (m', st'') \<Rightarrow> pl r m' st'')
              | _ \<Rightarrow> Inl SyntaxError)
           else if c = CHR ''['' then pl r (MVal True) (FArr [] # st)
           else if c = CHR ''{'' then pl r (MKey True) (FObj [] # st)
           else
             (case p_scalar (c # r) of
                None \<Rightarrow> Inl SyntaxError
              | Some (v, r') \<Rightarrow>
                  (case finish v st of None \<Rightarrow> Inl SyntaxError | Some (m', st') \<Rightarrow> pl r' m' st'))))"
  by pat_completeness auto
definition json_parse :: "string \<Rightarrow> jsval js" where
  "json_parse s = pl s (MVal False) []"

definition num_stop :: "string \<Rightarrow> bool" where
  "num_stop r \<longleftrightarrow>
     (case r of [] \<Rightarrow> True | c # _ \<Rightarrow> \<not> is_digit c \<and> c \<noteq> CHR ''.'' \<and> c \<noteq> CHR ''e'' \<and> c \<noteq> CHR ''E'')"

text \<open>The values \<open>JSON.stringify\<close> prints exactly: no \<open>undefined\<close>, canonical numbers, distinct keys.\<close>

fun json_ok :: "jsval \<Rightarrow> bool" where
  "json_ok JUndefined = False"
| "json_ok JNull = True"
| "json_ok (JBool b) = True"
| "json_ok (JNum m e) = num_canon m e"
| "json_ok (JStr s) = True"
| "json_ok (JArr vs) = (\<forall>v \<in> set vs. json_ok v)"
| "json_ok (JObj ps) = (distinct (map fst ps) \<and> (\<forall>p \<in> set ps. json_ok (snd p)))"

definition pl_value_ok :: "jsval \<Rightarrow> bool" where
  "pl_value_ok v \<longleftrightarrow> (\<forall>r b st. num_stop r \<longrightarrow>
     pl (json_str v @ r) (MVal b) st =
     (case finish v st of None \<Rightarrow> Inl SyntaxError | Some (m', st') \<Rightarrow> pl r m' st'))"

text \<open>What the parser keeps on its stack: elements and members \<open>JSON.stringify\<close> prints
  exactly, and distinct keys in every open object.\<close>

fun frame_ok :: "frame \<Rightarrow> bool" where
  "frame_ok (FArr vs) = (\<forall>v \<in> set vs. json_ok v)"
| "frame_ok (FObj ps) = (distinct (map fst ps) \<and> (\<forall>p \<in> set ps. json_ok (snd p)))"
| "frame_ok (FKey ps k) = (distinct (map fst ps) \<and> (\<forall>p \<in> set ps. json_ok (snd p)))"

fun mode_ok :: "pmode \<Rightarrow> bool" where
  "mode_ok (MTop v) = json_ok v"
| "mode_ok m = True"

subsection \<open>Termination of the parser\<close>

lemma p_str_shorter: "p_str s = Some (x, r) \<Longrightarrow> length r < length s"
proof (induction s arbitrary: x r rule: p_str.induct)
  case (3 c d r)
  then show ?case
    by (fastforce split: if_splits option.splits list.splits)
qed (auto split: if_splits)

lemma dropWhile_shorter: "takeWhile P xs \<noteq> [] \<Longrightarrow> length (dropWhile P xs) < length xs"
  by (induction xs) (auto simp: le_imp_less_Suc length_dropWhile_le split: if_splits)

lemma p_frac_rest: "p_frac s = (h, f, r) \<Longrightarrow> length r \<le> length s"
  by (auto simp: p_frac_def split: if_splits intro: le_trans [OF length_dropWhile_le])

lemma p_exp_rest: "p_exp s = (h, x, r) \<Longrightarrow> length r \<le> length s"
  by (auto simp: p_exp_def Let_def split: if_splits intro: le_trans [OF length_dropWhile_le])

lemma p_num_shorter:
  assumes "p_num s = Some (v, r)"
  shows "length r < length s"
proof -
  define s1 where "s1 = (if s \<noteq> [] \<and> hd s = CHR ''-'' then tl s else s)"
  obtain h f s3 where f: "p_frac (dropWhile is_digit s1) = (h, f, s3)"
    by (cases "p_frac (dropWhile is_digit s1)") auto
  obtain ok x s6 where e: "p_exp s3 = (ok, x, s6)"
    by (cases "p_exp s3") auto
  from assms f e have ip: "takeWhile is_digit s1 \<noteq> []" and r: "r = s6"
    by (auto simp: p_num_def Let_def s1_def split: if_splits)
  have "length s6 \<le> length s3" using e by (rule p_exp_rest)
  also have "\<dots> \<le> length (dropWhile is_digit s1)" using f by (rule p_frac_rest)
  also have "\<dots> < length s1" using ip by (rule dropWhile_shorter)
  also have "\<dots> \<le> length s" by (simp add: s1_def)
  finally show ?thesis by (simp add: r)
qed

lemma p_scalar_shorter: "p_scalar s = Some (v, r) \<Longrightarrow> length r < length s"
  by (auto simp: p_scalar_def split: list.splits if_splits dest: p_str_shorter p_num_shorter)

termination pl
  by (relation "measure (\<lambda>(s, m, st). length s)")
     (auto dest: p_str_shorter p_scalar_shorter)

subsection \<open>Round trip\<close>

lemma take_drop_digits_conj:
  "\<forall>c\<in>set ds. is_digit c \<Longrightarrow> r = [] \<or> \<not> is_digit (hd r) \<Longrightarrow>
   takeWhile is_digit (ds @ r) = ds \<and> dropWhile is_digit (ds @ r) = r"
proof (induction ds)
  case Nil
  then show ?case by (cases r) auto
qed simp

lemma take_drop_digits:
  assumes "\<forall>c\<in>set ds. is_digit c" and "r = [] \<or> \<not> is_digit (hd r)"
  shows "takeWhile is_digit (ds @ r) = ds" and "dropWhile is_digit (ds @ r) = r"
  using take_drop_digits_conj [OF assms] by simp_all

lemma num_stop_hd: "num_stop r \<Longrightarrow> r = [] \<or> \<not> is_digit (hd r)"
  by (auto simp: num_stop_def split: list.splits)

lemma p_frac_stop: "num_stop r \<Longrightarrow> p_frac r = (False, [], r)"
  by (auto simp: num_stop_def p_frac_def split: list.splits)

lemma p_exp_stop: "num_stop r \<Longrightarrow> p_exp r = (True, 0, r)"
  by (auto simp: num_stop_def p_exp_def split: list.splits)

lemma p_frac_digits:
  "\<forall>c\<in>set fp. is_digit c \<Longrightarrow> num_stop r \<Longrightarrow> p_frac (CHR ''.'' # fp @ r) = (True, fp, r)"
  by (cases r) (simp_all add: p_frac_def num_stop_def)

lemma is_digit_chars [simp]:
  "\<not> is_digit CHR ''.''" "\<not> is_digit CHR ''-''"
  by (simp_all add: is_digit_def)

lemma p_num_layout:
  assumes ip: "ip \<noteq> []" "\<forall>c\<in>set ip. is_digit c" "hd ip = CHR ''0'' \<longrightarrow> tl ip = []"
    and fp: "\<forall>c\<in>set fp. is_digit c" and r: "num_stop r"
  shows "p_num ((if neg then [CHR ''-''] else []) @ ip @ (if fp = [] then [] else CHR ''.'' # fp) @ r)
         = Some (mk_num neg (digits_val (ip @ fp)) (length fp) 0, r)"
proof -
  let ?t = "(if fp = [] then [] else CHR ''.'' # fp) @ r"
  have t: "?t = [] \<or> \<not> is_digit (hd ?t)"
    using num_stop_hd [OF r] by auto
  have hd_ip: "hd ip \<noteq> CHR ''-''"
    using ip(1,2) by (cases ip) auto
  have tw: "takeWhile is_digit (ip @ ?t) = ip" and dw: "dropWhile is_digit (ip @ ?t) = ?t"
    using take_drop_digits [OF ip(2) t] by simp_all
  have fr: "p_frac ?t = (fp \<noteq> [], fp, r)"
    using fp r by (simp add: p_frac_stop p_frac_digits)
  show ?thesis
    using ip(1,3) hd_ip tw dw fr p_exp_stop [OF r]
    by (cases neg) (simp_all add: p_num_def Let_def)
qed

lemma norm_num_canon: "\<not> (10 dvd m) \<Longrightarrow> norm_num m e = JNum m e"
  by (cases e) (auto simp: dvd_eq_mod_eq_0)

lemma p_num_show:
  assumes canon: "num_canon m e" and r: "num_stop r"
  shows "p_num (show_num m e @ r) = Some (JNum m e, r)"
proof -
  define a where "a = nat \<bar>m\<bar>"
  have m: "(if m < 0 then - int a else int a) = m"
    by (simp add: a_def)
  show ?thesis
  proof (cases "e = 0")
    case True
    have "p_num ((if m < 0 then [CHR ''-''] else []) @ digits_nat a @ r) =
          Some (mk_num (m < 0) (digits_val (digits_nat a)) 0 0, r)"
      using p_num_layout [OF digits_nat_ne all_digits_nat digits_nat_lead _ r, of "[]" "m < 0"]
      by simp
    then show ?thesis
      using True m
      by (cases "m < 0") (simp_all add: show_num_def show_int_def a_def mk_num_def digits_val_digits_nat)
  next
    case False
    define fs where "fs = digits_nat (a mod 10 ^ e)"
    define fp where "fp = replicate (e - length fs) CHR ''0'' @ fs"
    have len_fs: "length fs \<le> e"
      using False by (simp add: fs_def digits_nat_length)
    then have len_fp: "length fp = e" by (simp add: fp_def)
    with False have fp_ne: "fp \<noteq> []" by auto
    have fp_digits: "\<forall>c\<in>set fp. is_digit c"
      unfolding fp_def fs_def using all_digits_nat [of "a mod 10 ^ e"] by (auto simp: is_digit_def)
    have val: "digits_val (digits_nat (a div 10 ^ e) @ fp) = a"
      using len_fp by (simp add: digits_val_append fp_def digits_val_zeros digits_val_digits_nat fs_def
                              div_mult_mod_eq)
    have "show_num m e @ r =
          (if m < 0 then [CHR ''-''] else []) @ digits_nat (a div 10 ^ e) @
          (if fp = [] then [] else CHR ''.'' # fp) @ r"
      using False fp_ne by (simp add: show_num_def a_def fs_def fp_def Let_def)
    also have "p_num \<dots> = Some (mk_num (m < 0) (digits_val (digits_nat (a div 10 ^ e) @ fp)) (length fp) 0, r)"
      by (rule p_num_layout [OF digits_nat_ne all_digits_nat digits_nat_lead fp_digits r])
    also have "\<dots> = Some (JNum m e, r)"
      using False canon m by (simp add: val len_fp mk_num_def num_canon_def norm_num_canon)
    finally show ?thesis .
  qed
qed

lemma hex_val_digit: "k < 16 \<Longrightarrow> hex_val (hex_digit k) = Some k"
  by (auto simp: hex_val_def hex_digit_def of_char_of Let_def)

lemma char_eq_of_char: "(c = d) \<longleftrightarrow> (of_char c :: nat) = of_char d"
  by (metis char_of_char)

lemma char_of_quote_backslash: "char_of (34 :: nat) = CHR 0x22" "char_of (92 :: nat) = CHR 0x5C"
  by (simp_all add: char_eq_of_char of_char_of)

lemma p_str_esc:
  assumes "rest \<noteq> []"
  shows "p_str (json_esc c @ rest) = map_option (\<lambda>(s, t). (c # s, t)) (p_str rest)"
proof -
  define n where "n = (of_char c :: nat)"
  have n256: "n < 256" by (simp add: n_def)
  obtain d r where rest: "rest = d # r" using assms by (cases rest) auto
  have c: "c = char_of n" by (simp add: n_def)
  consider "n = 34" | "n = 92" | "n = 8" | "n = 9" | "n = 10" | "n = 12" | "n = 13"
    | "n < 32" "n \<notin> {8, 9, 10, 12, 13}" | "32 \<le> n" "n \<noteq> 34" "n \<noteq> 92"
    by (cases "n < 32") auto
  then show ?thesis
  proof cases
    case 8
    then have "hex4 CHR ''0'' CHR ''0'' (hex_digit (n div 16)) (hex_digit (n mod 16)) = Some n"
      by (simp add: hex4_def hex_val_digit) (simp add: hex_val_def)
    with 8 show ?thesis
      by (simp add: json_esc_def n_def [symmetric] Let_def utf8_enc_def c rest)
  next
    case 9
    then show ?thesis
      by (simp add: json_esc_def n_def [symmetric] rest char_eq_of_char)
  qed (simp_all add: json_esc_def n_def [symmetric] simple_unesc_def c rest char_of_quote_backslash)
qed

lemma p_str_close [simp]: "p_str (CHR 0x22 # r) = Some ([], r)"
  by (cases r) simp_all

lemma p_str_quote: "p_str (concat (map json_esc s) @ CHR 0x22 # r) = Some (s, r)"
  by (induction s) (simp_all add: p_str_esc)

lemma pl_ws: "json_ws c \<Longrightarrow> pl (c # r) m st = pl r m st"
  by simp

lemma not_ws [simp]:
  "\<not> json_ws CHR ''[''" "\<not> json_ws CHR '']''" "\<not> json_ws CHR ''{''" "\<not> json_ws CHR ''}''"
  "\<not> json_ws CHR '',''" "\<not> json_ws CHR '':''" "\<not> json_ws CHR 0x22"
  by (simp_all add: json_ws_def)

lemma pl_open_arr: "pl (CHR ''['' # r) (MVal b) st = pl r (MVal True) (FArr [] # st)"
  by simp

lemma pl_empty_arr:
  "pl (CHR '']'' # r) (MVal True) (FArr vs # st) =
   (case finish (JArr vs) st of None \<Rightarrow> Inl SyntaxError | Some (m', st') \<Rightarrow> pl r m' st')"
  by simp

lemma pl_close_arr:
  "pl (CHR '']'' # r) MAfter (FArr vs # st) =
   (case finish (JArr vs) st of None \<Rightarrow> Inl SyntaxError | Some (m', st') \<Rightarrow> pl r m' st')"
  by simp

lemma pl_comma_arr: "pl (CHR '','' # r) MAfter (FArr vs # st) = pl r (MVal False) (FArr vs # st)"
  by simp

lemma pl_open_obj: "pl (CHR ''{'' # r) (MVal b) st = pl r (MKey True) (FObj [] # st)"
  by simp

lemma pl_empty_obj:
  "pl (CHR ''}'' # r) (MKey True) (FObj ps # st) =
   (case finish (JObj ps) st of None \<Rightarrow> Inl SyntaxError | Some (m', st') \<Rightarrow> pl r m' st')"
  by simp

lemma pl_close_obj:
  "pl (CHR ''}'' # r) MAfter (FObj ps # st) =
   (case finish (JObj ps) st of None \<Rightarrow> Inl SyntaxError | Some (m', st') \<Rightarrow> pl r m' st')"
  by simp

lemma pl_comma_obj: "pl (CHR '','' # r) MAfter (FObj ps # st) = pl r (MKey False) (FObj ps # st)"
  by simp

lemma pl_key:
  "p_str r = Some (k, r') \<Longrightarrow> pl (CHR 0x22 # r) (MKey b) (FObj ps # st) = pl r' MColon (FKey ps k # st)"
  by simp

lemma pl_colon: "pl (CHR '':'' # r) MColon st = pl r (MVal False) st"
  by simp

lemma pl_scalar:
  assumes "p_scalar (c # r) = Some (v, r')" "\<not> json_ws c" "c \<noteq> CHR '']''" "c \<noteq> CHR ''[''" "c \<noteq> CHR ''{''"
  shows "pl (c # r) (MVal b) st =
         (case finish v st of None \<Rightarrow> Inl SyntaxError | Some (m', st') \<Rightarrow> pl r' m' st')"
  using assms by simp

lemma show_num_head: "\<exists>c t. show_num m e = c # t \<and> (c = CHR ''-'' \<or> is_digit c)"
proof (cases "m < 0")
  case True
  then show ?thesis by (auto simp: show_num_def show_int_def Let_def)
next
  case False
  define n where "n = (if e = 0 then nat m else nat m div 10 ^ e)"
  obtain c t where ct: "digits_nat n = c # t"
    using digits_nat_ne [of n] by (cases "digits_nat n") auto
  then have "is_digit c"
    using all_digits_nat [of n] by simp
  moreover have "\<exists>u. show_num m e = c # u"
    using False ct by (auto simp: show_num_def show_int_def Let_def n_def split: if_splits)
  ultimately show ?thesis by blast
qed

lemma digit_not_letter:
  "is_digit c \<Longrightarrow> c \<noteq> CHR ''n'' \<and> c \<noteq> CHR ''t'' \<and> c \<noteq> CHR ''f'' \<and> c \<noteq> CHR 0x22 \<and>
     c \<noteq> CHR ''['' \<and> c \<noteq> CHR '']'' \<and> c \<noteq> CHR ''{'' \<and> \<not> json_ws c"
  by (auto simp: is_digit_def json_ws_def)

lemma pl_num:
  assumes "num_canon m e" "num_stop r"
  shows "pl (show_num m e @ r) (MVal b) st =
         (case finish (JNum m e) st of None \<Rightarrow> Inl SyntaxError | Some (m', st') \<Rightarrow> pl r m' st')"
proof -
  obtain c t where ct: "show_num m e = c # t" and c: "c = CHR ''-'' \<or> is_digit c"
    using show_num_head by blast
  have "p_scalar (c # t @ r) = Some (JNum m e, r)"
    using p_num_show [OF assms] ct c digit_not_letter [of c]
    by (auto simp: p_scalar_def json_ws_def)
  moreover have "\<not> json_ws c" "c \<noteq> CHR '']''" "c \<noteq> CHR ''[''" "c \<noteq> CHR ''{''"
    using c digit_not_letter [of c] by (auto simp: json_ws_def)
  ultimately show ?thesis
    using ct by (simp add: pl_scalar)
qed

lemma pl_str:
  "pl (json_quote s @ r) (MVal b) st =
   (case finish (JStr s) st of None \<Rightarrow> Inl SyntaxError | Some (m', st') \<Rightarrow> pl r m' st')"
proof -
  have "p_scalar (CHR 0x22 # concat (map json_esc s) @ CHR 0x22 # r) = Some (JStr s, r)"
    by (simp add: p_scalar_def p_str_quote)
  then show ?thesis
    by (simp add: json_quote_def pl_scalar)
qed

lemma update_fresh: "k \<notin> set (map fst ps) \<Longrightarrow> AList.update k v ps = ps @ [(k, v)]"
  by (induction ps) auto

lemma members_defined:
  "\<forall>p\<in>set ps. snd p \<noteq> JUndefined \<Longrightarrow>
   concat (map (\<lambda>(k, v). if v = JUndefined then [] else [json_quote k @ '':'' @ json_str v]) ps) =
   map (\<lambda>(k, v). json_quote k @ '':'' @ json_str v) ps"
  by (induction ps) auto

lemma json_ok_defined: "json_ok v \<Longrightarrow> v \<noteq> JUndefined"
  by auto

lemma num_stop_punct [simp]: "num_stop (CHR '','' # r)" "num_stop (CHR '']'' # r)" "num_stop (CHR ''}'' # r)"
  by (simp_all add: num_stop_def is_digit_def)

declare pl.simps(2) [simp del]

lemma pl_lit:
  "pl (CHR ''n'' # CHR ''u'' # CHR ''l'' # CHR ''l'' # r) (MVal b) st = (case finish JNull st of None \<Rightarrow> Inl SyntaxError | Some (m', st') \<Rightarrow> pl r m' st')"
  "pl (CHR ''t'' # CHR ''r'' # CHR ''u'' # CHR ''e'' # r) (MVal b) st = (case finish (JBool True) st of None \<Rightarrow> Inl SyntaxError | Some (m', st') \<Rightarrow> pl r m' st')"
  "pl (CHR ''f'' # CHR ''a'' # CHR ''l'' # CHR ''s'' # CHR ''e'' # r) (MVal b) st = (case finish (JBool False) st of None \<Rightarrow> Inl SyntaxError | Some (m', st') \<Rightarrow> pl r m' st')"
  by (simp_all add: pl_scalar p_scalar_def json_ws_def)

lemma pl_elems:
  assumes "\<forall>v\<in>set vs. pl_value_ok v" and "vs \<noteq> []"
  shows "pl (js_join '','' (map json_str vs) @ CHR '']'' # r) (MVal b) (FArr acc # st) =
         (case finish (JArr (acc @ vs)) st of None \<Rightarrow> Inl SyntaxError | Some (m', st') \<Rightarrow> pl r m' st')"
  using assms
proof (induction vs arbitrary: acc b rule: induct_list012)
  case (2 v)
  then show ?case
    by (simp add: pl_value_ok_def finish_def pl_close_arr)
next
  case (3 v w ws)
  then have "pl (json_str v @ CHR '','' # js_join '','' (map json_str (w # ws)) @ CHR '']'' # r) (MVal b) (FArr acc # st) =
             pl (js_join '','' (map json_str (w # ws)) @ CHR '']'' # r) (MVal False) (FArr (acc @ [v]) # st)"
    by (simp add: pl_value_ok_def finish_def pl_comma_arr)
  with "3.IH"(2) [where acc = "acc @ [v]" and b = False] "3.prems"(1) show ?case
    by simp
qed simp

lemma pl_members:
  assumes "\<forall>p\<in>set ps. pl_value_ok (snd p)" and "ps \<noteq> []"
    and "distinct (map fst (acc @ ps))"
  shows "pl (js_join '','' (map (\<lambda>(k, v). json_quote k @ '':'' @ json_str v) ps) @ CHR ''}'' # r)
            (MKey b) (FObj acc # st) =
         (case finish (JObj (acc @ ps)) st of None \<Rightarrow> Inl SyntaxError | Some (m', st') \<Rightarrow> pl r m' st')"
  using assms
proof (induction ps arbitrary: acc b rule: induct_list012)
  case (2 p)
  obtain k v where p: "p = (k, v)" by (cases p)
  with "2.prems" have "pl_value_ok v" and fresh: "k \<notin> set (map fst acc)" by auto
  then show ?case
    using p fresh
    by (simp add: pl_value_ok_def finish_def json_quote_def pl_key p_str_quote pl_colon
                  update_fresh pl_close_obj)
next
  case (3 p q qs)
  obtain k v where p: "p = (k, v)" by (cases p)
  with "3.prems" have "pl_value_ok v" and fresh: "k \<notin> set (map fst acc)" by auto
  then have "pl (json_quote k @ '':'' @ json_str v @ CHR '','' #
                 js_join '','' (map (\<lambda>(k, v). json_quote k @ '':'' @ json_str v) (q # qs)) @ CHR ''}'' # r)
               (MKey b) (FObj acc # st) =
             pl (js_join '','' (map (\<lambda>(k, v). json_quote k @ '':'' @ json_str v) (q # qs)) @ CHR ''}'' # r)
               (MKey False) (FObj (acc @ [(k, v)]) # st)"
    by (simp add: pl_value_ok_def finish_def json_quote_def pl_key p_str_quote pl_colon
                  update_fresh pl_comma_obj)
  with "3.IH"(2) [where acc = "acc @ [(k, v)]" and b = False] "3.prems" p show ?case
    by simp
qed simp

lemma pl_json_str: "json_ok v \<Longrightarrow> pl_value_ok v"
proof (induction v)
  case (JArr vs)
  then have IH: "\<forall>v\<in>set vs. pl_value_ok v" by simp
  show ?case
  proof (cases "vs = []")
    case True
    then show ?thesis by (simp add: pl_value_ok_def pl_open_arr pl_empty_arr)
  next
    case False
    show ?thesis
      unfolding pl_value_ok_def
      using pl_elems [OF IH False, of _ True "[]"] by (simp add: pl_open_arr)
  qed
next
  case (JObj ps)
  then have IH: "\<forall>p\<in>set ps. pl_value_ok (snd p)" and dist: "distinct (map fst ps)"
    and def: "\<forall>p\<in>set ps. snd p \<noteq> JUndefined"
    by (fastforce simp: json_ok_defined)+
  show ?case
  proof (cases "ps = []")
    case True
    then show ?thesis by (simp add: pl_value_ok_def pl_open_obj pl_empty_obj)
  next
    case False
    show ?thesis
      unfolding pl_value_ok_def
      using pl_members [OF IH False, of "[]" _ True] dist
      by (simp add: pl_open_obj members_defined [OF def])
  qed
qed (simp_all add: pl_value_ok_def pl_num pl_str pl_lit)

lemma num_stop_Nil: "num_stop []"
  by (simp add: num_stop_def)

theorem json_roundtrip: "json_ok v \<Longrightarrow> json_parse (json_str v) = Inr v"
proof -
  assume "json_ok v"
  then have "pl (json_str v @ []) (MVal False) [] =
             (case finish v [] of None \<Rightarrow> Inl SyntaxError | Some (m', st') \<Rightarrow> pl [] m' st')"
    using pl_json_str [of v] num_stop_Nil unfolding pl_value_ok_def by blast
  then show ?thesis by (simp add: json_parse_def finish_def)
qed

subsection \<open>Parsing yields printable values\<close>

lemma norm_num_ok: "json_ok (norm_num m e)"
  by (induction m e rule: norm_num.induct) (auto simp: num_canon_def dvd_eq_mod_eq_0)

lemma mk_num_ok: "json_ok (mk_num neg a e x)"
  by (simp add: mk_num_def Let_def norm_num_ok num_canon_def)

lemma p_scalar_ok: "p_scalar s = Some (v, r) \<Longrightarrow> json_ok v"
  by (auto simp: p_scalar_def p_num_def mk_num_ok Let_def split: list.splits if_splits prod.splits)

lemma update_values_ok:
  "\<forall>p \<in> set ps. json_ok (snd p) \<Longrightarrow> json_ok v \<Longrightarrow> \<forall>p \<in> set (AList.update k v ps). json_ok (snd p)"
  by (induction ps) auto

lemma finish_ok:
  assumes "finish v st = Some (m', st')" "json_ok v" "list_all frame_ok st"
  shows "mode_ok m' \<and> list_all frame_ok st'"
  using assms
  by (auto simp: finish_def distinct_update update_values_ok split: list.splits frame.splits)

lemma pl_ok: "pl s m st = Inr v \<Longrightarrow> mode_ok m \<Longrightarrow> list_all frame_ok st \<Longrightarrow> json_ok v"
proof (induction s arbitrary: m st rule: length_induct)
  case (1 s)
  note ih = "1.IH" [rule_format]
  have fin: "mode_ok m' \<and> list_all frame_ok st'"
    if "finish w st0 = Some (m', st')" "json_ok w" "list_all frame_ok st0" for w st0 m' st'
    using finish_ok that by blast
  show ?case
  proof (cases s)
    case Nil
    then show ?thesis using "1.prems" by (cases m) auto
  next
    case (Cons c r)
    have pl: "pl (c # r) m st = Inr v" "mode_ok m" "list_all frame_ok st"
      using "1.prems" Cons by simp_all
    have ihr: "json_ok v" if "pl r m' st' = Inr v" "mode_ok m'" "list_all frame_ok st'" for m' st'
      using ih [of r m' st'] that Cons by simp
    have ihs: "json_ok v" if "p_scalar (c # r) = Some (w, r')" "finish w st = Some (m', st')"
        "pl r' m' st' = Inr v" for w r' m' st'
      using ih [of r' m' st'] that pl(3) p_scalar_shorter [OF that(1)] fin [OF that(2)] p_scalar_ok [OF that(1)] Cons
      by simp
    have ihk: "json_ok v" if "p_str r = Some (k, r')" "pl r' MColon (FKey ps k # st') = Inr v"
        "list_all frame_ok (FKey ps k # st')" for k r' ps st'
      using ih [of r' MColon "FKey ps k # st'"] that p_str_shorter [OF that(1)] Cons by simp
    show ?thesis
    proof (cases m)
      case (MVal first)
      then show ?thesis using pl
        apply (simp add: pl.simps(2) split: if_splits list.splits frame.splits option.splits prod.splits)
        apply (auto intro: ihr ihs dest: fin)
        done
    next
      case (MKey first)
      then show ?thesis using pl
        apply (simp add: pl.simps(2) split: if_splits list.splits frame.splits option.splits prod.splits)
        apply (auto intro: ihr ihk dest: fin)
        done
    next
      case MColon
      then show ?thesis using pl by (auto simp: pl.simps(2) intro: ihr split: if_splits)
    next
      case MAfter
      then show ?thesis using pl
        apply (simp add: pl.simps(2) split: if_splits list.splits frame.splits option.splits prod.splits)
        apply (auto intro: ihr dest: fin)
        done
    next
      case (MTop x)
      then show ?thesis using pl by (auto simp: pl.simps(2) intro: ihr split: if_splits)
    qed
  qed
qed

lemma json_parse_ok: "json_parse s = Inr v \<Longrightarrow> json_ok v"
  unfolding json_parse_def using pl_ok by fastforce

text \<open>
  Parsing what was printed from a parse. Every value \<open>JSON.parse\<close> returns is
  one \<open>JSON.stringify\<close> prints exactly (canonical numbers, distinct keys, no
  \<open>undefined\<close>), so writing a parsed value back to the store and reading it again gives
  the same value: duplicate keys and non-canonical numbers are resolved by the first
  parse.
\<close>

theorem parse_print_parse: "json_parse s = Inr v \<Longrightarrow> json_parse (json_str v) = Inr v"
  using json_parse_ok json_roundtrip by blast

end
