(* ===== verification/Storage.thy ===== *)
theory Storage
  imports Json
begin

text \<open>
  The persistence accessor: the browser's \<open>localStorage\<close>, a map from keys to strings
  (\<open>getItem\<close> gives \<open>null\<close>, here \<open>None\<close>, for a missing key). The client reads
  structured records as \<open>JSON.parse(localStorage.getItem(k) || d)\<close>, with a default text
  \<open>d\<close> for a missing or empty entry, and writes them as
  \<open>localStorage.setItem(k, JSON.stringify(v))\<close>. The two results here are the
  persistence contract (a printable value written reads back) and its converse for the
  read-modify-write handlers: whatever was read can be written back unchanged.
\<close>

type_synonym store = "string \<rightharpoonup> string"

definition getItem :: "store \<Rightarrow> string \<Rightarrow> string option" where
  "getItem st k = st k"

definition setItem :: "store \<Rightarrow> string \<Rightarrow> string \<Rightarrow> store" where
  "setItem st k v = st(k \<mapsto> v)"

definition removeItem :: "store \<Rightarrow> string \<Rightarrow> store" where
  "removeItem st k = st(k := None)"

text \<open>\<open>localStorage.getItem(k) || d\<close>: \<open>null\<close> and the empty string are falsy.\<close>

definition item_or :: "store \<Rightarrow> string \<Rightarrow> string \<Rightarrow> string" where
  "item_or st k d = (case getItem st k of None \<Rightarrow> d | Some v \<Rightarrow> if v = [] then d else v)"

definition load_json :: "store \<Rightarrow> string \<Rightarrow> string \<Rightarrow> jsval js" where
  "load_json st k d = json_parse (item_or st k d)"

text \<open>\<open>JSON.stringify(undefined)\<close> is \<open>undefined\<close>, which \<open>setItem\<close> stores as its string.\<close>

definition js_stringify :: "jsval \<Rightarrow> string" where
  "js_stringify v = (if v = JUndefined then ''undefined'' else json_str v)"

definition save_json :: "store \<Rightarrow> string \<Rightarrow> jsval \<Rightarrow> store" where
  "save_json st k v = setItem st k (js_stringify v)"

lemma getItem_setItem [simp]: "getItem (setItem st k v) k' = (if k' = k then Some v else getItem st k')"
  by (simp add: getItem_def setItem_def)

lemma getItem_removeItem [simp]: "getItem (removeItem st k) k' = (if k' = k then None else getItem st k')"
  by (simp add: getItem_def removeItem_def)

lemma json_str_nonempty: "json_str v \<noteq> []"
  by (cases v) (auto simp: json_quote_def show_num_def show_int_def Let_def digits_nat_ne)

lemma load_json_other [simp]: "k' \<noteq> k \<Longrightarrow> load_json (save_json st k v) k' d = load_json st k' d"
  by (simp add: load_json_def save_json_def item_or_def)

lemma load_json_save_json: "json_ok v \<Longrightarrow> load_json (save_json st k v) k d = Inr v"
  using json_str_nonempty [of v]
  by (auto simp: load_json_def save_json_def item_or_def js_stringify_def json_roundtrip)

text \<open>
  The persistence contract. After \<open>setItem(k, JSON.stringify(v))\<close>, reading \<open>k\<close>
  back with \<open>JSON.parse\<close> gives exactly \<open>v\<close>, for every value \<open>JSON.stringify\<close>
  prints exactly, and every other key reads what it read before.
\<close>

theorem persist_read_back:
  "json_ok v \<Longrightarrow> load_json (save_json st k v) k' d = (if k' = k then Inr v else load_json st k' d)"
  by (simp add: load_json_save_json)

theorem persist_read_back_witness:
  "json_ok (JArr [JStr ''x'', JNum 9 1]) \<and>
   load_json (save_json Map.empty ''favorites'' (JArr [JStr ''x'', JNum 9 1])) ''favorites'' ''[]''
     = Inr (JArr [JStr ''x'', JNum 9 1])"
proof -
  have ok: "json_ok (JArr [JStr ''x'', JNum 9 1])" by (simp add: num_canon_def)
  show ?thesis using persist_read_back [OF ok, of Map.empty "''favorites''" "''favorites''"] ok by simp
qed


lemma demo_history_parse:
  "json_parse ''[1.50,{\"a\":1,\"a\":2}]'' = Inr (JArr [JNum 15 1, JObj [(''a'', JNum 2 0)]])"
  by code_simp

text \<open>
  Writing back what was read. Whatever text a key holds, a value read from it with
  \<open>JSON.parse\<close> and written back with \<open>JSON.stringify\<close>, as every read-modify-write
  handler of the client does, reads back as the same value, and every other key is
  unchanged: duplicate keys and non-canonical numbers are resolved by the first read.
\<close>

theorem read_write_back:
  "load_json st k d = Inr v \<Longrightarrow>
   load_json (save_json st k v) k' d' = (if k' = k then Inr v else load_json st k' d')"
proof -
  assume "load_json st k d = Inr v"
  then have "json_ok v" by (simp add: load_json_def json_parse_ok)
  then show ?thesis by (simp add: load_json_save_json)
qed

theorem read_write_back_witness:
  "load_json [''surveyHistory'' \<mapsto> ''[1.50,{\"a\":1,\"a\":2}]''] ''surveyHistory'' ''[]'' =
     Inr (JArr [JNum 15 1, JObj [(''a'', JNum 2 0)]]) \<and>
   load_json (save_json [''surveyHistory'' \<mapsto> ''[1.50,{\"a\":1,\"a\":2}]''] ''surveyHistory''
       (JArr [JNum 15 1, JObj [(''a'', JNum 2 0)]])) ''surveyHistory'' ''[]'' =
     Inr (JArr [JNum 15 1, JObj [(''a'', JNum 2 0)]])"
proof -
  have r: "load_json [''surveyHistory'' \<mapsto> ''[1.50,{\"a\":1,\"a\":2}]''] ''surveyHistory'' ''[]'' =
     Inr (JArr [JNum 15 1, JObj [(''a'', JNum 2 0)]])"
    by (simp add: load_json_def item_or_def getItem_def demo_history_parse)
  show ?thesis using read_write_back [OF r, of "''surveyHistory''" "''[]''"] r by simp
qed

end
