(* ===== verification/Badges.thy ===== *)
theory Badges
  imports Storage
begin

text \<open>
  The badge rules engine, \<open>src/src/BadgeDisplay.jsx\<close>: the catalog \<open>BADGES\<close> and
  \<open>getEarnedBadges(userId)\<close>, which reads the survey history, the favorites, the avatar,
  the login streak and the level from \<open>localStorage\<close> and pushes the key of every badge
  whose rule holds onto the array \<open>earned\<close>. The whole body is one \<open>try\<close> block whose
  \<open>catch\<close> is empty, and \<open>earned\<close> is declared outside it: a statement that throws
  keeps the keys pushed before it. \<open>earned_keys\<close> models that, statement by statement.
\<close>

record badge =
  key :: string
  label :: string
  icon :: string
  desc :: string

definition BADGES :: "badge list" where
  "BADGES = [
    \<lparr>key = ''first_survey'', label = ''First Survey'', icon = map char_of [240, 159, 142, 137 :: nat],
     desc = ''Completed your first career survey!''\<rparr>,
    \<lparr>key = ''five_surveys'', label = ''Survey Pro'', icon = map char_of [240, 159, 143, 133 :: nat],
     desc = ''Completed 5 career surveys.''\<rparr>,
    \<lparr>key = ''ten_surveys'', label = ''Survey Master'', icon = map char_of [240, 159, 165, 135 :: nat],
     desc = ''Completed 10 career surveys.''\<rparr>,
    \<lparr>key = ''streak_3'', label = ''3-Day Streak'', icon = map char_of [240, 159, 148, 165 :: nat],
     desc = ''Logged in 3 days in a row.''\<rparr>,
    \<lparr>key = ''streak_7'', label = ''7-Day Streak'', icon = map char_of [240, 159, 146, 175 :: nat],
     desc = ''Logged in 7 days in a row.''\<rparr>,
    \<lparr>key = ''level_5'', label = ''Level 5'', icon = map char_of [240, 159, 154, 128 :: nat],
     desc = ''Reached Level 5 engagement.''\<rparr>,
    \<lparr>key = ''first_favorite'', label = ''First Favorite'', icon = map char_of [226, 173, 144 :: nat],
     desc = ''Saved your first favorite career.''\<rparr>,
    \<lparr>key = ''profile_pic'', label = ''Profile Pic'', icon = map char_of [240, 159, 150, 188, 239, 184, 143 :: nat],
     desc = ''Uploaded a profile picture.''\<rparr>]"

text \<open>
  The pushes that depend on the survey count and the two counters, in source order
  (lines 23--28).
\<close>

definition count_keys :: "nat \<Rightarrow> int option \<Rightarrow> int option \<Rightarrow> string list" where
  "count_keys surveyCount loginStreak level =
     (if surveyCount > 0 then [''first_survey''] else []) @
     (if surveyCount \<ge> 5 then [''five_surveys''] else []) @
     (if surveyCount \<ge> 10 then [''ten_surveys''] else []) @
     (if ge_nan loginStreak 3 then [''streak_3''] else []) @
     (if ge_nan loginStreak 7 then [''streak_7''] else []) @
     (if ge_nan level 5 then [''level_5''] else [])"

definition earned_keys :: "store \<Rightarrow> string \<Rightarrow> string list" where
  "earned_keys st userId =
     (case load_json st ''surveyHistory'' ''[]'' of
        Inl _ \<Rightarrow> []
      | Inr history \<Rightarrow>
          (case load_json st ''favorites'' ''[]'' of
             Inl _ \<Rightarrow> []
           | Inr favs \<Rightarrow>
               (let avatar = getItem st (''avatar_'' @ userId);
                    loginStreak = js_parseInt (item_or st (''loginStreak_'' @ userId) ''0'');
                    level = js_parseInt (item_or st (''level_'' @ userId) ''1'')
                in case js_filter (field_is ''user_id'' userId) history of
                     Inl _ \<Rightarrow> []
                   | Inr hs \<Rightarrow>
                       (let earned = count_keys (length hs) loginStreak level
                        in case js_filter (field_is ''userId'' userId) favs of
                             Inl _ \<Rightarrow> earned
                           | Inr fs \<Rightarrow>
                               earned @ (if length fs > 0 then [''first_favorite''] else []) @
                               (if avatar \<noteq> None \<and> avatar \<noteq> Some [] then [''profile_pic''] else [])))))"

definition getEarnedBadges :: "store \<Rightarrow> string \<Rightarrow> badge list" where
  "getEarnedBadges st userId = filter (\<lambda>b. key b \<in> set (earned_keys st userId)) BADGES"

text \<open>\<open>BadgeDisplay\<close> renders nothing without a user.\<close>

definition BadgeDisplay :: "store \<Rightarrow> string \<Rightarrow> badge list option" where
  "BadgeDisplay st userId = (if userId = [] then None else Some (getEarnedBadges st userId))"

text \<open>The panel (lines 38--56): each badge's icon, label and description, or the
  placeholder when none is earned.\<close>

definition badge_render :: "store \<Rightarrow> string \<Rightarrow> string list option" where
  "badge_render st userId =
     map_option (\<lambda>badges. if badges = [] then [''No badges earned yet. Complete surveys and explore features!'']
                         else concat (map (\<lambda>b. [icon b, label b, desc b]) badges))
       (BadgeDisplay st userId)"

text \<open>The number of survey records of a user in a history whose entries are all objects.\<close>

definition survey_count :: "string \<Rightarrow> jsval list \<Rightarrow> nat" where
  "survey_count u hs = length (filter (\<lambda>h. prop_of h ''user_id'' = JStr u) hs)"

definition badge_keys :: "store \<Rightarrow> string \<Rightarrow> string list" where
  "badge_keys st u = map key (getEarnedBadges st u)"

text \<open>The pushes after \<open>favs.filter\<close> (lines 29--30), for the analysis of the rules.\<close>

definition fav_keys :: "store \<Rightarrow> string \<Rightarrow> jsval \<Rightarrow> string list" where
  "fav_keys st u favs =
     (case js_filter (field_is ''userId'' u) favs of
        Inl _ \<Rightarrow> []
      | Inr fs \<Rightarrow>
          (if length fs > 0 then [''first_favorite''] else []) @
          (if getItem st (''avatar_'' @ u) \<noteq> None \<and> getItem st (''avatar_'' @ u) \<noteq> Some []
           then [''profile_pic''] else []))"

text \<open>A survey record of user \<open>ann\<close>, as the examples below store it.\<close>

definition rec_ann :: jsval where
  "rec_ann = JObj [(''user_id'', JStr ''ann'')]"

lemma catalog_keys:
  "map key BADGES = [''first_survey'', ''five_surveys'', ''ten_surveys'', ''streak_3'', ''streak_7'',
                     ''level_5'', ''first_favorite'', ''profile_pic'']"
  by (simp add: BADGES_def)

lemma set_badge_keys: "set (badge_keys st u) = set (earned_keys st u) \<inter> set (map key BADGES)"
  by (auto simp: badge_keys_def getEarnedBadges_def)

lemma earned_keys_history:
  assumes "load_json st ''surveyHistory'' ''[]'' = Inr (JArr hs)" and "\<forall>h\<in>set hs. \<not> is_nullish h"
    and "load_json st ''favorites'' ''[]'' = Inr favs"
  shows "earned_keys st u =
           count_keys (survey_count u hs) (js_parseInt (item_or st (''loginStreak_'' @ u) ''0''))
             (js_parseInt (item_or st (''level_'' @ u) ''1'')) @ fav_keys st u favs"
  using assms
  by (auto simp: earned_keys_def fav_keys_def js_filter_def js_filter_list_total survey_count_def Let_def
           split: sum.splits)

lemma fav_keys_subset: "set (fav_keys st u favs) \<subseteq> {''first_favorite'', ''profile_pic''}"
  by (auto simp: fav_keys_def split: sum.splits)

lemma mem_count_keys:
  "k \<in> set (count_keys n a b) \<longleftrightarrow>
     (k = ''first_survey'' \<and> 0 < n) \<or> (k = ''five_surveys'' \<and> 5 \<le> n) \<or> (k = ''ten_surveys'' \<and> 10 \<le> n) \<or>
     (k = ''streak_3'' \<and> ge_nan a 3) \<or> (k = ''streak_7'' \<and> ge_nan a 7) \<or> (k = ''level_5'' \<and> ge_nan b 5)"
  by (simp add: count_keys_def)

lemma count_keys_mono: "n \<le> n' \<Longrightarrow> set (count_keys n a b) \<subseteq> set (count_keys n' a b)"
  unfolding subset_iff mem_count_keys by (meson le_trans less_le_trans)

lemma survey_key_not_fav:
  "''first_survey'' \<notin> set (fav_keys st u favs)" "''five_surveys'' \<notin> set (fav_keys st u favs)"
  "''ten_surveys'' \<notin> set (fav_keys st u favs)"
  using fav_keys_subset [of st u favs] by auto

lemma save_json_keeps:
  "k' \<noteq> k \<Longrightarrow> getItem (save_json st k v) k' = getItem st k'"
  "k' \<noteq> k \<Longrightarrow> item_or (save_json st k v) k' d = item_or st k' d"
  by (simp_all add: save_json_def item_or_def)

lemma fav_keys_save_history:
  "fav_keys (save_json st ''surveyHistory'' v) u favs = fav_keys st u favs"
proof -
  have av: "''avatar_'' @ u \<noteq> ''surveyHistory''" by simp
  show ?thesis by (simp only: fav_keys_def save_json_keeps(1) [OF av])
qed

lemma survey_count_append: "survey_count u hs \<le> survey_count u (hs @ [h])"
  by (simp add: survey_count_def)

text \<open>
  C1: the survey badges follow the user's survey count exactly: \<open>first_survey\<close> from
  one record on, \<open>five_surveys\<close> from five (four are not enough), \<open>ten_surveys\<close> from
  ten, whenever the stored history is an array of records and the favorites entry parses.
\<close>

theorem survey_badge_thresholds:
  assumes H: "load_json st ''surveyHistory'' ''[]'' = Inr (JArr hs)" "\<forall>h\<in>set hs. \<not> is_nullish h"
    and F: "load_json st ''favorites'' ''[]'' = Inr favs"
  shows "(''first_survey'' \<in> set (badge_keys st u) \<longleftrightarrow> 0 < survey_count u hs) \<and>
         (''five_surveys'' \<in> set (badge_keys st u) \<longleftrightarrow> 5 \<le> survey_count u hs) \<and>
         (''ten_surveys'' \<in> set (badge_keys st u) \<longleftrightarrow> 10 \<le> survey_count u hs)"
  using earned_keys_history [OF H F]
  by (simp add: set_badge_keys catalog_keys mem_count_keys survey_key_not_fav)

theorem survey_badge_thresholds_witness:
  "load_json (save_json (save_json Map.empty ''surveyHistory'' (JArr (replicate 5 rec_ann))) ''favorites'' (JArr []))
      ''surveyHistory'' ''[]'' = Inr (JArr (replicate 5 rec_ann)) \<and>
   \<not> is_nullish rec_ann \<and>
   load_json (save_json (save_json Map.empty ''surveyHistory'' (JArr (replicate 5 rec_ann))) ''favorites'' (JArr []))
      ''favorites'' ''[]'' = Inr (JArr []) \<and>
   ''five_surveys'' \<in> set (badge_keys (save_json (save_json Map.empty ''surveyHistory''
      (JArr (replicate 5 rec_ann))) ''favorites'' (JArr [])) ''ann'') \<and>
   ''ten_surveys'' \<notin> set (badge_keys (save_json (save_json Map.empty ''surveyHistory''
      (JArr (replicate 5 rec_ann))) ''favorites'' (JArr [])) ''ann'')"
proof -
  let ?st = "save_json (save_json Map.empty ''surveyHistory'' (JArr (replicate 5 rec_ann))) ''favorites'' (JArr [])"
  have h1: "load_json ?st ''surveyHistory'' ''[]'' = Inr (JArr (replicate 5 rec_ann))"
    by (simp add: load_json_save_json rec_ann_def num_canon_def)
  have h2: "\<forall>h\<in>set (replicate 5 rec_ann). \<not> is_nullish h"
    by (simp add: rec_ann_def is_nullish_def)
  have h3: "load_json ?st ''favorites'' ''[]'' = Inr (JArr [])"
    by (simp add: load_json_save_json)
  have "survey_count ''ann'' (replicate 5 rec_ann) = 5"
    by (simp add: survey_count_def rec_ann_def prop_of_def numeral_eq_Suc)
  with survey_badge_thresholds [OF h1 h2 h3, of "''ann''"] h1 h3 show ?thesis
    by (simp add: rec_ann_def is_nullish_def)
qed

text \<open>
  Badges are monotone in the history: appending a record to a well-formed stored
  history never takes a badge away.
\<close>

theorem badges_mono_history:
  assumes H: "load_json st ''surveyHistory'' ''[]'' = Inr (JArr hs)"
    and N: "\<forall>x\<in>set (hs @ [h]). \<not> is_nullish x" and ok: "json_ok (JArr (hs @ [h]))"
    and F: "load_json st ''favorites'' ''[]'' = Inr favs"
  shows "set (badge_keys st u) \<subseteq> set (badge_keys (save_json st ''surveyHistory'' (JArr (hs @ [h]))) u)"
proof -
  let ?st' = "save_json st ''surveyHistory'' (JArr (hs @ [h]))"
  define A where "A = js_parseInt (item_or st (''loginStreak_'' @ u) ''0'')"
  define B where "B = js_parseInt (item_or st (''level_'' @ u) ''1'')"
  have H': "load_json ?st' ''surveyHistory'' ''[]'' = Inr (JArr (hs @ [h]))"
    using ok by (rule load_json_save_json)
  have F': "load_json ?st' ''favorites'' ''[]'' = Inr favs"
    using F by simp
  have e: "earned_keys st u = count_keys (survey_count u hs) A B @ fav_keys st u favs"
    using earned_keys_history [OF H _ F] N by (simp add: A_def B_def)
  have e': "earned_keys ?st' u = count_keys (survey_count u (hs @ [h])) A B @ fav_keys st u favs"
    using earned_keys_history [OF H' N F'] by (simp add: save_json_keeps fav_keys_save_history A_def B_def)
  have "set (count_keys (survey_count u hs) A B) \<subseteq> set (count_keys (survey_count u (hs @ [h])) A B)"
    by (rule count_keys_mono [OF survey_count_append])
  then show ?thesis
    using e e' by (auto simp: set_badge_keys)
qed

theorem badges_mono_history_witness:
  "load_json (save_json Map.empty ''surveyHistory'' (JArr [rec_ann])) ''surveyHistory'' ''[]'' = Inr (JArr [rec_ann]) \<and>
   \<not> is_nullish rec_ann \<and> json_ok (JArr ([rec_ann] @ [rec_ann])) \<and>
   load_json (save_json Map.empty ''surveyHistory'' (JArr [rec_ann])) ''favorites'' ''[]'' = Inr (JArr []) \<and>
   set (badge_keys (save_json Map.empty ''surveyHistory'' (JArr [rec_ann])) ''ann'') \<subseteq>
   set (badge_keys (save_json (save_json Map.empty ''surveyHistory'' (JArr [rec_ann])) ''surveyHistory''
     (JArr ([rec_ann] @ [rec_ann]))) ''ann'')"
proof -
  let ?st = "save_json Map.empty ''surveyHistory'' (JArr [rec_ann])"
  have h1: "load_json ?st ''surveyHistory'' ''[]'' = Inr (JArr [rec_ann])"
    by (simp add: load_json_save_json rec_ann_def)
  have h2: "\<forall>x\<in>set ([rec_ann] @ [rec_ann]). \<not> is_nullish x"
    by (simp add: rec_ann_def is_nullish_def)
  have h3: "json_ok (JArr ([rec_ann] @ [rec_ann]))"
    by (simp add: rec_ann_def)
  have h4: "load_json ?st ''favorites'' ''[]'' = Inr (JArr [])"
    by code_simp
  show ?thesis
    using badges_mono_history [OF h1 h2 h3 h4, of "''ann''"] h1 h3 h4
    by (simp add: rec_ann_def is_nullish_def)
qed

lemma fav_keys_not_array: "\<forall>xs. favs \<noteq> JArr xs \<Longrightarrow> fav_keys st u favs = []"
  by (cases favs) (simp_all add: fav_keys_def js_filter_def)

lemma set_count_keys_catalog: "set (count_keys n a b) \<subseteq> set (map key BADGES)"
  unfolding catalog_keys subset_iff mem_count_keys by auto

lemma earned_keys_favorites_error:
  "load_json st ''favorites'' ''[]'' = Inl e \<Longrightarrow> earned_keys st u = []"
  by (simp add: earned_keys_def split: sum.splits)

text \<open>
  C31: the rules do not run independently, as the design asks: they share one
  \<open>try\<close> block. With a readable history, a favorites entry that parses but is not an
  array throws only at \<open>favs.filter\<close>, after the count badges are pushed: exactly the
  survey, streak and level badges remain, and \<open>first_favorite\<close> and \<open>profile_pic\<close>
  are lost even when an avatar is stored. Replacing that entry with any non-empty text
  that is not JSON throws at its \<open>JSON.parse\<close>, before any badge is pushed, and wipes
  every badge.
\<close>

theorem badges_abort_on_malformed_favorites:
  assumes H: "load_json st ''surveyHistory'' ''[]'' = Inr (JArr hs)" "\<forall>h\<in>set hs. \<not> is_nullish h"
    and F: "load_json st ''favorites'' ''[]'' = Inr favs" "\<forall>xs. favs \<noteq> JArr xs"
    and T: "t \<noteq> []" "json_parse t = Inl e"
  shows "set (badge_keys st u) =
           set (count_keys (survey_count u hs) (js_parseInt (item_or st (''loginStreak_'' @ u) ''0''))
                  (js_parseInt (item_or st (''level_'' @ u) ''1''))) \<and>
         getEarnedBadges (setItem st ''favorites'' t) u = []"
proof
  show "set (badge_keys st u) =
          set (count_keys (survey_count u hs) (js_parseInt (item_or st (''loginStreak_'' @ u) ''0''))
                 (js_parseInt (item_or st (''level_'' @ u) ''1'')))"
    using earned_keys_history [OF H F(1), of u] fav_keys_not_array [OF F(2), of st u]
    by (simp only: set_badge_keys append_Nil2 Int_absorb2 [OF set_count_keys_catalog])
  have "load_json (setItem st ''favorites'' t) ''favorites'' ''[]'' = Inl e"
    using T by (simp add: load_json_def item_or_def getItem_def setItem_def)
  then show "getEarnedBadges (setItem st ''favorites'' t) u = []"
    by (simp add: getEarnedBadges_def earned_keys_favorites_error)
qed

theorem badges_abort_on_malformed_favorites_witness:
  "set (badge_keys (save_json (setItem Map.empty ''favorites'' ''{}'') ''surveyHistory'' (JArr [rec_ann])) ''ann'')
     = {''first_survey''} \<and>
   getEarnedBadges (setItem (save_json (setItem Map.empty ''favorites'' ''{}'') ''surveyHistory'' (JArr [rec_ann]))
     ''favorites'' ''oops'') ''ann'' = []"
proof -
  let ?st = "save_json (setItem Map.empty ''favorites'' ''{}'') ''surveyHistory'' (JArr [rec_ann])"
  have h1: "load_json ?st ''surveyHistory'' ''[]'' = Inr (JArr [rec_ann])" by code_simp
  have h2: "\<forall>h\<in>set [rec_ann]. \<not> is_nullish h" by (simp add: rec_ann_def is_nullish_def)
  have h3: "load_json ?st ''favorites'' ''[]'' = Inr (JObj [])" by code_simp
  have h4: "\<forall>xs. JObj [] \<noteq> JArr xs" by simp
  have h5: "json_parse ''oops'' = Inl SyntaxError" by code_simp
  have c: "set (count_keys (survey_count ''ann'' [rec_ann]) (js_parseInt (item_or ?st (''loginStreak_'' @ ''ann'') ''0''))
             (js_parseInt (item_or ?st (''level_'' @ ''ann'') ''1''))) = {''first_survey''}"
    by code_simp
  show ?thesis
    using badges_abort_on_malformed_favorites [OF h1 h2 h3 h4 _ h5, of "''ann''"] c by simp
qed

end
