(* ===== verification/Dashboard.thy ===== *)
theory Dashboard
  imports Storage
begin

text \<open>
  The dashboard presenter, \<open>src/src/Dashboard.jsx\<close>: the favorite toggle
  \<open>handleFavorite\<close>, which reads the shared \<open>favorites\<close> list from \<open>localStorage\<close>,
  removes or appends the user's entry for a career and writes the list back; the
  roadmap checklist \<open>handleCheck\<close>; the text that \<open>handleCopy\<close> and
  \<open>handleDownload\<close> export; and the effect that loads the user's favorites and
  survey count. A handler returns the store after it ran and its result, or the
  exception it threw; a throw after \<open>setItem\<close> keeps the write.
\<close>

subsection \<open>Favorites\<close>

text \<open>
  The callback \<open>f => f.userId === userId && f.career === careerObj.career\<close>: the
  right operand of \<open>&&\<close> is read only when the left one holds.
\<close>

definition fav_match :: "string \<Rightarrow> jsval \<Rightarrow> jsval \<Rightarrow> bool js" where
  "fav_match userId careerObj f =
     js_then (get_prop f ''userId'') (\<lambda>a.
       if js_seq a (JStr userId) then
         js_then (get_prop f ''career'') (\<lambda>b.
           js_then (get_prop careerObj ''career'') (\<lambda>c. Inr (js_seq b c)))
       else Inr False)"

text \<open>\<open>[...favs, x]\<close>, reached only with an array (\<open>favs.some\<close> ran first).\<close>

definition js_spread_snoc :: "jsval \<Rightarrow> jsval \<Rightarrow> jsval list js" where
  "js_spread_snoc v x = (case v of JArr xs \<Rightarrow> Inr (xs @ [x]) | _ \<Rightarrow> Inl TypeError)"

definition fav_entry :: "string \<Rightarrow> jsval \<Rightarrow> jsval js" where
  "fav_entry userId careerObj =
     js_then (get_prop careerObj ''career'') (\<lambda>c. Inr (JObj [(''userId'', JStr userId), (''career'', c)]))"

definition fav_updated :: "store \<Rightarrow> string \<Rightarrow> jsval \<Rightarrow> jsval list js" where
  "fav_updated st userId careerObj =
     js_then (load_json st ''favorites'' ''[]'') (\<lambda>favs.
     js_then (js_some (fav_match userId careerObj) favs) (\<lambda>exists.
       if exists then js_filter (\<lambda>f. js_then (fav_match userId careerObj f) (\<lambda>b. Inr (\<not> b))) favs
       else js_then (fav_entry userId careerObj) (\<lambda>e. js_spread_snoc favs e)))"

definition handleFavorite :: "store \<Rightarrow> string \<Rightarrow> jsval \<Rightarrow> store \<times> jsval list js" where
  "handleFavorite st userId careerObj =
     (case fav_updated st userId careerObj of
        Inl e \<Rightarrow> (st, Inl e)
      | Inr updated \<Rightarrow>
          (save_json st ''favorites'' (JArr updated),
           js_filter (field_is ''userId'' userId) (JArr updated)))"

text \<open>\<open>isFav\<close> of the career list: \<open>favorites.some(f => f.career === c.career && f.userId === userId)\<close>.\<close>

definition isFav :: "jsval list \<Rightarrow> jsval \<Rightarrow> string \<Rightarrow> bool js" where
  "isFav favorites c userId =
     js_some_list (\<lambda>f. js_then (get_prop f ''career'') (\<lambda>a. js_then (get_prop c ''career'') (\<lambda>b.
        if js_seq a b then js_then (get_prop f ''userId'') (\<lambda>u. Inr (js_seq u (JStr userId))) else Inr False)))
       favorites"

text \<open>The effect on \<open>[userId]\<close>: the user's favorites and survey count; nothing catches a throw.\<close>

definition dashboard_load :: "store \<Rightarrow> string \<Rightarrow> (jsval list \<times> nat) js" where
  "dashboard_load st userId =
     js_then (load_json st ''favorites'' ''[]'') (\<lambda>favs.
     js_then (js_filter (field_is ''userId'' userId) favs) (\<lambda>mine.
     js_then (load_json st ''surveyHistory'' ''[]'') (\<lambda>history.
     js_then (js_filter (field_is ''user_id'' userId) history) (\<lambda>hs. Inr (mine, length hs)))))"

subsection \<open>Roadmap checklist\<close>

definition init_checked :: "jsval \<Rightarrow> bool list" where
  "init_checked result =
     replicate (case opt_prop (opt_prop result ''roadmap'') ''length'' of
                  JNum n 0 \<Rightarrow> nat n | _ \<Rightarrow> 0) False"

definition handleCheck :: "bool list \<Rightarrow> nat \<Rightarrow> bool list" where
  "handleCheck checked idx = map (\<lambda>(c, i). if i = idx then \<not> c else c) (zip checked [0..<length checked])"

subsection \<open>Export text\<close>

definition nl :: string where
  "nl = [CHR 0x0A]"

definition career_line :: "jsval \<Rightarrow> string js" where
  "career_line c =
     js_then (get_prop c ''career'') (\<lambda>a. js_then (get_prop c ''score'') (\<lambda>s.
       Inr (js_to_string a @ '' (Score: '' @ js_to_string s @ '')'')))"

definition export_text :: "jsval \<Rightarrow> string js" where
  "export_text result =
     js_then (get_prop result ''careers'') (\<lambda>cs.
     js_then (js_map career_line cs) (\<lambda>ls.
     js_then (get_prop result ''reasoning'') (\<lambda>r.
     js_then (get_prop result ''roadmap'') (\<lambda>rm.
     js_then (js_join_call rm '', '') (\<lambda>steps.
       Inr (''Top Careers:'' @ nl @ js_join '', '' ls @ nl @ ''Reasoning: '' @ js_to_string r @ nl @
            ''Roadmap: '' @ steps))))))"

text \<open>\<open>handleCopy\<close> writes the text to the clipboard and sets \<open>copied\<close>; \<open>handleDownload\<close> saves it as \<open>career_suggestions.txt\<close>.\<close>

definition handleCopy :: "jsval \<Rightarrow> (string \<times> bool) js" where
  "handleCopy result = js_then (export_text result) (\<lambda>text. Inr (text, True))"

definition handleDownload :: "jsval \<Rightarrow> (string \<times> string) js" where
  "handleDownload result = js_then (export_text result) (\<lambda>text. Inr (''career_suggestions.txt'', text))"
text \<open>The prediction result of the export example in the design document.\<close>

definition spec_result :: jsval where
  "spec_result = JObj [(''careers'', JArr [JObj [(''career'', JStr ''Software Engineer''), (''score'', JNum 9 1)]]),
     (''reasoning'', JStr ''Good fit''), (''roadmap'', JArr [JStr ''Learn Python'', JStr ''Build a project''])]"

subsection \<open>Checklist, export and load\<close>

text \<open>
  The checklist toggle \<open>checked.map((c, i) => i === idx ? !c : c)\<close> is the list
  update that negates the entry at \<open>idx\<close>, and leaves the list alone when \<open>idx\<close>
  is out of range.
\<close>

definition dash_favs :: jsval where
  "dash_favs = JArr [JObj [(''userId'', JStr ''ann''), (''career'', JStr ''Engineer'')],
                     JObj [(''userId'', JStr ''bob''), (''career'', JStr ''Nurse'')]]"

definition dash_hist :: jsval where
  "dash_hist = JArr [JObj [(''user_id'', JStr ''ann'')], JObj [(''user_id'', JStr ''bob'')],
                     JObj [(''user_id'', JStr ''ann'')]]"

lemma handleCheck_update:
  "handleCheck checked idx = (if idx < length checked then checked[idx := \<not> checked ! idx] else checked)"
  by (rule nth_equalityI) (auto simp: handleCheck_def nth_list_update)

lemma js_arr_join_str: "js_arr_join sep (map JStr xs) = js_join sep xs"
  by (simp add: js_arr_join_def comp_def join_elem_def is_nullish_def)

text \<open>
  C7. On a prediction result whose careers are objects, whose reasoning is a string and whose
  roadmap is an array of strings, the exported text is the fixed rendering of the design
  document: a header line, the careers as \<open>career (Score: score)\<close> joined by commas, the
  reasoning and the roadmap steps joined by commas, separated by newlines.
\<close>

theorem export_text_format:
  assumes "get_prop result ''careers'' = Inr (JArr cs)" "\<forall>c\<in>set cs. \<not> is_nullish c"
    "get_prop result ''reasoning'' = Inr (JStr r)" "get_prop result ''roadmap'' = Inr (JArr (map JStr steps))"
  shows "export_text result =
    Inr (''Top Careers:'' @ nl @
         js_join '', '' (map (\<lambda>c. js_to_string (prop_of c ''career'') @ '' (Score: '' @ js_to_string (prop_of c ''score'') @ '')'') cs) @
         nl @ ''Reasoning: '' @ r @ nl @ ''Roadmap: '' @ js_join '', '' steps)"
proof -
  have "js_map career_line (JArr cs) =
        Inr (map (\<lambda>c. js_to_string (prop_of c ''career'') @ '' (Score: '' @ js_to_string (prop_of c ''score'') @ '')'') cs)"
    using assms(2) unfolding js_map_def by (simp add: js_map_list_pure career_line_def get_prop_total)
  then show ?thesis
    using assms by (simp add: export_text_def js_join_call_def js_arr_join_str)
qed

lemma spec_export_string:
  "''Top Careers:'' @ nl @
     js_join '', '' (map (\<lambda>c. js_to_string (prop_of c ''career'') @ '' (Score: '' @ js_to_string (prop_of c ''score'') @ '')'')
       [JObj [(''career'', JStr ''Software Engineer''), (''score'', JNum 9 1)]]) @
     nl @ ''Reasoning: '' @ ''Good fit'' @ nl @ ''Roadmap: '' @ js_join '', '' [''Learn Python'', ''Build a project''] =
   ''Top Careers:'' @ [CHR 0x0A] @ ''Software Engineer (Score: 0.9)'' @ [CHR 0x0A] @
     ''Reasoning: Good fit'' @ [CHR 0x0A] @ ''Roadmap: Learn Python, Build a project''"
  by code_simp

theorem export_text_format_witness:
  "export_text spec_result = Inr (''Top Careers:'' @ [CHR 0x0A] @ ''Software Engineer (Score: 0.9)'' @ [CHR 0x0A] @
     ''Reasoning: Good fit'' @ [CHR 0x0A] @ ''Roadmap: Learn Python, Build a project'')"
proof -
  have "export_text spec_result =
    Inr (''Top Careers:'' @ nl @
         js_join '', '' (map (\<lambda>c. js_to_string (prop_of c ''career'') @ '' (Score: '' @ js_to_string (prop_of c ''score'') @ '')'')
           [JObj [(''career'', JStr ''Software Engineer''), (''score'', JNum 9 1)]]) @
         nl @ ''Reasoning: '' @ ''Good fit'' @ nl @ ''Roadmap: '' @ js_join '', '' [''Learn Python'', ''Build a project''])"
    by (rule export_text_format) (simp_all add: spec_result_def is_nullish_def)
  then show ?thesis by (simp only: spec_export_string)
qed

text \<open>
  When both stored collections parse to arrays of readable records, the dashboard's load
  effect returns the user's favorites, in stored order, and the number of the user's surveys.
\<close>

theorem dashboard_load_eq:
  assumes "load_json st ''favorites'' ''[]'' = Inr (JArr favs)" "\<forall>f\<in>set favs. \<not> is_nullish f"
    and "load_json st ''surveyHistory'' ''[]'' = Inr (JArr hs)" "\<forall>h\<in>set hs. \<not> is_nullish h"
  shows "dashboard_load st u = Inr (filter (\<lambda>f. prop_of f ''userId'' = JStr u) favs,
                                    length (filter (\<lambda>h. prop_of h ''user_id'' = JStr u) hs))"
  using assms by (simp add: dashboard_load_def js_filter_def js_filter_list_total)

lemma dash_loads:
  "load_json (save_json (save_json Map.empty ''favorites'' dash_favs) ''surveyHistory'' dash_hist) ''favorites'' ''[]'' =
     Inr (JArr [JObj [(''userId'', JStr ''ann''), (''career'', JStr ''Engineer'')],
                JObj [(''userId'', JStr ''bob''), (''career'', JStr ''Nurse'')]])"
  "load_json (save_json (save_json Map.empty ''favorites'' dash_favs) ''surveyHistory'' dash_hist) ''surveyHistory'' ''[]'' =
     Inr (JArr [JObj [(''user_id'', JStr ''ann'')], JObj [(''user_id'', JStr ''bob'')], JObj [(''user_id'', JStr ''ann'')]])"
  by (simp_all add: load_json_save_json dash_favs_def dash_hist_def num_canon_def)

theorem dashboard_load_eq_witness:
  "dashboard_load (save_json (save_json Map.empty ''favorites'' dash_favs) ''surveyHistory'' dash_hist) ''ann'' =
   Inr ([JObj [(''userId'', JStr ''ann''), (''career'', JStr ''Engineer'')]], 2)"
  using dashboard_load_eq [OF dash_loads(1) _ dash_loads(2), of "''ann''"]
  by (simp add: is_nullish_def prop_of_def)

text \<open>
  C33: The load effect catches nothing: when the stored favorites text is malformed, or parses
  to something other than an array, the effect throws instead of showing an empty list.
\<close>

theorem dashboard_load_malformed:
  assumes "\<forall>xs. load_json st ''favorites'' ''[]'' \<noteq> Inr (JArr xs)"
  shows "isl (dashboard_load st u)"
  using assms
  by (cases "load_json st ''favorites'' ''[]''") (auto simp: dashboard_load_def js_filter_def split: jsval.splits)

lemma parse_oops: "json_parse ''oops'' = Inl SyntaxError"
  by code_simp

theorem dashboard_load_malformed_witness:
  "isl (dashboard_load [''favorites'' \<mapsto> ''oops''] ''ann'')"
  using dashboard_load_malformed [of "[''favorites'' \<mapsto> ''oops'']"] parse_oops
  by (simp add: load_json_def item_or_def getItem_def)

end
