(* ===== verification/Favorites.thy ===== *)
theory Favorites
  imports Dashboard
begin

text \<open>
  The favorites of \<open>src/src/Dashboard.jsx\<close> as the data model describes them: a
  FavoriteMark membership set per user, duplicate-free per (user, career) pair, kept in one
  shared list under the \<open>favorites\<close> key. The theory gives the abstraction from the
  stored list to the sets, proves that \<open>handleFavorite\<close> refines the toggle on them, and
  that any sequence of clicks keeps the stored list well formed.
\<close>

subsection \<open>The favorite set the list stands for\<close>

text \<open>
  A career name read from the API is a primitive value (a string), so \<open>===\<close> on it
  is equality. An entry is the user's when its \<open>userId\<close> is the user's string, and a
  mark of career \<open>c\<close> when it is the user's and its \<open>career\<close> is \<open>c\<close>;
  \<open>fav_toggle_list\<close> is what \<open>handleFavorite\<close> computes from a well-formed list.
  The abstraction \<open>fav_abs\<close> maps a list to each user's set of marked careers
  (the FavoriteMark membership set of the data model), and \<open>toggle_set\<close> is the
  toggle on that set.
\<close>

definition prim_val :: "jsval \<Rightarrow> bool" where
  "prim_val v = (case v of JObj _ \<Rightarrow> False | JArr _ \<Rightarrow> False | _ \<Rightarrow> True)"

definition owned :: "string \<Rightarrow> jsval \<Rightarrow> bool" where
  "owned u f \<longleftrightarrow> prop_of f ''userId'' = JStr u"

definition fav_hit :: "string \<Rightarrow> jsval \<Rightarrow> jsval \<Rightarrow> bool" where
  "fav_hit u c f \<longleftrightarrow> owned u f \<and> prop_of f ''career'' = c"

definition fav_toggle_list :: "string \<Rightarrow> jsval \<Rightarrow> jsval list \<Rightarrow> jsval list" where
  "fav_toggle_list u c favs =
     (if \<exists>f\<in>set favs. fav_hit u c f then filter (\<lambda>f. \<not> fav_hit u c f) favs
      else favs @ [JObj [(''userId'', JStr u), (''career'', c)]])"

definition fav_set :: "string \<Rightarrow> jsval list \<Rightarrow> jsval set" where
  "fav_set u favs = {c. \<exists>f\<in>set favs. fav_hit u c f}"

definition fav_abs :: "jsval list \<Rightarrow> string \<Rightarrow> jsval set" where
  "fav_abs favs = (\<lambda>u. fav_set u favs)"

definition toggle_set :: "string \<Rightarrow> jsval \<Rightarrow> (string \<Rightarrow> jsval set) \<Rightarrow> string \<Rightarrow> jsval set" where
  "toggle_set u c F = F(u := (if c \<in> F u then F u - {c} else insert c (F u)))"

text \<open>A list the callbacks can read: no entry is \<open>null\<close> or \<open>undefined\<close>.\<close>

definition wf_favs :: "jsval list \<Rightarrow> bool" where
  "wf_favs favs \<longleftrightarrow> (\<forall>f\<in>set favs. \<not> is_nullish f)"

text \<open>The (user, career) pairs of the marks; the data model asks them to be duplicate-free.\<close>

definition mark_pairs :: "jsval list \<Rightarrow> (string \<times> jsval) list" where
  "mark_pairs favs =
     concat (map (\<lambda>f. case prop_of f ''userId'' of JStr u \<Rightarrow> [(u, prop_of f ''career'')] | _ \<Rightarrow> []) favs)"


text \<open>
  The conditions under which the handler computes its result: a career object whose name
  is a string, and a stored list that parses to an array of readable, duplicate-free marks.
  A run of clicks is a sequence of \<open>handleFavorite\<close> calls, each on the store the
  previous one left.
\<close>

definition career_ok :: "jsval \<Rightarrow> bool" where
  "career_ok careerObj \<longleftrightarrow> \<not> is_nullish careerObj \<and> prim_val (prop_of careerObj ''career'') \<and>
     json_ok (prop_of careerObj ''career'')"

definition fav_store_ok :: "store \<Rightarrow> bool" where
  "fav_store_ok st = (case load_json st ''favorites'' ''[]'' of
      Inr (JArr favs) \<Rightarrow> wf_favs favs \<and> json_ok (JArr favs) \<and> distinct (mark_pairs favs)
    | _ \<Rightarrow> False)"

definition favorite_clicks :: "store \<Rightarrow> (string \<times> jsval) list \<Rightarrow> store" where
  "favorite_clicks st clicks = foldl (\<lambda>s (u, careerObj). fst (handleFavorite s u careerObj)) st clicks"

definition toggle_all :: "(string \<Rightarrow> jsval set) \<Rightarrow> (string \<times> jsval) list \<Rightarrow> string \<Rightarrow> jsval set" where
  "toggle_all F clicks = foldl (\<lambda>G (u, careerObj). toggle_set u (prop_of careerObj ''career'') G) F clicks"

subsection \<open>The handler on well-formed lists\<close>

lemma owned_fun: "owned u = (\<lambda>f. prop_of f ''userId'' = JStr u)"
  by (simp add: owned_def fun_eq_iff)

lemma prop_of_entry [simp]:
  "prop_of (JObj [(''userId'', JStr u), (''career'', c)]) ''userId'' = JStr u"
  "prop_of (JObj [(''userId'', JStr u), (''career'', c)]) ''career'' = c"
  by (simp_all add: prop_of_def)

lemma js_seq_prim: "prim_val c \<Longrightarrow> js_seq a c = (a = c)"
  by (cases a) (auto simp: js_seq_def prim_val_def)

lemma fav_match_pure:
  assumes "\<not> is_nullish f" "\<not> is_nullish careerObj" "prim_val (prop_of careerObj ''career'')"
  shows "fav_match u careerObj f = Inr (fav_hit u (prop_of careerObj ''career'') f)"
proof -
  have "prim_val (JStr u)" by (simp add: prim_val_def)
  then show ?thesis
    using assms by (simp add: fav_match_def get_prop_total js_seq_prim fav_hit_def owned_def)
qed

lemma fav_updated_eq:
  assumes load: "load_json st ''favorites'' ''[]'' = Inr (JArr favs)" and wf: "wf_favs favs"
    and cobj: "\<not> is_nullish careerObj" and prim: "prim_val (prop_of careerObj ''career'')"
  shows "fav_updated st u careerObj = Inr (fav_toggle_list u (prop_of careerObj ''career'') favs)"
proof -
  have m: "\<And>f. f \<in> set favs \<Longrightarrow> fav_match u careerObj f = Inr (fav_hit u (prop_of careerObj ''career'') f)"
    using wf cobj prim by (simp add: wf_favs_def fav_match_pure)
  have some: "js_some (fav_match u careerObj) (JArr favs) =
               Inr (\<exists>f\<in>set favs. fav_hit u (prop_of careerObj ''career'') f)"
    unfolding js_some_def by (simp add: js_some_list_pure m)
  have filt: "js_filter (\<lambda>f. js_then (fav_match u careerObj f) (\<lambda>b. Inr (\<not> b))) (JArr favs) =
              Inr (filter (\<lambda>f. \<not> fav_hit u (prop_of careerObj ''career'') f) favs)"
    unfolding js_filter_def by (simp add: js_filter_list_pure m)
  show ?thesis
    using load some filt cobj
    by (simp add: fav_updated_def fav_toggle_list_def fav_entry_def get_prop_total js_spread_snoc_def)
qed

lemma handleFavorite_eq:
  assumes "load_json st ''favorites'' ''[]'' = Inr (JArr favs)" "wf_favs favs"
    "\<not> is_nullish careerObj" "prim_val (prop_of careerObj ''career'')"
  shows "handleFavorite st u careerObj =
         (save_json st ''favorites'' (JArr (fav_toggle_list u (prop_of careerObj ''career'') favs)),
          Inr (filter (owned u) (fav_toggle_list u (prop_of careerObj ''career'') favs)))"
proof -
  have wf': "wf_favs (fav_toggle_list u (prop_of careerObj ''career'') favs)"
    using assms(2) unfolding wf_favs_def fav_toggle_list_def by (auto simp: is_nullish_def)
  then show ?thesis
    using fav_updated_eq [OF assms]
    by (simp add: handleFavorite_def js_filter_def js_filter_list_total wf_favs_def owned_fun)
qed

lemma fav_hit_unique:
  "fav_hit u c f \<Longrightarrow> fav_hit u' c' f \<Longrightarrow> u' = u \<and> c' = c"
  by (simp add: fav_hit_def owned_def)

lemma fav_hit_entry:
  "fav_hit u' c' (JObj [(''userId'', JStr u), (''career'', c)]) \<longleftrightarrow> u' = u \<and> c' = c"
  by (auto simp: fav_hit_def owned_def)

lemma fav_set_filter:
  "fav_set u' (filter (\<lambda>f. \<not> fav_hit u c f) favs) = (if u' = u then fav_set u favs - {c} else fav_set u' favs)"
  unfolding fav_set_def by (auto dest: fav_hit_unique)

lemma fav_set_snoc:
  "fav_set u' (favs @ [JObj [(''userId'', JStr u), (''career'', c)]]) =
   (if u' = u then insert c (fav_set u favs) else fav_set u' favs)"
  unfolding fav_set_def by (auto simp only: fav_hit_entry set_append bex_Un set_simps bex_simps split: if_splits)

lemma fav_set_toggle:
  "fav_set u' (fav_toggle_list u c favs) =
   (if u' = u then (if c \<in> fav_set u favs then fav_set u favs - {c} else insert c (fav_set u favs))
    else fav_set u' favs)"
proof (cases "c \<in> fav_set u favs")
  case True
  then have "\<exists>f\<in>set favs. fav_hit u c f" by (simp add: fav_set_def)
  with True show ?thesis
    by (simp add: fav_toggle_list_def fav_set_filter)
next
  case False
  then have "\<not> (\<exists>f\<in>set favs. fav_hit u c f)" by (simp add: fav_set_def)
  with False show ?thesis
    by (simp add: fav_toggle_list_def fav_set_snoc)
qed

lemma fav_abs_toggle:
  "fav_abs (fav_toggle_list u c favs) = toggle_set u c (fav_abs favs)"
  by (simp add: fun_eq_iff fav_abs_def toggle_set_def fav_set_toggle)

lemma toggle_set_twice: "toggle_set u c (toggle_set u c F) = F"
  by (simp add: toggle_set_def fun_eq_iff insert_absorb)

lemma fav_toggle_list_twice:
  assumes "c \<notin> fav_set u favs"
  shows "fav_toggle_list u c (fav_toggle_list u c favs) = favs"
proof -
  have none: "\<forall>f\<in>set favs. \<not> fav_hit u c f" using assms by (simp add: fav_set_def)
  then have "fav_toggle_list u c favs = favs @ [JObj [(''userId'', JStr u), (''career'', c)]]"
    by (simp add: fav_toggle_list_def)
  then show ?thesis
    using none by (simp add: fav_toggle_list_def fav_hit_entry filter_id_if_none)
qed


lemma mark_pairs_Cons [simp]:
  "mark_pairs (f # fs) = (case prop_of f ''userId'' of JStr u \<Rightarrow> [(u, prop_of f ''career'')] | _ \<Rightarrow> []) @ mark_pairs fs"
  by (simp add: mark_pairs_def)

lemma mark_pairs_Nil [simp]: "mark_pairs [] = []"
  by (simp add: mark_pairs_def)

lemma mark_pairs_append [simp]: "mark_pairs (xs @ ys) = mark_pairs xs @ mark_pairs ys"
  by (simp add: mark_pairs_def)

lemma mem_mark_pairs: "(u, c) \<in> set (mark_pairs favs) \<longleftrightarrow> (\<exists>f\<in>set favs. fav_hit u c f)"
  by (induction favs) (auto simp: fav_hit_def owned_def split: jsval.splits)

lemma mark_pairs_filter_subset: "set (mark_pairs (filter P xs)) \<subseteq> set (mark_pairs xs)"
  by (induction xs) (auto split: jsval.splits)

lemma distinct_mark_pairs_filter: "distinct (mark_pairs xs) \<Longrightarrow> distinct (mark_pairs (filter P xs))"
proof (induction xs)
  case (Cons x xs)
  then show ?case
    using mark_pairs_filter_subset [of P xs] by (auto split: jsval.splits)
qed simp

lemma fav_toggle_distinct:
  "distinct (mark_pairs favs) \<Longrightarrow> distinct (mark_pairs (fav_toggle_list u c favs))"
  by (auto simp: fav_toggle_list_def distinct_mark_pairs_filter mem_mark_pairs)

lemma fav_toggle_ok:
  assumes "wf_favs favs" "json_ok (JArr favs)" "json_ok c"
  shows "wf_favs (fav_toggle_list u c favs) \<and> json_ok (JArr (fav_toggle_list u c favs))"
  using assms unfolding wf_favs_def fav_toggle_list_def by (auto simp: is_nullish_def)

lemma load_favorites_empty: "load_json Map.empty ''favorites'' ''[]'' = Inr (JArr [])"
  by code_simp

text \<open>
  C10. On a favorites list that parses to an array of readable entries, and a career whose
  name is a string, \<open>handleFavorite\<close> refines the toggle of the user's favorite set:
  the store afterwards holds a list whose favorite sets are those of the old list with
  the career toggled for this user alone, and the handler returns this user's entries of it.
\<close>

theorem handleFavorite_refines:
  assumes load: "load_json st ''favorites'' ''[]'' = Inr (JArr favs)"
    and wf: "wf_favs favs" and ok: "json_ok (JArr favs)"
    and cobj: "\<not> is_nullish careerObj" and c: "prop_of careerObj ''career'' = c"
    and prim: "prim_val c" and cok: "json_ok c"
  shows "\<exists>favs'. load_json (fst (handleFavorite st u careerObj)) ''favorites'' ''[]'' = Inr (JArr favs') \<and>
           fav_abs favs' = toggle_set u c (fav_abs favs) \<and>
           snd (handleFavorite st u careerObj) = Inr (filter (owned u) favs')"
proof -
  have ok': "json_ok (JArr (fav_toggle_list u c favs))"
    using fav_toggle_ok [OF wf ok cok] by blast
  show ?thesis
    using handleFavorite_eq [OF load wf cobj] prim c load_json_save_json [OF ok']
    by (simp add: fav_abs_toggle)
qed

theorem handleFavorite_refines_witness:
  "\<exists>favs'. load_json (fst (handleFavorite Map.empty ''ann'' (JObj [(''career'', JStr ''Engineer'')]))) ''favorites'' ''[]'' = Inr (JArr favs') \<and>
     fav_abs favs' = toggle_set ''ann'' (JStr ''Engineer'') (fav_abs []) \<and>
     snd (handleFavorite Map.empty ''ann'' (JObj [(''career'', JStr ''Engineer'')])) = Inr (filter (owned ''ann'') favs')"
  by (rule handleFavorite_refines [OF load_favorites_empty])
     (simp_all add: wf_favs_def is_nullish_def prop_of_def prim_val_def)

lemma handleFavorite_store:
  assumes load: "load_json st ''favorites'' ''[]'' = Inr (JArr favs)"
    and wf: "wf_favs favs" and ok: "json_ok (JArr favs)" and d: "distinct (mark_pairs favs)"
    and cok: "career_ok careerObj"
  shows "fst (handleFavorite st u careerObj) = save_json st ''favorites'' (JArr (fav_toggle_list u (prop_of careerObj ''career'') favs)) \<and>
         load_json (fst (handleFavorite st u careerObj)) ''favorites'' ''[]'' = Inr (JArr (fav_toggle_list u (prop_of careerObj ''career'') favs)) \<and>
         fav_store_ok (fst (handleFavorite st u careerObj))"
proof -
  let ?t = "fav_toggle_list u (prop_of careerObj ''career'') favs"
  have c: "\<not> is_nullish careerObj" "prim_val (prop_of careerObj ''career'')" "json_ok (prop_of careerObj ''career'')"
    using cok by (simp_all add: career_ok_def)
  have t: "wf_favs ?t \<and> json_ok (JArr ?t)" using fav_toggle_ok [OF wf ok c(3)] .
  have lt: "load_json (save_json st ''favorites'' (JArr ?t)) ''favorites'' ''[]'' = Inr (JArr ?t)"
    using t load_json_save_json by blast
  show ?thesis
    using handleFavorite_eq [OF load wf c(1,2)] lt t fav_toggle_distinct [OF d]
    by (simp add: fav_store_ok_def)
qed

text \<open>
  Any sequence of favorite clicks, by any users on any string-named careers, keeps the
  stored favorites list parsable, readable and free of duplicate (user, career) marks, and
  the favorite sets it stands for are those of the old list toggled click by click.
\<close>

theorem favorite_clicks_refine:
  assumes "load_json st ''favorites'' ''[]'' = Inr (JArr favs)" "fav_store_ok st"
    and "list_all (\<lambda>(u, careerObj). career_ok careerObj) clicks"
  shows "\<exists>favs'. load_json (favorite_clicks st clicks) ''favorites'' ''[]'' = Inr (JArr favs') \<and>
           fav_store_ok (favorite_clicks st clicks) \<and> fav_abs favs' = toggle_all (fav_abs favs) clicks"
  using assms
proof (induction clicks arbitrary: st favs)
  case Nil
  then show ?case by (simp add: favorite_clicks_def toggle_all_def)
next
  case (Cons x clicks)
  obtain u careerObj where x: "x = (u, careerObj)" by fastforce
  have ok: "wf_favs favs" "json_ok (JArr favs)" "distinct (mark_pairs favs)"
    using Cons.prems(1,2) by (simp_all add: fav_store_ok_def)
  have cok: "career_ok careerObj" using Cons.prems(3) x by simp
  let ?st = "fst (handleFavorite st u careerObj)"
  let ?t = "fav_toggle_list u (prop_of careerObj ''career'') favs"
  have step: "load_json ?st ''favorites'' ''[]'' = Inr (JArr ?t)" "fav_store_ok ?st"
    using handleFavorite_store [OF Cons.prems(1) ok cok, of u] by blast+
  have "list_all (\<lambda>(u, careerObj). career_ok careerObj) clicks" using Cons.prems(3) by simp
  then obtain favs' where "load_json (favorite_clicks ?st clicks) ''favorites'' ''[]'' = Inr (JArr favs')"
      "fav_store_ok (favorite_clicks ?st clicks)" "fav_abs favs' = toggle_all (fav_abs ?t) clicks"
    using Cons.IH [OF step] by blast
  then show ?case
    by (auto simp: x favorite_clicks_def toggle_all_def fav_abs_toggle)
qed

lemma fav_store_ok_empty: "fav_store_ok Map.empty"
  by code_simp

lemma career_ok_str: "career_ok (JObj [(''career'', JStr c)])"
  by (simp add: career_ok_def is_nullish_def prop_of_def prim_val_def)

theorem favorite_clicks_refine_witness:
  "\<exists>favs'. load_json (favorite_clicks Map.empty [(''ann'', JObj [(''career'', JStr ''Engineer'')]),
        (''bob'', JObj [(''career'', JStr ''Engineer'')]), (''ann'', JObj [(''career'', JStr ''Engineer'')])])
        ''favorites'' ''[]'' = Inr (JArr favs') \<and>
     fav_store_ok (favorite_clicks Map.empty [(''ann'', JObj [(''career'', JStr ''Engineer'')]),
        (''bob'', JObj [(''career'', JStr ''Engineer'')]), (''ann'', JObj [(''career'', JStr ''Engineer'')])]) \<and>
     fav_abs favs' = toggle_all (fav_abs []) [(''ann'', JObj [(''career'', JStr ''Engineer'')]),
        (''bob'', JObj [(''career'', JStr ''Engineer'')]), (''ann'', JObj [(''career'', JStr ''Engineer'')])]"
  by (rule favorite_clicks_refine [OF load_favorites_empty fav_store_ok_empty]) (simp add: career_ok_str)

text \<open>
  C2. Toggling the same career twice for the same user restores the user's favorite set
  and every other user's; when the career was not a favorite, the stored list itself
  comes back unchanged.
\<close>

theorem handleFavorite_twice:
  assumes load: "load_json st ''favorites'' ''[]'' = Inr (JArr favs)" and ok: "fav_store_ok st"
    and cok: "career_ok careerObj"
  shows "\<exists>favs''. load_json (fst (handleFavorite (fst (handleFavorite st u careerObj)) u careerObj)) ''favorites'' ''[]'' = Inr (JArr favs'') \<and>
           fav_abs favs'' = fav_abs favs \<and>
           (prop_of careerObj ''career'' \<notin> fav_set u favs \<longrightarrow> favs'' = favs)"
proof -
  let ?c = "prop_of careerObj ''career''"
  have okf: "wf_favs favs" "json_ok (JArr favs)" "distinct (mark_pairs favs)"
    using load ok by (simp_all add: fav_store_ok_def)
  have s1: "load_json (fst (handleFavorite st u careerObj)) ''favorites'' ''[]'' = Inr (JArr (fav_toggle_list u ?c favs))"
    "fav_store_ok (fst (handleFavorite st u careerObj))"
    using handleFavorite_store [OF load okf cok, of u] by blast+
  have okt: "wf_favs (fav_toggle_list u ?c favs)" "json_ok (JArr (fav_toggle_list u ?c favs))"
    "distinct (mark_pairs (fav_toggle_list u ?c favs))"
    using s1 by (simp_all add: fav_store_ok_def)
  have s2: "load_json (fst (handleFavorite (fst (handleFavorite st u careerObj)) u careerObj)) ''favorites'' ''[]'' =
      Inr (JArr (fav_toggle_list u ?c (fav_toggle_list u ?c favs)))"
    using handleFavorite_store [OF s1(1) okt cok, of u] by blast
  then show ?thesis
    by (simp add: fav_abs_toggle toggle_set_twice fav_toggle_list_twice)
qed

theorem handleFavorite_twice_witness:
  "\<exists>favs''. load_json (fst (handleFavorite (fst (handleFavorite Map.empty ''ann'' (JObj [(''career'', JStr ''Engineer'')])))
        ''ann'' (JObj [(''career'', JStr ''Engineer'')]))) ''favorites'' ''[]'' = Inr (JArr favs'') \<and>
     fav_abs favs'' = fav_abs [] \<and> favs'' = []"
proof -
  have "JStr ''Engineer'' \<notin> fav_set ''ann'' []" by (simp add: fav_set_def)
  then show ?thesis
    using handleFavorite_twice [OF load_favorites_empty fav_store_ok_empty career_ok_str, of "''ann''" "''Engineer''"]
    by (simp add: prop_of_def)
qed

text \<open>
  C32. When the stored favorites do not parse to an array (malformed text, or an object),
  \<open>handleFavorite\<close> throws before it writes: the store is unchanged.
\<close>

theorem handleFavorite_abort:
  assumes "\<forall>xs. load_json st ''favorites'' ''[]'' \<noteq> Inr (JArr xs)"
  shows "fst (handleFavorite st u careerObj) = st \<and> isl (snd (handleFavorite st u careerObj))"
proof -
  have "isl (fav_updated st u careerObj)"
    using assms by (cases "load_json st ''favorites'' ''[]''") (auto simp: fav_updated_def js_some_def split: jsval.splits)
  then show ?thesis
    by (auto simp: handleFavorite_def split: sum.splits)
qed

lemma load_favorites_object: "load_json [''favorites'' \<mapsto> ''{}''] ''favorites'' ''[]'' = Inr (JObj [])"
  by code_simp

theorem handleFavorite_abort_witness:
  "fst (handleFavorite [''favorites'' \<mapsto> ''{}''] ''ann'' (JObj [(''career'', JStr ''Engineer'')])) = [''favorites'' \<mapsto> ''{}''] \<and>
   isl (snd (handleFavorite [''favorites'' \<mapsto> ''{}''] ''ann'' (JObj [(''career'', JStr ''Engineer'')])))"
  using handleFavorite_abort [of "[''favorites'' \<mapsto> ''{}'']"] load_favorites_object by simp

end
