(* ===== verification/Base64.thy ===== *)
theory Base64
  imports Json
begin

text \<open>
  The browser's \<open>btoa\<close> and \<open>atob\<close> (the forgiving-base64 encode and decode of the
  HTML standard) on byte strings. \<open>App.jsx\<close> decodes the payload segment of the access
  token with \<open>atob\<close>; \<open>btoa\<close> is the encoder a token issuer would use, and is here to
  state the round trip.
\<close>

definition b64_char :: "nat \<Rightarrow> char" where
  "b64_char n =
     (if n < 26 then char_of (65 + n) else if n < 52 then char_of (71 + n)
      else if n < 62 then char_of (n - 4) else if n = 62 then CHR ''+'' else CHR ''/'')"

definition b64_val :: "char \<Rightarrow> nat option" where
  "b64_val c =
     (let k = of_char c :: nat in
      if 65 \<le> k \<and> k \<le> 90 then Some (k - 65) else if 97 \<le> k \<and> k \<le> 122 then Some (k - 71)
      else if 48 \<le> k \<and> k \<le> 57 then Some (k + 4) else if c = CHR ''+'' then Some 62
      else if c = CHR ''/'' then Some 63 else None)"

text \<open>The 6-bit groups of a byte string, without padding.\<close>

fun b64_enc :: "string \<Rightarrow> nat list" where
  "b64_enc (a # b # c # r) =
     (let n = of_char a * 65536 + of_char b * 256 + of_char c
      in [n div 262144, n div 4096 mod 64, n div 64 mod 64, n mod 64] @ b64_enc r)"
| "b64_enc [a, b] = (let n = of_char a * 1024 + of_char b * 4 in [n div 4096, n div 64 mod 64, n mod 64])"
| "b64_enc [a] = (let n = of_char a * 16 in [n div 64, n mod 64])"
| "b64_enc [] = []"

definition btoa :: "string \<Rightarrow> string" where
  "btoa s = map b64_char (b64_enc s) @ replicate ((3 - length s mod 3) mod 3) CHR ''=''"

text \<open>Bytes from 6-bit groups; the bits left over at the end are discarded.\<close>

fun b64_dec :: "nat list \<Rightarrow> string" where
  "b64_dec (a # b # c # d # r) =
     (let n = a * 262144 + b * 4096 + c * 64 + d
      in [char_of (n div 65536), char_of (n div 256 mod 256), char_of (n mod 256)] @ b64_dec r)"
| "b64_dec [a, b, c] = (let n = a * 4096 + b * 64 + c in [char_of (n div 1024), char_of (n div 4 mod 256)])"
| "b64_dec [a, b] = [char_of ((a * 64 + b) div 16)]"
| "b64_dec [a] = []"
| "b64_dec [] = []"

definition b64_ws :: "char \<Rightarrow> bool" where
  "b64_ws c \<longleftrightarrow> of_char c \<in> {9, 10, 12, 13, 32 :: nat}"

text \<open>At most \<open>n\<close> leading \<open>=\<close> removed.\<close>

fun drop_eqs :: "nat \<Rightarrow> string \<Rightarrow> string" where
  "drop_eqs n (c # r) = (if 0 < n \<and> c = CHR ''='' then drop_eqs (n - 1) r else c # r)"
| "drop_eqs n [] = []"

text \<open>A length divisible by 4 loses one or two trailing \<open>=\<close>.\<close>

definition strip_pad :: "string \<Rightarrow> string" where
  "strip_pad t = (if length t mod 4 = 0 then rev (drop_eqs 2 (rev t)) else t)"

definition atob :: "string \<Rightarrow> string js" where
  "atob s =
     (let t = strip_pad (filter (\<lambda>c. \<not> b64_ws c) s)
      in if length t mod 4 = 1 then Inl InvalidCharacterError
         else case those (map b64_val t) of None \<Rightarrow> Inl InvalidCharacterError | Some vs \<Rightarrow> Inr (b64_dec vs))"

lemma b64_val_char: "n < 64 \<Longrightarrow> b64_val (b64_char n) = Some n"
  by (auto simp: b64_char_def b64_val_def Let_def)

lemma regroup6: "n div 262144 * 262144 + n div 4096 mod 64 * 4096 + n div 64 mod 64 * 64 + n mod 64 = (n :: nat)"
proof -
  have a: "n div 262144 = n div 4096 div 64" by (simp add: div_mult2_eq)
  have b: "n div 4096 = n div 64 div 64" by (simp add: div_mult2_eq)
  have "n div 4096 div 64 * 262144 + n div 4096 mod 64 * 4096 = n div 4096 * 4096"
    using div_mult_mod_eq [of "n div 4096" 64] by linarith
  moreover have "n div 64 div 64 * 4096 + n div 64 mod 64 * 64 = n div 64 * 64"
    using div_mult_mod_eq [of "n div 64" 64] by linarith
  moreover have "n div 64 * 64 + n mod 64 = n" by simp
  ultimately show ?thesis using a b by linarith
qed

lemma of_char_lt: "of_char (c :: char) < (256 :: nat)"
  by (rule nat_of_char_less_256)

lemma bytes3:
  assumes "a < 256" "b < 256" "c < (256 :: nat)"
  shows "(a * 65536 + b * 256 + c) div 65536 = a" "(a * 65536 + b * 256 + c) div 256 mod 256 = b"
    "(a * 65536 + b * 256 + c) mod 256 = c"
proof -
  have e: "a * 65536 + b * 256 + c = (a * 256 + b) * 256 + c" by simp
  show "(a * 65536 + b * 256 + c) div 65536 = a" using assms by simp
  have d: "(a * 65536 + b * 256 + c) div 256 = a * 256 + b"
    using assms by (intro div_nat_eqI) auto
  show "(a * 65536 + b * 256 + c) div 256 mod 256 = b" unfolding d using assms by simp
  show "(a * 65536 + b * 256 + c) mod 256 = c" using assms by (simp add: mod_add_eq [symmetric])
qed

lemma regroup3: "n div 4096 * 4096 + n div 64 mod 64 * 64 + n mod 64 = (n :: nat)"
proof -
  have b: "n div 4096 = n div 64 div 64" by (simp add: div_mult2_eq)
  have "n div 64 div 64 * 4096 + n div 64 mod 64 * 64 = n div 64 * 64"
    using div_mult_mod_eq [of "n div 64" 64] by linarith
  moreover have "n div 64 * 64 + n mod 64 = n" by simp
  ultimately show ?thesis using b by linarith
qed

lemma b64_dec_enc: "b64_dec (b64_enc s) = s"
proof (induction s rule: b64_enc.induct)
  case (1 a b c r)
  let ?n = "of_char a * 65536 + of_char b * 256 + of_char c :: nat"
  have "b64_dec (b64_enc (a # b # c # r)) =
        [char_of (?n div 65536), char_of (?n div 256 mod 256), char_of (?n mod 256)] @ b64_dec (b64_enc r)"
    by (simp add: Let_def regroup6)
  then show ?case
    using bytes3 [OF nat_of_char_less_256 nat_of_char_less_256 nat_of_char_less_256, of a b c] 1
    by simp
next
  case (2 a b)
  have lt: "of_char a < (256 :: nat)" "of_char b < (256 :: nat)" by (rule nat_of_char_less_256)+
  have d1: "(of_char a * 1024 + of_char b * 4 :: nat) div 1024 = of_char a" using lt by (intro div_nat_eqI) auto
  have "(256 * of_char a + of_char b :: nat) mod 256 = of_char b mod 256" by simp
  then have "char_of (256 * of_char a + of_char b :: nat) = char_of (of_char b :: nat)"
    by (simp only: char_of_quasi_inj)
  then have cb: "char_of (256 * of_char a + of_char b :: nat) = b" by (simp only: char_of_char)
  show ?case using d1 cb by (simp add: Let_def regroup3)
next
  case (3 a)
  have "(of_char a * 16 :: nat) div 64 * 64 + of_char a * 16 mod 64 = of_char a * 16"
    by (rule div_mult_mod_eq)
  then show ?case by (simp only: b64_enc.simps b64_dec.simps Let_def) simp
qed simp

lemma b64_enc_lt: "\<forall>v \<in> set (b64_enc s). v < 64"
proof (induction s rule: b64_enc.induct)
  case (1 a b c r)
  have "(of_char a * 65536 + of_char b * 256 + of_char c :: nat) < 64 * 262144"
    using nat_of_char_less_256 [of a] nat_of_char_less_256 [of b] nat_of_char_less_256 [of c] by linarith
  then show ?case using 1 by (simp add: Let_def less_mult_imp_div_less)
next
  case (2 a b)
  have "(of_char a * 1024 + of_char b * 4 :: nat) < 64 * 4096"
    using nat_of_char_less_256 [of a] nat_of_char_less_256 [of b] by linarith
  then show ?case by (simp add: Let_def less_mult_imp_div_less)
next
  case (3 a)
  have "(of_char a * 16 :: nat) < 64 * 64" using nat_of_char_less_256 [of a] by linarith
  then show ?case by (simp add: Let_def less_mult_imp_div_less)
qed simp

lemma suc3_div_mod: "(3 + n) div 3 = Suc (n div 3)" "(3 + n) mod 3 = n mod 3"
  by simp_all

lemma b64_enc_length:
  "length (b64_enc s) = 4 * (length s div 3) + (if length s mod 3 = 0 then 0 else length s mod 3 + 1)"
  by (induction s rule: b64_enc.induct) (simp_all add: Let_def suc3_div_mod)

lemma b64_val_ws:
  assumes "b64_ws c" shows "b64_val c = None"
proof -
  have k: "of_char c \<in> {9, 10, 12, 13, 32 :: nat}" using assms by (simp add: b64_ws_def)
  then have "c \<noteq> CHR ''+''" "c \<noteq> CHR ''/''" by auto
  moreover have "\<not> (65 \<le> (of_char c :: nat) \<and> of_char c \<le> (90 :: nat))" "\<not> (97 \<le> (of_char c :: nat) \<and> of_char c \<le> (122 :: nat))"
    "\<not> (48 \<le> (of_char c :: nat) \<and> of_char c \<le> (57 :: nat))" using k by auto
  ultimately show ?thesis by (simp add: b64_val_def Let_def)
qed

lemma b64_char_props: "n < 64 \<Longrightarrow> \<not> b64_ws (b64_char n) \<and> b64_char n \<noteq> CHR ''=''"
proof -
  assume "n < 64"
  then have v: "b64_val (b64_char n) = Some n" by (rule b64_val_char)
  have "b64_val CHR ''='' = None" by (simp add: b64_val_def)
  then show ?thesis using v b64_val_ws by fastforce
qed

lemma those_b64_val: "\<forall>v \<in> set vs. v < 64 \<Longrightarrow> those (map b64_val (map b64_char vs)) = Some vs"
  by (induction vs) (simp_all add: b64_val_char)

lemma drop_eqs_keep: "CHR ''='' \<notin> set y \<Longrightarrow> drop_eqs n y = y"
  by (cases y) auto

lemma drop_eqs_pad: "p \<le> n \<Longrightarrow> CHR ''='' \<notin> set y \<Longrightarrow> drop_eqs n (replicate p CHR ''='' @ y) = y"
proof (induction n arbitrary: p)
  case 0
  then show ?case by (simp add: drop_eqs_keep)
next
  case (Suc n)
  then show ?case by (cases p) (simp_all add: drop_eqs_keep split: list.split)
qed

lemma strip_pad_btoa:
  assumes "CHR ''='' \<notin> set x" "p \<le> 2" "(length x + p) mod 4 = 0"
  shows "strip_pad (x @ replicate p CHR ''='') = x"
  using assms drop_eqs_pad [of p 2 "rev x"] by (simp add: strip_pad_def)

lemma btoa_shape:
  "(length (b64_enc s) + (3 - length s mod 3) mod 3) mod 4 = 0 \<and> length (b64_enc s) mod 4 \<noteq> 1 \<and>
   (3 - length s mod 3) mod 3 \<le> 2"
proof -
  have "length s mod 3 = 0 \<or> length s mod 3 = 1 \<or> length s mod 3 = 2" by linarith
  then show ?thesis by (auto simp: b64_enc_length)
qed

theorem atob_btoa: "atob (btoa s) = Inr s"
proof -
  let ?x = "map b64_char (b64_enc s)" and ?p = "(3 - length s mod 3) mod 3"
  have lt: "\<forall>v \<in> set (b64_enc s). v < 64" by (rule b64_enc_lt)
  have eq_ws: "\<not> b64_ws CHR ''=''" by (simp add: b64_ws_def)
  have "filter (\<lambda>c. \<not> b64_ws c) (?x @ replicate ?p CHR ''='') = ?x @ replicate ?p CHR ''=''"
    using lt eq_ws b64_char_props by (auto simp: filter_id_conv)
  moreover have "CHR ''='' \<notin> set ?x" using lt b64_char_props by fastforce
  then have "strip_pad (?x @ replicate ?p CHR ''='') = ?x"
    using btoa_shape [of s] by (intro strip_pad_btoa) simp_all
  ultimately show ?thesis
    using btoa_shape [of s] lt
    by (simp add: atob_def btoa_def those_b64_val b64_dec_enc del: map_map)
qed

end
