(* ===== verification/App.thy ===== *)
theory App
  imports Base64 Storage
begin

text \<open>
  The application shell, \<open>src/src/App.jsx\<close>: the session state of \<open>App\<close>, its two
  effects on \<open>[token]\<close> (identity decoding and the single-shot 30-minute expiry timer),
  the handlers it passes down (\<open>handleSetToken\<close>, \<open>handleSurveyResult\<close>,
  \<open>handleLogout\<close>, the 1200 ms result delay of \<open>onResult\<close>) and the navigation of
  \<open>NavBar\<close>. A run is a sequence of events: a user action the rendered page offers,
  the outcome of an outstanding prediction request of the survey form, the clock
  advancing, or the earliest pending timer firing.
\<close>

subsection \<open>State\<close>

datatype page = PAuth | PSurvey | PDashboard | PProfile

text \<open>The callback of a pending \<open>setTimeout\<close>.\<close>

datatype tcb = TExpire | TResult jsval

record timer =
  tid :: nat
  due :: nat
  cb :: tcb

text \<open>
  The \<open>useState\<close> hooks of \<open>App\<close> (lines 51--57), the browser's \<open>localStorage\<close>, the
  clock in milliseconds, the pending timers, the id of the timer the expiry effect's cleanup
  clears, and the next timer id.
\<close>

record app =
  darkMode :: bool
  token :: string
  userId :: jsval
  result :: jsval
  loading :: bool
  page :: page
  sessionTimeout :: bool
  store :: store
  clock :: nat
  timers :: "timer list"
  sess_timer :: "nat option"
  next_tid :: nat
  surveys_out :: nat

subsection \<open>Identity from the token\<close>

text \<open>\<open>token.split('.')[1]\<close>, passed to \<open>atob\<close>: a missing segment is \<open>undefined\<close>, which \<open>atob\<close> reads as the string \<open>"undefined"\<close>.\<close>

definition token_segment :: "string \<Rightarrow> string" where
  "token_segment t = (case js_split CHR ''.'' t of _ # x # _ \<Rightarrow> x | _ \<Rightarrow> ''undefined'')"

text \<open>
  \<open>atob\<close> returns a binary string, one character per byte, and \<open>JSON.parse\<close> reads each
  byte \<open>b\<close> as the character U+00\<open>b\<close>; in the byte-string model that character is its
  UTF-8 encoding, two bytes for \<open>b \<ge> 128\<close>. A payload in UTF-8 is therefore read as
  Latin-1.
\<close>

definition latin1_utf8 :: "string \<Rightarrow> string" where
  "latin1_utf8 s =
     concat (map (\<lambda>c. let n = (of_char c :: nat) in
                       if n < 128 then [c] else [char_of (192 + n div 64), char_of (128 + n mod 64)]) s)"

text \<open>\<open>payload.sub || ''\<close> inside the \<open>try\<close>; the \<open>catch\<close> gives \<open>''\<close>.\<close>

definition decode_sub :: "string \<Rightarrow> jsval" where
  "decode_sub t =
     (case js_then (atob (token_segment t)) (\<lambda>p. js_then (json_parse (latin1_utf8 p)) (\<lambda>pl. get_prop pl ''sub'')) of
        Inr v \<Rightarrow> if js_truthy v then v else JStr []
      | Inl _ \<Rightarrow> JStr [])"

subsection \<open>The effects on the token\<close>

text \<open>
  After a render in which \<open>token\<close> changed, React runs the cleanup of the previous expiry
  effect (\<open>clearTimeout\<close>), then both effect bodies: with a non-empty token the identity
  is decoded, the page set to the survey, the expiry notice reset and a new timer armed.
\<close>

definition token_effects :: "app \<Rightarrow> app" where
  "token_effects s =
     (let s1 = (case sess_timer s of None \<Rightarrow> s
                | Some i \<Rightarrow> s\<lparr>timers := filter (\<lambda>x. tid x \<noteq> i) (timers s), sess_timer := None\<rparr>)
      in if token s1 = [] then s1
         else s1\<lparr>userId := decode_sub (token s1), page := PSurvey, sessionTimeout := False,
                 timers := timers s1 @ [\<lparr>tid = next_tid s1, due = clock s1 + 1800000, cb = TExpire\<rparr>],
                 sess_timer := Some (next_tid s1), next_tid := Suc (next_tid s1)\<rparr>)"

definition commit :: "string \<Rightarrow> app \<Rightarrow> app" where
  "commit old s = (if token s = old then s else token_effects s)"

definition app_init :: "store \<Rightarrow> app" where
  "app_init st = token_effects
     \<lparr>darkMode = (getItem st ''darkMode'' = Some ''true''), token = item_or st ''token'' [],
      userId = JStr [], result = JNull, loading = False, page = PAuth, sessionTimeout = False,
      store = st, clock = 0, timers = [], sess_timer = None, next_tid = 0, surveys_out = 0\<rparr>"

subsection \<open>Handlers\<close>

definition handleSetToken :: "string \<Rightarrow> app \<Rightarrow> app" where
  "handleSetToken t s = commit (token s) (s\<lparr>token := t, store := setItem (store s) ''token'' t, page := PSurvey\<rparr>)"

definition handleSurveyResult :: "jsval \<Rightarrow> app \<Rightarrow> app" where
  "handleSurveyResult r s = s\<lparr>result := r, page := PDashboard\<rparr>"

definition handleLogout :: "app \<Rightarrow> app" where
  "handleLogout s = commit (token s) (s\<lparr>token := [], store := removeItem (store s) ''token'', result := JNull, page := PAuth\<rparr>)"

text \<open>\<open>onResult\<close> of the survey page: show the overlay, deliver the result 1200 ms later.\<close>

definition onResult :: "jsval \<Rightarrow> app \<Rightarrow> app" where
  "onResult r s = s\<lparr>loading := True,
     timers := timers s @ [\<lparr>tid = next_tid s, due = clock s + 1200, cb = TResult r\<rparr>], next_tid := Suc (next_tid s)\<rparr>"

text \<open>The dark-mode button: \<open>setItem\<close> stores the boolean as its string.\<close>

definition toggleDark :: "app \<Rightarrow> app" where
  "toggleDark s = s\<lparr>darkMode := \<not> darkMode s,
     store := setItem (store s) ''darkMode'' (if darkMode s then ''false'' else ''true'')\<rparr>"

definition onDashboard :: "app \<Rightarrow> app" where
  "onDashboard s = s\<lparr>page := (if js_truthy (result s) then PDashboard else PSurvey)\<rparr>"

definition onEdit :: "app \<Rightarrow> app" where
  "onEdit s = s\<lparr>result := JNull, page := PSurvey\<rparr>"

text \<open>The expiry callback and the delayed result callback.\<close>

fun run_cb :: "tcb \<Rightarrow> app \<Rightarrow> app" where
  "run_cb TExpire s =
     commit (token s) (s\<lparr>token := [], store := removeItem (store s) ''token'', sessionTimeout := True, page := PAuth\<rparr>)"
| "run_cb (TResult r) s = handleSurveyResult r (s\<lparr>loading := False\<rparr>)"

subsection \<open>Time\<close>

text \<open>The pending timer with the earliest deadline; among equal deadlines the one set first.\<close>

fun earliest :: "timer list \<Rightarrow> timer option" where
  "earliest [] = None"
| "earliest (x # xs) = (case earliest xs of None \<Rightarrow> Some x | Some y \<Rightarrow> if due y < due x then Some y else Some x)"

definition fire :: "app \<Rightarrow> app option" where
  "fire s = (case earliest (timers s) of None \<Rightarrow> None
     | Some x \<Rightarrow> Some (run_cb (cb x) (s\<lparr>clock := due x, timers := filter (\<lambda>y. tid y \<noteq> tid x) (timers s)\<rparr>)))"

text \<open>Time passes without reaching any deadline.\<close>

definition idle :: "nat \<Rightarrow> app \<Rightarrow> app option" where
  "idle n s = (if list_all (\<lambda>x. clock s + n < due x) (timers s) then Some (s\<lparr>clock := clock s + n\<rparr>) else None)"

subsection \<open>Events and runs\<close>

text \<open>
  \<open>SurveySubmit\<close> is a valid submission of the survey form, which sends
  \<open>predictCareer\<close> (\<open>SurveyForm.jsx\<close> lines 34--51); \<open>SurveyDone r\<close> and
  \<open>SurveyFail\<close> are the outcomes of one outstanding request. The form's \<open>handleSubmit\<close>
  calls \<open>onResult\<close> when its request resolves, whatever page is shown by then and even
  while the overlay is up: the closure outlives the form, so a resolution is not a click and
  the page does not gate it. \<open>surveys_out\<close> counts the outstanding requests; an invalid
  submission sends nothing and has no effect on \<open>App\<close>.
\<close>

datatype event = Login string | SurveySubmit | SurveyDone jsval | SurveyFail | Logout | NavProfile
  | NavDashboard | EditSurvey | ToggleDark | Idle nat | Fire

text \<open>
  What the rendered page offers: \<open>Auth\<close> on the auth page (and on the profile page without an
  identity), the survey form on the survey page, \<open>NavBar\<close> on the other three pages (its
  Dashboard button hidden on the survey page), the Dashboard's Edit button when there is a
  result. The loading overlay (\<open>fixed inset-0\<close>, above the navigation bar) blocks every
  click while it is shown.
\<close>

definition navbar :: "app \<Rightarrow> bool" where
  "navbar s \<longleftrightarrow> page s \<in> {PSurvey, PDashboard, PProfile}"

text \<open>
  What \<open>NavBar\<close> shows: the dark-mode icon (UTF-8 bytes), the Dashboard button except on
  the survey page, Profile, the initial \<open>userId?.[0] || 'U'\<close> (upper-cased by CSS only) and
  Logout.
\<close>

definition moon :: string where
  "moon = [CHR 0xF0, CHR 0x9F, CHR 0x8C, CHR 0x99]"

definition sun :: string where
  "sun = [CHR 0xE2, CHR 0x98, CHR 0x80, CHR 0xEF, CHR 0xB8, CHR 0x8F]"

definition navbar_view :: "app \<Rightarrow> string list js" where
  "navbar_view s =
     (if \<not> navbar s then Inr []
      else js_then (jsx_text (js_or (opt_index0 (userId s)) (JStr ''U''))) (\<lambda>initial.
        Inr ((if darkMode s then moon else sun) #
             (if page s \<noteq> PSurvey then [''Dashboard''] else []) @ [''Profile'', initial, ''Logout''])))"

fun ui_enabled :: "app \<Rightarrow> event \<Rightarrow> bool" where
  "ui_enabled s (Login t) = (page s = PAuth \<or> (page s = PProfile \<and> \<not> js_truthy (userId s)))"
| "ui_enabled s SurveySubmit = (page s = PSurvey)"
| "ui_enabled s (SurveyDone r) = (0 < surveys_out s)"
| "ui_enabled s SurveyFail = (0 < surveys_out s)"
| "ui_enabled s Logout = navbar s"
| "ui_enabled s NavProfile = navbar s"
| "ui_enabled s NavDashboard = (page s = PDashboard \<or> page s = PProfile)"
| "ui_enabled s EditSurvey = (page s = PDashboard \<and> js_truthy (result s))"
| "ui_enabled s ToggleDark = navbar s"
| "ui_enabled s (Idle n) = True"
| "ui_enabled s Fire = True"

fun is_time :: "event \<Rightarrow> bool" where
  "is_time (Idle n) = True"
| "is_time Fire = True"
| "is_time _ = False"

fun app_step :: "app \<Rightarrow> event \<Rightarrow> app option" where
  "app_step s (Idle n) = idle n s"
| "app_step s Fire = fire s"
| "app_step s (SurveyDone r) =
     (if surveys_out s = 0 then None else Some (onResult r (s\<lparr>surveys_out := surveys_out s - 1\<rparr>)))"
| "app_step s SurveyFail =
     (if surveys_out s = 0 then None else Some (s\<lparr>surveys_out := surveys_out s - 1\<rparr>))"
| "app_step s e =
     (if loading s \<or> \<not> ui_enabled s e then None
      else Some (case e of
         Login t \<Rightarrow> handleSetToken t s
       | SurveySubmit \<Rightarrow> s\<lparr>surveys_out := Suc (surveys_out s)\<rparr>
       | Logout \<Rightarrow> handleLogout s
       | NavProfile \<Rightarrow> s\<lparr>page := PProfile\<rparr>
       | NavDashboard \<Rightarrow> onDashboard s
       | EditSurvey \<Rightarrow> onEdit s
       | _ \<Rightarrow> toggleDark s))"

fun app_run :: "app \<Rightarrow> event list \<Rightarrow> app option" where
  "app_run s [] = Some s"
| "app_run s (e # es) = (case app_step s e of None \<Rightarrow> None | Some s' \<Rightarrow> app_run s' es)"

inductive reach :: "app \<Rightarrow> bool" where
  init: "reach (app_init st)"
| step: "reach s \<Longrightarrow> app_step s e = Some s' \<Longrightarrow> reach s'"

end
