(* ===== verification/Session.thy ===== *)
theory Session
  imports App
begin

text \<open>
  Properties of the session model of \<open>App.jsx\<close>: an invariant of all reachable states
  (the persisted token, the single expiry timer), the exact expiry time and its liveness,
  what logout and expiry clear and keep, the two interleavings of the result delay and the
  expiry that leak state, and the identity decoding of the token.
\<close>

subsection \<open>Invariants and phases\<close>

text \<open>
  \<open>session_inv\<close> is the invariant of reachable states; \<open>exp_weak\<close> is the weaker
  condition that holds between a timer firing and the effect that follows it. After a login
  with token \<open>t\<close> at \<open>D\<close> - 30 minutes, \<open>phase1\<close> is the state before expiry
  (only the result delays of before the login are pending besides the expiry timer) and
  \<open>phase2\<close> the state after it.
\<close>

definition is_expire :: "timer \<Rightarrow> bool" where
  "is_expire x \<longleftrightarrow> cb x = TExpire"

definition timers_ok :: "app \<Rightarrow> bool" where
  "timers_ok s \<longleftrightarrow> distinct (map tid (timers s)) \<and>
     list_all (\<lambda>x. tid x < next_tid s \<and> clock s \<le> due x \<and> (is_expire x \<or> due x \<le> clock s + 1200)) (timers s)"

definition expire_ok :: "app \<Rightarrow> bool" where
  "expire_ok s = (case sess_timer s of None \<Rightarrow> filter is_expire (timers s) = []
     | Some i \<Rightarrow> \<exists>d. filter is_expire (timers s) = [\<lparr>tid = i, due = d, cb = TExpire\<rparr>] \<and> d \<le> clock s + 1800000)"

definition exp_weak :: "app \<Rightarrow> bool" where
  "exp_weak s = (case sess_timer s of None \<Rightarrow> filter is_expire (timers s) = []
     | Some i \<Rightarrow> list_all (\<lambda>x. is_expire x \<longrightarrow> tid x = i) (timers s))"

definition session_inv :: "app \<Rightarrow> bool" where
  "session_inv s \<longleftrightarrow> item_or (store s) ''token'' [] = token s \<and> timers_ok s \<and>
     (token s = [] \<longleftrightarrow> sess_timer s = None) \<and> expire_ok s"

definition phase1 :: "string \<Rightarrow> nat \<Rightarrow> app \<Rightarrow> bool" where
  "phase1 t D s \<longleftrightarrow> token s = t \<and> clock s < D \<and>
     (\<exists>i. sess_timer s = Some i \<and> filter is_expire (timers s) = [\<lparr>tid = i, due = D, cb = TExpire\<rparr>]) \<and>
     list_all (\<lambda>x. is_expire x \<or> due x < D) (timers s)"

definition phase2 :: "nat \<Rightarrow> app \<Rightarrow> bool" where
  "phase2 D s \<longleftrightarrow> token s = [] \<and> D \<le> clock s \<and> timers s = [] \<and> sessionTimeout s \<and> page s = PAuth"

text \<open>Runs used to exercise the claims.\<close>

definition tok_ann :: string where "tok_ann = ''h.eyJzdWIiOiJhbm4ifQ==.sig''"

definition late_state :: app where
  "late_state = the (app_run (app_init Map.empty) [Login tok_ann, SurveySubmit, Idle 1799499])"

definition expired_state :: app where
  "expired_state = the (app_run (app_init Map.empty) [Login tok_ann, SurveySubmit, SurveyDone (JStr ''R''), Fire, Fire])"

definition tok_bob :: string where "tok_bob = ''h.eyJzdWIiOiJib2IifQ==.s''"

definition ann_state :: app where
  "ann_state = the (app_run (app_init Map.empty) [Login tok_ann])"

subsection \<open>Proofs\<close>

lemma earliest_None [simp]: "earliest xs = None \<longleftrightarrow> xs = []"
  by (induction xs) (auto split: option.splits)

lemma earliest_Some: "earliest xs = Some x \<Longrightarrow> x \<in> set xs \<and> list_all (\<lambda>y. due x \<le> due y) xs"
proof (induction xs arbitrary: x)
  case (Cons a xs)
  then show ?case
    by (cases "earliest xs") (auto simp: list_all_iff split: if_splits)
qed simp

lemma token_effects_fields [simp]:
  "token (token_effects s) = token s" "store (token_effects s) = store s" "clock (token_effects s) = clock s"
  "result (token_effects s) = result s" "loading (token_effects s) = loading s" "darkMode (token_effects s) = darkMode s"
  by (simp_all add: token_effects_def Let_def split: option.splits)

lemma token_effects_ok:
  assumes ok: "timers_ok s"
    and none: "sess_timer s = None \<Longrightarrow> filter is_expire (timers s) = []"
    and some: "\<And>i. sess_timer s = Some i \<Longrightarrow> \<forall>x \<in> set (timers s). is_expire x \<longrightarrow> tid x = i"
  shows "timers_ok (token_effects s) \<and> (token s = [] \<longleftrightarrow> sess_timer (token_effects s) = None) \<and> expire_ok (token_effects s)"
proof -
  define s1 where "s1 = (case sess_timer s of None \<Rightarrow> s
                | Some i \<Rightarrow> s\<lparr>timers := filter (\<lambda>x. tid x \<noteq> i) (timers s), sess_timer := None\<rparr>)"
  have s1: "timers_ok s1" "sess_timer s1 = None" "filter is_expire (timers s1) = []"
    "token s1 = token s" "clock s1 = clock s" "next_tid s1 = next_tid s"
    using ok none some
    by (auto simp: s1_def timers_ok_def list_all_iff distinct_map_filter filter_empty_conv split: option.splits)
  have te: "token_effects s = (if token s1 = [] then s1
         else s1\<lparr>userId := decode_sub (token s1), page := PSurvey, sessionTimeout := False,
                 timers := timers s1 @ [\<lparr>tid = next_tid s1, due = clock s1 + 1800000, cb = TExpire\<rparr>],
                 sess_timer := Some (next_tid s1), next_tid := Suc (next_tid s1)\<rparr>)"
    by (simp add: token_effects_def s1_def Let_def)
  show ?thesis
  proof (cases "token s = []")
    case True
    then show ?thesis using s1 te by (simp add: expire_ok_def)
  next
    case False
    have "timers_ok (token_effects s)"
      using s1(1) False te by (auto simp: timers_ok_def list_all_iff is_expire_def)
    moreover have "expire_ok (token_effects s)"
      using s1 False te by (simp add: expire_ok_def is_expire_def)
    ultimately show ?thesis using s1 False te by simp
  qed
qed

lemma expire_ok_weak: "expire_ok s \<Longrightarrow> exp_weak s"
proof -
  assume e: "expire_ok s"
  show "exp_weak s"
  proof (cases "sess_timer s")
    case (Some i)
    then obtain d where "filter is_expire (timers s) = [\<lparr>tid = i, due = d, cb = TExpire\<rparr>]"
      using e by (auto simp: expire_ok_def)
    note f = this
    have "\<forall>x \<in> set (timers s). is_expire x \<longrightarrow> tid x = i"
    proof (intro ballI impI)
      fix x assume "x \<in> set (timers s)" "is_expire x"
      then have "x \<in> set (filter is_expire (timers s))" by simp
      then show "tid x = i" using f by simp
    qed
    then show ?thesis using Some by (simp add: exp_weak_def list_all_iff)
  qed (use e in \<open>simp add: expire_ok_def exp_weak_def\<close>)
qed

lemma commit_ok:
  assumes "timers_ok s1" "exp_weak s1" "item_or (store s1) ''token'' [] = token s1"
    and "token s1 = old \<Longrightarrow> (old = [] \<longleftrightarrow> sess_timer s1 = None) \<and> expire_ok s1"
  shows "session_inv (commit old s1)"
proof (cases "token s1 = old")
  case True
  then show ?thesis using assms by (simp add: commit_def session_inv_def)
next
  case False
  have "timers_ok (token_effects s1) \<and> (token s1 = [] \<longleftrightarrow> sess_timer (token_effects s1) = None) \<and> expire_ok (token_effects s1)"
    using assms(1,2) by (intro token_effects_ok) (auto simp: exp_weak_def list_all_iff)
  then show ?thesis using False assms(3) by (simp add: commit_def session_inv_def)
qed

lemma item_or_setItem_token: "item_or (setItem st ''token'' t) ''token'' [] = t"
  by (simp add: item_or_def)

lemma item_or_removeItem_token: "item_or (removeItem st ''token'') ''token'' [] = []"
  by (simp add: item_or_def)

lemma item_or_setItem_other: "k \<noteq> ''token'' \<Longrightarrow> item_or (setItem st k v) ''token'' [] = item_or st ''token'' []"
  by (simp add: item_or_def)

lemma inv_parts:
  assumes "session_inv s"
  shows "timers_ok s" "exp_weak s" "expire_ok s" "item_or (store s) ''token'' [] = token s"
    "token s = [] \<longleftrightarrow> sess_timer s = None"
  using assms expire_ok_weak by (simp_all add: session_inv_def)

lemma ok_frame:
  assumes "timers s' = timers s" "sess_timer s' = sess_timer s" "clock s' = clock s" "next_tid s' = next_tid s"
  shows "timers_ok s' = timers_ok s \<and> exp_weak s' = exp_weak s \<and> expire_ok s' = expire_ok s"
  unfolding timers_ok_def exp_weak_def expire_ok_def assms by (rule conjI refl)+

lemma inv_login: "session_inv s \<Longrightarrow> session_inv (handleSetToken t s)"
  unfolding handleSetToken_def
  using inv_parts [of s] ok_frame [of "s\<lparr>token := t, store := setItem (store s) ''token'' t, page := PSurvey\<rparr>" s]
  by (intro commit_ok) (simp_all add: item_or_setItem_token)

lemma inv_logout: "session_inv s \<Longrightarrow> session_inv (handleLogout s)"
  unfolding handleLogout_def
  using inv_parts [of s] ok_frame [of "s\<lparr>token := [], store := removeItem (store s) ''token'', result := JNull, page := PAuth\<rparr>" s]
  by (intro commit_ok) (simp_all add: item_or_removeItem_token)

lemma inv_onResult:
  assumes "session_inv s" shows "session_inv (onResult r s)"
proof -
  let ?x = "\<lparr>tid = next_tid s, due = clock s + 1200, cb = TResult r\<rparr>"
  have p: "timers_ok s" "expire_ok s" using inv_parts [OF assms] by simp_all
  have f: "filter is_expire (timers s @ [?x]) = filter is_expire (timers s)" by (simp add: is_expire_def)
  have "timers_ok (onResult r s)"
    using p(1) by (auto simp: timers_ok_def onResult_def list_all_iff)
  moreover have "expire_ok (onResult r s)"
    using p(2) by (auto simp: expire_ok_def onResult_def is_expire_def split: option.splits)
  ultimately show ?thesis using assms by (simp add: session_inv_def onResult_def)
qed

lemma inv_frame:
  assumes "session_inv s" "timers s' = timers s" "sess_timer s' = sess_timer s" "clock s' = clock s"
    "next_tid s' = next_tid s" "token s' = token s" "item_or (store s') ''token'' [] = item_or (store s) ''token'' []"
  shows "session_inv s'"
  using assms ok_frame [of s' s] by (simp add: session_inv_def)

lemma inv_dark: "session_inv s \<Longrightarrow> session_inv (toggleDark s)"
  by (rule inv_frame) (simp_all add: toggleDark_def item_or_setItem_other)

lemma inv_idle:
  assumes "session_inv s" "idle n s = Some s'" shows "session_inv s'"
proof -
  have s': "s' = s\<lparr>clock := clock s + n\<rparr>" and lt: "list_all (\<lambda>x. clock s + n < due x) (timers s)"
    using assms(2) by (simp_all add: idle_def split: if_splits)
  have p: "timers_ok s" "expire_ok s" using inv_parts [OF assms(1)] by simp_all
  have "timers_ok s'"
    using p(1) lt unfolding s' timers_ok_def list_all_iff by auto
  moreover have "expire_ok s'"
    using p(2) unfolding s' expire_ok_def by (auto split: option.split)
  ultimately show ?thesis using assms(1) by (simp add: session_inv_def s')
qed

lemma distinct_tid_eq: "distinct (map tid xs) \<Longrightarrow> x \<in> set xs \<Longrightarrow> y \<in> set xs \<Longrightarrow> tid x = tid y \<Longrightarrow> x = y"
  by (metis distinct_map inj_onD)

lemma fire_timers_ok:
  assumes ok: "timers_ok s" and x: "earliest (timers s) = Some x"
  shows "timers_ok (s\<lparr>clock := due x, timers := filter (\<lambda>y. tid y \<noteq> tid x) (timers s)\<rparr>)"
proof -
  have e: "x \<in> set (timers s)" "list_all (\<lambda>y. due x \<le> due y) (timers s)" using earliest_Some [OF x] by simp_all
  have "clock s \<le> due x" using ok e(1) by (auto simp: timers_ok_def list_all_iff)
  then show ?thesis using ok e(2) by (auto simp: timers_ok_def list_all_iff distinct_map_filter)
qed

lemma inv_fire:
  assumes inv: "session_inv s" and f: "fire s = Some s'" shows "session_inv s'"
proof -
  obtain x where x: "earliest (timers s) = Some x"
    and s': "s' = run_cb (cb x) (s\<lparr>clock := due x, timers := filter (\<lambda>y. tid y \<noteq> tid x) (timers s)\<rparr>)"
    using f by (auto simp: fire_def split: option.splits)
  let ?s2 = "s\<lparr>clock := due x, timers := filter (\<lambda>y. tid y \<noteq> tid x) (timers s)\<rparr>"
  have p: "timers_ok s" "expire_ok s" "exp_weak s" "item_or (store s) ''token'' [] = token s"
    "token s = [] \<longleftrightarrow> sess_timer s = None" using inv_parts [OF inv] by simp_all
  have xin: "x \<in> set (timers s)" using earliest_Some [OF x] by simp
  have ok2: "timers_ok ?s2" using fire_timers_ok [OF p(1) x] .
  have dist: "distinct (map tid (timers s))" using p(1) by (simp add: timers_ok_def)
  have le: "clock s \<le> due x" using p(1) xin by (auto simp: timers_ok_def list_all_iff)
  show ?thesis
  proof (cases "cb x")
    case TExpire
    then obtain i where i: "sess_timer s = Some i"
      using p(2) xin by (cases "sess_timer s") (auto simp: expire_ok_def is_expire_def filter_empty_conv)
    have all_i: "\<forall>y \<in> set (timers s). is_expire y \<longrightarrow> tid y = i" using p(3) i by (simp add: exp_weak_def list_all_iff)
    then have "tid x = i" using xin TExpire by (simp add: is_expire_def)
    then have "exp_weak ?s2" using i all_i by (auto simp: exp_weak_def list_all_iff)
    moreover have "token s \<noteq> []" using p(5) i by simp
    ultimately show ?thesis
      unfolding s' TExpire run_cb.simps
      using ok_frame [of "?s2\<lparr>token := [], store := removeItem (store ?s2) ''token'', sessionTimeout := True, page := PAuth\<rparr>" ?s2] ok2
      by (intro commit_ok) (simp_all add: item_or_removeItem_token)
  next
    case (TResult r)
    have "expire_ok ?s2"
    proof (cases "sess_timer s")
      case None
      then show ?thesis using p(2) by (simp add: expire_ok_def filter_empty_conv)
    next
      case (Some i)
      then obtain d where d: "filter is_expire (timers s) = [\<lparr>tid = i, due = d, cb = TExpire\<rparr>]" "d \<le> clock s + 1800000"
        using p(2) by (auto simp: expire_ok_def)
      have "\<lparr>tid = i, due = d, cb = TExpire\<rparr> \<in> set (filter is_expire (timers s))" using d(1) by simp
      then have ein: "\<lparr>tid = i, due = d, cb = TExpire\<rparr> \<in> set (timers s)" by simp
      have "i \<noteq> tid x"
      proof
        assume "i = tid x"
        then have "\<lparr>tid = i, due = d, cb = TExpire\<rparr> = x" using distinct_tid_eq [OF dist ein xin] by simp
        then have "cb x = TExpire" by (metis timer.select_convs(3))
        then show False using TResult by simp
      qed
      then have "filter is_expire (filter (\<lambda>y. tid y \<noteq> tid x) (timers s)) = [\<lparr>tid = i, due = d, cb = TExpire\<rparr>]"
      proof -
        have "filter is_expire (filter (\<lambda>y. tid y \<noteq> tid x) (timers s)) =
              filter (\<lambda>y. tid y \<noteq> tid x) (filter is_expire (timers s))"
          by (simp add: filter_filter conj_commute)
        then show ?thesis using d(1) \<open>i \<noteq> tid x\<close> by simp
      qed
      then show ?thesis using Some d(2) le by (simp add: expire_ok_def)
    qed
    then show ?thesis
      unfolding s' TResult run_cb.simps handleSurveyResult_def
      using ok2 p(4,5) ok_frame [of "?s2\<lparr>loading := False, result := r, page := PDashboard\<rparr>" ?s2]
      by (simp add: session_inv_def)
  qed
qed

lemma inv_step:
  assumes "session_inv s" "app_step s e = Some s'" shows "session_inv s'"
proof (cases e)
  case (Idle n)
  then show ?thesis using assms inv_idle by simp
next
  case Fire
  then show ?thesis using assms inv_fire by simp
next
  case (SurveyDone r)
  have "session_inv (s\<lparr>surveys_out := surveys_out s - 1\<rparr>)" by (rule inv_frame [OF assms(1)]) simp_all
  then show ?thesis using assms(2) SurveyDone inv_onResult [of "s\<lparr>surveys_out := surveys_out s - 1\<rparr>" r]
    by (auto split: if_splits)
qed (use assms in \<open>auto simp: inv_login inv_logout inv_onResult inv_dark onDashboard_def onEdit_def
                     split: if_splits intro: inv_frame\<close>)

lemma inv_init: "session_inv (app_init st)"
proof -
  let ?s0 = "\<lparr>darkMode = (getItem st ''darkMode'' = Some ''true''), token = item_or st ''token'' [],
      userId = JStr [], result = JNull, loading = False, page = PAuth, sessionTimeout = False,
      store = st, clock = 0, timers = [], sess_timer = None, next_tid = 0, surveys_out = 0\<rparr>"
  have "timers_ok (token_effects ?s0) \<and> (token ?s0 = [] \<longleftrightarrow> sess_timer (token_effects ?s0) = None) \<and>
        expire_ok (token_effects ?s0)"
    by (rule token_effects_ok) (simp_all add: timers_ok_def)
  then show ?thesis by (simp add: app_init_def session_inv_def)
qed

lemma reach_inv: "reach s \<Longrightarrow> session_inv s"
  by (induction rule: reach.induct) (auto intro: inv_init inv_step)

lemma length_filter_tid:
  "distinct (map tid xs) \<Longrightarrow> x \<in> set xs \<Longrightarrow> length (filter (\<lambda>y. tid y \<noteq> tid x) xs) = length xs - 1"
proof (induction xs)
  case (Cons a xs)
  show ?case
  proof (cases "a = x")
    case True
    have "tid x \<notin> tid ` set xs" using Cons.prems(1) True by simp
    then have "filter (\<lambda>y. tid y \<noteq> tid x) xs = xs" unfolding filter_id_conv by (metis image_eqI)
    then show ?thesis using True by simp
  next
    case False
    then have "x \<in> set xs" "tid a \<noteq> tid x" using Cons.prems by auto
    then show ?thesis using Cons by (cases xs) auto
  qed
qed simp

lemma fire_phase1:
  assumes inv: "session_inv s" and ph: "phase1 t D s" and t: "t \<noteq> []"
  shows "\<exists>s'. fire s = Some s' \<and>
           ((phase1 t D s' \<and> length (timers s') = length (timers s) - 1) \<or>
            (phase2 D s' \<and> clock s' = D \<and> length (timers s) = 1))"
proof -
  obtain i where i: "sess_timer s = Some i" "filter is_expire (timers s) = [\<lparr>tid = i, due = D, cb = TExpire\<rparr>]"
    and tok: "token s = t" and lt: "clock s < D" and others: "list_all (\<lambda>x. is_expire x \<or> due x < D) (timers s)"
    using ph by (auto simp: phase1_def)
  let ?e = "\<lparr>tid = i, due = D, cb = TExpire\<rparr>"
  have "?e \<in> set (filter is_expire (timers s))" using i(2) by simp
  then have ein: "?e \<in> set (timers s)" by simp
  then obtain x where x: "earliest (timers s) = Some x" by (cases "earliest (timers s)") auto
  have xin: "x \<in> set (timers s)" and xmin: "list_all (\<lambda>y. due x \<le> due y) (timers s)"
    using earliest_Some [OF x] by simp_all
  have dist: "distinct (map tid (timers s))" using inv_parts(1) [OF inv] by (simp add: timers_ok_def)
  let ?s2 = "s\<lparr>clock := due x, timers := filter (\<lambda>y. tid y \<noteq> tid x) (timers s)\<rparr>"
  have len: "length (filter (\<lambda>y. tid y \<noteq> tid x) (timers s)) = length (timers s) - 1"
    using dist xin by (rule length_filter_tid)
  show ?thesis
  proof (cases "is_expire x")
    case True
    then have "x \<in> set (filter is_expire (timers s))" using xin by simp
    then have xe: "x = ?e" using i(2) by simp
    have rest: "filter (\<lambda>y. tid y \<noteq> tid x) (timers s) = []"
    proof (rule ccontr)
      assume "filter (\<lambda>y. tid y \<noteq> tid x) (timers s) \<noteq> []"
      then obtain y where y: "y \<in> set (timers s)" "tid y \<noteq> i" using xe by (auto simp: filter_empty_conv)
      have "\<not> is_expire y"
      proof
        assume "is_expire y"
        then have "y \<in> set (filter is_expire (timers s))" using y(1) by simp
        then show False using i(2) y(2) by simp
      qed
      then have "due y < D" using others y(1) by (auto simp: list_all_iff)
      moreover have "D \<le> due y" using xmin y(1) xe by (auto simp: list_all_iff)
      ultimately show False by simp
    qed
    have l1: "length (timers s) = 1" using len rest xin by (cases "timers s") auto
    have "fire s = Some (run_cb TExpire ?s2)" using x xe by (simp add: fire_def)
    moreover have "phase2 D (run_cb TExpire ?s2) \<and> clock (run_cb TExpire ?s2) = D"
      using rest xe i(1) tok t
      by (simp add: phase2_def commit_def token_effects_def Let_def)
    ultimately show ?thesis using l1 by blast
  next
    case False
    then obtain r where r: "cb x = TResult r" by (cases "cb x") (auto simp: is_expire_def)
    have dx: "due x < D" using others xin False by (auto simp: list_all_iff)
    have "i \<noteq> tid x"
    proof
      assume "i = tid x"
      then have "?e = x" using distinct_tid_eq [OF dist ein xin] by simp
      then show False using False by (auto simp: is_expire_def)
    qed
    have "filter is_expire (filter (\<lambda>y. tid y \<noteq> tid x) (timers s)) =
          filter (\<lambda>y. tid y \<noteq> tid x) (filter is_expire (timers s))"
      by (simp add: filter_filter conj_commute)
    then have fe: "filter is_expire (filter (\<lambda>y. tid y \<noteq> tid x) (timers s)) = [?e]"
      using i(2) \<open>i \<noteq> tid x\<close> by simp
    have "fire s = Some (run_cb (TResult r) ?s2)" using x r by (simp add: fire_def)
    moreover have "phase1 t D (run_cb (TResult r) ?s2)"
      using fe dx tok i(1) others
      by (auto simp: phase1_def handleSurveyResult_def list_all_iff)
    moreover have "length (timers (run_cb (TResult r) ?s2)) = length (timers s) - 1"
      using len by (simp add: handleSurveyResult_def)
    ultimately show ?thesis by blast
  qed
qed




lemma login_phase1:
  assumes inv: "session_inv s" and t: "t \<noteq> []" "t \<noteq> token s" and st: "app_step s (Login t) = Some s1"
  shows "phase1 t (clock s + 1800000) s1 \<and> clock s1 = clock s"
proof -
  let ?s0 = "s\<lparr>token := t, store := setItem (store s) ''token'' t, page := PSurvey\<rparr>"
  have s1: "s1 = token_effects ?s0" using st t(2) by (auto simp: handleSetToken_def commit_def split: if_splits)
  define s2 where "s2 = (case sess_timer ?s0 of None \<Rightarrow> ?s0
                | Some i \<Rightarrow> ?s0\<lparr>timers := filter (\<lambda>x. tid x \<noteq> i) (timers ?s0), sess_timer := None\<rparr>)"
  have p: "timers_ok s" "exp_weak s" using inv_parts [OF inv] by simp_all
  have s2: "filter is_expire (timers s2) = []" "list_all (\<lambda>x. is_expire x \<or> due x \<le> clock s + 1200) (timers s2)"
    "token s2 = t" "clock s2 = clock s"
    using p by (auto simp: s2_def exp_weak_def timers_ok_def list_all_iff filter_empty_conv split: option.splits)
  have te: "s1 = s2\<lparr>userId := decode_sub (token s2), page := PSurvey, sessionTimeout := False,
                 timers := timers s2 @ [\<lparr>tid = next_tid s2, due = clock s2 + 1800000, cb = TExpire\<rparr>],
                 sess_timer := Some (next_tid s2), next_tid := Suc (next_tid s2)\<rparr>"
    using t(1) s2(3) unfolding s1 by (simp add: token_effects_def s2_def Let_def)
  show ?thesis
    using s2 te by (auto simp: phase1_def is_expire_def list_all_iff)
qed

lemma fire_all:
  assumes "session_inv s" "phase1 t D s" "t \<noteq> []"
  shows "\<exists>s2. app_run s (replicate (length (timers s)) Fire) = Some s2 \<and> phase2 D s2 \<and> clock s2 = D"
  using assms
proof (induction "length (timers s)" arbitrary: s)
  case 0
  then show ?case by (auto simp: phase1_def)
next
  case (Suc n)
  obtain s' where f: "fire s = Some s'"
    and c: "(phase1 t D s' \<and> length (timers s') = length (timers s) - 1) \<or>
            (phase2 D s' \<and> clock s' = D \<and> length (timers s) = 1)"
    using fire_phase1 [OF Suc.prems] by blast
  have inv': "session_inv s'" using inv_step [OF Suc.prems(1), of Fire] f by simp
  show ?case
  proof (cases "phase1 t D s' \<and> length (timers s') = length (timers s) - 1")
    case True
    then have n: "n = length (timers s')" using Suc.hyps(2) by simp
    obtain s2 where "app_run s' (replicate (length (timers s')) Fire) = Some s2" "phase2 D s2" "clock s2 = D"
      using Suc.hyps(1) [OF n inv' _ Suc.prems(3)] True by blast
    then show ?thesis using f n Suc.hyps(2) [symmetric] by simp
  next
    case False
    then have "phase2 D s' \<and> clock s' = D \<and> length (timers s) = 1" using c by blast
    then show ?thesis using f by simp
  qed
qed

lemma reach_run: "reach s \<Longrightarrow> app_run s es = Some s' \<Longrightarrow> reach s'"
proof (induction es arbitrary: s)
  case (Cons e es)
  then show ?case by (auto intro: reach.step split: option.splits)
qed simp

lemma run_some: "(case x of None \<Rightarrow> False | Some _ \<Rightarrow> True) \<Longrightarrow> x = Some (the x)"
  by (cases x) simp_all

text \<open>
  C11. In every reachable state the token kept in \<open>localStorage\<close> is the token in memory,
  exactly one expiry timer is pending when a user is logged in and none otherwise, and every
  pending timer is due within the next 30 minutes.
\<close>

theorem session_invariant:
  assumes "reach s"
  shows "item_or (store s) ''token'' [] = token s \<and>
         length (filter is_expire (timers s)) = (if token s = [] then 0 else 1) \<and>
         list_all (\<lambda>x. clock s \<le> due x \<and> due x \<le> clock s + 1800000) (timers s)"
proof -
  have p: "timers_ok s" "expire_ok s" "item_or (store s) ''token'' [] = token s" "token s = [] \<longleftrightarrow> sess_timer s = None"
    using inv_parts [OF reach_inv [OF assms]] by simp_all
  have len: "length (filter is_expire (timers s)) = (if token s = [] then 0 else 1)"
    using p(2,4) by (cases "sess_timer s") (auto simp: expire_ok_def)
  have "list_all (\<lambda>x. clock s \<le> due x \<and> due x \<le> clock s + 1800000) (timers s)"
    unfolding list_all_iff
  proof
    fix x assume x: "x \<in> set (timers s)"
    have a: "clock s \<le> due x \<and> (is_expire x \<or> due x \<le> clock s + 1200)"
      using p(1) x by (simp add: timers_ok_def list_all_iff)
    show "clock s \<le> due x \<and> due x \<le> clock s + 1800000"
    proof (cases "is_expire x")
      case True
      then have xf: "x \<in> set (filter is_expire (timers s))" using x by simp
      have "\<exists>i d. filter is_expire (timers s) = [\<lparr>tid = i, due = d, cb = TExpire\<rparr>] \<and> d \<le> clock s + 1800000"
        using p(2) xf by (cases "sess_timer s") (auto simp: expire_ok_def)
      then obtain i d where "filter is_expire (timers s) = [\<lparr>tid = i, due = d, cb = TExpire\<rparr>]" "d \<le> clock s + 1800000"
        by blast
      then show ?thesis using a xf by auto
    qed (use a in simp)
  qed
  then show ?thesis using p(3) len by simp
qed


text \<open>
  C12. After a login the session does expire: letting the pending timers fire reaches a state
  with no token, the expiry notice and the auth page, exactly 30 minutes after the login.
\<close>

theorem session_expiry_live:
  assumes "reach s" "t \<noteq> []" "t \<noteq> token s" "ui_enabled s (Login t)" "\<not> loading s"
  shows "\<exists>n s2. app_run s (Login t # replicate n Fire) = Some s2 \<and> token s2 = [] \<and>
           clock s2 = clock s + 1800000 \<and> sessionTimeout s2 \<and> page s2 = PAuth"
proof -
  have st: "app_step s (Login t) = Some (handleSetToken t s)" using assms(4,5) by simp
  have inv: "session_inv s" using reach_inv [OF assms(1)] .
  have ph1: "phase1 t (clock s + 1800000) (handleSetToken t s)" using login_phase1 [OF inv assms(2,3) st] by simp
  obtain s2 where "app_run (handleSetToken t s) (replicate (length (timers (handleSetToken t s))) Fire) = Some s2"
      "phase2 (clock s + 1800000) s2" "clock s2 = clock s + 1800000"
    using fire_all [OF inv_step [OF inv st] ph1 assms(2)] by blast
  then show ?thesis using st by (auto simp: phase2_def)
qed


lemma init_login_facts:
  "tok_ann \<noteq> []" "tok_ann \<noteq> token (app_init Map.empty)" "ui_enabled (app_init Map.empty) (Login tok_ann)"
  "\<not> loading (app_init Map.empty)" "clock (app_init Map.empty) = 0"
  by code_simp+


theorem session_expiry_live_witness:
  "\<exists>n s2. app_run (app_init Map.empty) (Login tok_ann # replicate n Fire) = Some s2 \<and> token s2 = [] \<and>
     clock s2 = 1800000 \<and> sessionTimeout s2 \<and> page s2 = PAuth"
  using session_expiry_live [OF reach.init init_login_facts(1-4)] init_login_facts(5) by simp

lemma btoa_no_dot: "CHR ''.'' \<notin> set (btoa s)"
proof -
  have "b64_val CHR ''.'' = None" by (simp add: b64_val_def)
  moreover have "\<forall>v \<in> set (b64_enc s). v < 64" by (rule b64_enc_lt)
  ultimately have "\<forall>v \<in> set (b64_enc s). b64_char v \<noteq> CHR ''.''" by (metis b64_val_char option.distinct(1))
  then show ?thesis by (auto simp: btoa_def)
qed

lemma get_prop_obj_mem:
  assumes "distinct (map fst ps)" "(k, v) \<in> set ps" shows "get_prop (JObj ps) k = Inr v"
proof -
  have "map_of (rev ps) k = Some v"
    using assms by (intro map_of_is_SomeI) (simp_all add: rev_map [symmetric])
  then show ?thesis by simp
qed

lemma latin1_utf8_ascii: "list_all (\<lambda>c. of_char c < (128::nat)) s \<Longrightarrow> latin1_utf8 s = s"
  by (induction s) (simp_all add: latin1_utf8_def)

text \<open>
  Identity decoding inverts the token format it expects: for a token
  \<open>header.btoa(JSON.stringify(payload)).signature\<close> whose payload is ASCII text and has a
  non-empty string \<open>sub\<close>, \<open>userId\<close> becomes that string.
\<close>

theorem decode_sub_roundtrip:
  assumes "CHR ''.'' \<notin> set h" "json_ok (JObj ps)" "(''sub'', JStr u) \<in> set ps" "u \<noteq> []"
    "list_all (\<lambda>c. of_char c < (128::nat)) (json_str (JObj ps))"
  shows "decode_sub (h @ ''.'' @ btoa (json_str (JObj ps)) @ ''.'' @ sig) = JStr u"
proof -
  have seg: "token_segment (h @ ''.'' @ btoa (json_str (JObj ps)) @ ''.'' @ sig) = btoa (json_str (JObj ps))"
    using assms(1) btoa_no_dot by (simp add: token_segment_def js_split_append)
  have g: "get_prop (JObj ps) ''sub'' = Inr (JStr u)"
    using assms(2,3) by (intro get_prop_obj_mem) simp_all
  have a: "atob (btoa (json_str (JObj ps))) = Inr (json_str (JObj ps))" by (rule atob_btoa)
  have j: "json_parse (json_str (JObj ps)) = Inr (JObj ps)" by (rule json_roundtrip [OF assms(2)])
  show ?thesis
    unfolding decode_sub_def seg a js_then_Inr latin1_utf8_ascii [OF assms(5)] j g using assms(4) by simp
qed

theorem decode_sub_roundtrip_witness:
  "decode_sub (''h'' @ ''.'' @ btoa (json_str (JObj [(''sub'', JStr ''ann'')])) @ ''.'' @ ''sig'') = JStr ''ann''"
  by (rule decode_sub_roundtrip) (simp_all add: json_quote_def json_esc_def)

lemma drop_eqs_mem: "c \<in> set y \<Longrightarrow> c \<noteq> CHR ''='' \<Longrightarrow> c \<in> set (drop_eqs n y)"
  by (induction n y rule: drop_eqs.induct) auto

lemma strip_pad_mem: "c \<in> set t \<Longrightarrow> c \<noteq> CHR ''='' \<Longrightarrow> c \<in> set (strip_pad t)"
  by (simp add: strip_pad_def drop_eqs_mem)

lemma those_None: "\<exists>c \<in> set xs. f c = None \<Longrightarrow> those (map f xs) = None"
  by (induction xs) (auto split: option.splits)

text \<open>
  C20. A payload segment with a \<open>-\<close> or \<open>_\<close> (the base64url alphabet JWTs use) is rejected
  by \<open>atob\<close>, and the user id silently becomes the empty string.
\<close>

theorem decode_sub_urlsafe:
  assumes "CHR ''-'' \<in> set (token_segment t) \<or> CHR ''_'' \<in> set (token_segment t)"
  shows "decode_sub t = JStr []"
proof -
  have "b64_val CHR ''-'' = None" "b64_val CHR ''_'' = None" "\<not> b64_ws CHR ''-''" "\<not> b64_ws CHR ''_''"
    by (simp_all add: b64_val_def b64_ws_def)
  then obtain c where c: "c \<in> set (token_segment t)" "b64_val c = None" "\<not> b64_ws c" "c \<noteq> CHR ''=''"
    using assms by auto
  then have "c \<in> set (strip_pad (filter (\<lambda>c. \<not> b64_ws c) (token_segment t)))"
    by (intro strip_pad_mem) simp_all
  then have "\<exists>c \<in> set (strip_pad (filter (\<lambda>c. \<not> b64_ws c) (token_segment t))). b64_val c = None"
    using c(2) by blast
  then have "those (map b64_val (strip_pad (filter (\<lambda>c. \<not> b64_ws c) (token_segment t)))) = None"
    by (rule those_None)
  then show ?thesis by (simp add: decode_sub_def atob_def Let_def)
qed

lemma url_segment: "CHR ''_'' \<in> set (token_segment ''h.eyJzdWIiOiI_In0.s'')"
  by code_simp

theorem decode_sub_urlsafe_witness:
  "decode_sub ''h.eyJzdWIiOiI_In0.s'' = JStr [] \<and> decode_sub ''h.eyJzdWIiOiI/In0=.s'' = JStr ''?''"
proof -
  have "decode_sub ''h.eyJzdWIiOiI/In0=.s'' = JStr ''?''" by code_simp
  then show ?thesis using decode_sub_urlsafe url_segment by blast
qed

text \<open>
  C18. A prediction that resolves after the session has ended still shows its result.
  With a request outstanding, when the only pending timer is the expiry due within the
  1200 ms delay, or when there is no session any more (after logout or expiry, no timer is
  pending), the result callback runs after the session's end: the dashboard is shown, with
  the result, and with no token.
\<close>

theorem expiry_race_dashboard:
  assumes "reach s" "0 < surveys_out s"
    "list_all is_expire (timers s)" "list_all (\<lambda>x. due x < clock s + 1200) (timers s)"
  shows "\<exists>s'. app_run s (SurveyDone r # replicate (Suc (length (timers s))) Fire) = Some s' \<and>
           page s' = PDashboard \<and> token s' = [] \<and> result s' = r"
proof -
  have inv: "session_inv s" using reach_inv [OF assms(1)] .
  show ?thesis
  proof (cases "token s = []")
    case True
    then have "sess_timer s = None" using inv_parts(5) [OF inv] by simp
    then have "filter is_expire (timers s) = []" using inv_parts(3) [OF inv] by (simp add: expire_ok_def)
    then have ts: "timers s = []" using assms(3) by (simp add: filter_empty_conv list_all_iff)
    show ?thesis
      using assms(2) True ts
      by (simp add: onResult_def fire_def handleSurveyResult_def)
  next
    case False
    obtain i where i: "sess_timer s = Some i" using inv_parts(5) [OF inv] False by auto
    then obtain d where d: "filter is_expire (timers s) = [\<lparr>tid = i, due = d, cb = TExpire\<rparr>]"
      using inv_parts(3) [OF inv] by (auto simp: expire_ok_def)
    have ts: "timers s = [\<lparr>tid = i, due = d, cb = TExpire\<rparr>]"
      using d assms(3) by (simp add: filter_id_conv list_all_iff)
    have dl: "d < clock s + 1200" using ts assms(4) by simp
    have ne: "next_tid s \<noteq> i" using inv_parts(1) [OF inv] ts by (simp add: timers_ok_def)
    show ?thesis
      using assms(2) False ts dl ne i
      by (simp add: onResult_def fire_def commit_def token_effects_def Let_def handleSurveyResult_def
                    numeral_2_eq_2)
  qed
qed

lemma late_state_facts:
  "reach late_state" "0 < surveys_out late_state" "list_all is_expire (timers late_state)"
  "list_all (\<lambda>x. due x < clock late_state + 1200) (timers late_state)" "length (timers late_state) = 1"
proof -
  have "app_run (app_init Map.empty) [Login tok_ann, SurveySubmit, Idle 1799499] = Some late_state"
    unfolding late_state_def by (rule run_some) code_simp
  then show "reach late_state" by (rule reach_run [OF reach.init])
  show "0 < surveys_out late_state" unfolding late_state_def by code_simp
  show "list_all is_expire (timers late_state)" unfolding late_state_def is_expire_def by code_simp
  show "list_all (\<lambda>x. due x < clock late_state + 1200) (timers late_state)"
    unfolding late_state_def by code_simp
  show "length (timers late_state) = 1" unfolding late_state_def by code_simp
qed

theorem expiry_race_dashboard_witness:
  "\<exists>s'. app_run late_state [SurveyDone (JStr ''R''), Fire, Fire] = Some s' \<and> page s' = PDashboard \<and>
     token s' = [] \<and> result s' = JStr ''R''"
  using expiry_race_dashboard [OF late_state_facts(1-4), of "JStr ''R''"] late_state_facts(5)
  by (simp add: numeral_2_eq_2)

text \<open>
  C19. Expiry clears neither the in-memory result nor the identity: the next user who logs in
  reaches the previous user's result through the Profile and Dashboard buttons.
\<close>

theorem stale_result_next_user:
  assumes "reach s" "page s = PAuth" "\<not> loading s" "js_truthy (result s)" "t \<noteq> []" "t \<noteq> token s"
  shows "\<exists>s'. app_run s [Login t, NavProfile, NavDashboard] = Some s' \<and> page s' = PDashboard \<and>
           result s' = result s \<and> userId s' = decode_sub t \<and> token s' = t"
proof -
  show ?thesis
    using assms(2-6)
    by (simp add: handleSetToken_def commit_def token_effects_def Let_def navbar_def onDashboard_def
        split: option.split)
qed

text \<open>
  C21. Logout clears the token in memory and in \<open>localStorage\<close>, cancels the expiry timer,
  drops the result and returns to the auth page, but keeps the decoded identity.
\<close>

theorem logout_clears_session:
  assumes "reach s" "app_step s Logout = Some s'"
  shows "token s' = [] \<and> item_or (store s') ''token'' [] = [] \<and> filter is_expire (timers s') = [] \<and>
         result s' = JNull \<and> page s' = PAuth \<and> userId s' = userId s"
proof -
  have s': "s' = handleLogout s" using assms(2) by (simp split: if_splits)
  have r: "reach s'" using reach.step [OF assms] .
  have t: "token s' = []" unfolding s' handleLogout_def commit_def
    by (simp add: token_effects_def Let_def split: option.split)
  have "userId s' = userId s \<and> result s' = JNull \<and> page s' = PAuth" unfolding s' handleLogout_def commit_def
    by (simp add: token_effects_def Let_def split: option.split)
  then show ?thesis using session_invariant [OF r] t by simp
qed

lemma expired_state_facts:
  "reach expired_state" "page expired_state = PAuth" "\<not> loading expired_state"
  "js_truthy (result expired_state)" "tok_bob \<noteq> []" "tok_bob \<noteq> token expired_state"
  "result expired_state = JStr ''R''" "decode_sub tok_bob = JStr ''bob''"
proof -
  have "app_run (app_init Map.empty) [Login tok_ann, SurveySubmit, SurveyDone (JStr ''R''), Fire, Fire] = Some expired_state"
    unfolding expired_state_def by (rule run_some) code_simp
  then show "reach expired_state" by (rule reach_run [OF reach.init])
  show "page expired_state = PAuth" unfolding expired_state_def by code_simp
  show "\<not> loading expired_state" unfolding expired_state_def by code_simp
  show "result expired_state = JStr ''R''" unfolding expired_state_def by code_simp
  then show "js_truthy (result expired_state)" by simp
  show "tok_bob \<noteq> []" unfolding tok_bob_def by simp
  show "tok_bob \<noteq> token expired_state" unfolding expired_state_def tok_bob_def by code_simp
  show "decode_sub tok_bob = JStr ''bob''" unfolding tok_bob_def by code_simp
qed

theorem stale_result_next_user_witness:
  "\<exists>s'. app_run expired_state [Login tok_bob, NavProfile, NavDashboard] = Some s' \<and> page s' = PDashboard \<and>
     result s' = JStr ''R'' \<and> userId s' = JStr ''bob'' \<and> token s' = tok_bob"
  using stale_result_next_user [OF expired_state_facts(1-6)] expired_state_facts(7,8) by simp

theorem logout_clears_session_witness:
  "token (handleLogout ann_state) = [] \<and> item_or (store (handleLogout ann_state)) ''token'' [] = [] \<and>
   filter is_expire (timers (handleLogout ann_state)) = [] \<and> result (handleLogout ann_state) = JNull \<and>
   page (handleLogout ann_state) = PAuth \<and> userId (handleLogout ann_state) = JStr ''ann''"
proof -
  have "app_run (app_init Map.empty) [Login tok_ann] = Some ann_state"
    unfolding ann_state_def by (rule run_some) code_simp
  then have r: "reach ann_state" by (rule reach_run [OF reach.init])
  have "\<not> loading ann_state" "page ann_state = PSurvey" unfolding ann_state_def by code_simp+
  then have st: "app_step ann_state Logout = Some (handleLogout ann_state)" by (simp add: navbar_def)
  have "userId ann_state = JStr ''ann''" unfolding ann_state_def by code_simp
  then show ?thesis using logout_clears_session [OF r st] by simp
qed

theorem session_invariant_witness:
  "item_or (store late_state) ''token'' [] = token late_state \<and>
   length (filter is_expire (timers late_state)) = (if token late_state = [] then 0 else 1) \<and>
   list_all (\<lambda>x. clock late_state \<le> due x \<and> due x \<le> clock late_state + 1800000) (timers late_state)"
  by (rule session_invariant [OF late_state_facts(1)])

subsection \<open>The timers drain\<close>

lemma run_cb_timers: "length (timers (run_cb c s)) \<le> length (timers s)"
proof (cases c)
  case TExpire
  then show ?thesis
    by (auto simp: commit_def token_effects_def Let_def split: option.split)
qed (simp add: handleSurveyResult_def)

lemma fire_shrinks:
  assumes "session_inv s" "timers s \<noteq> []"
  shows "\<exists>s'. fire s = Some s' \<and> length (timers s') < length (timers s)"
proof -
  obtain x where x: "earliest (timers s) = Some x" using assms(2) by (cases "earliest (timers s)") auto
  have d: "distinct (map tid (timers s))" using assms(1) by (simp add: session_inv_def timers_ok_def)
  have "length (filter (\<lambda>y. tid y \<noteq> tid x) (timers s)) = length (timers s) - 1"
    using length_filter_tid [OF d] earliest_Some [OF x] by blast
  then show ?thesis
    using run_cb_timers [of "cb x" "s\<lparr>clock := due x, timers := filter (\<lambda>y. tid y \<noteq> tid x) (timers s)\<rparr>"]
      assms(2) by (simp add: fire_def x length_greater_0_conv [symmetric] del: length_greater_0_conv)
qed

text \<open>
  C23: the event loop goes quiet: from every reachable state, at most as many timer
  firings as there are pending timers run every pending callback and leave no timer
  behind, since no callback schedules a new one.
\<close>

theorem timers_drain:
  "reach s \<Longrightarrow> \<exists>n \<le> length (timers s). \<exists>s'. app_run s (replicate n Fire) = Some s' \<and> timers s' = []"
proof (induction "length (timers s)" arbitrary: s rule: less_induct)
  case less
  show ?case
  proof (cases "timers s = []")
    case True
    then show ?thesis by (intro exI [of _ 0]) simp
  next
    case False
    obtain s1 where f: "fire s = Some s1" and l: "length (timers s1) < length (timers s)"
      using fire_shrinks [OF reach_inv [OF less.prems] False] by blast
    have r1: "reach s1" using reach.step [OF less.prems, of Fire] f by simp
    obtain n s' where n: "n \<le> length (timers s1)" and run: "app_run s1 (replicate n Fire) = Some s'"
      and e: "timers s' = []"
      using less.hyps [OF l r1] by blast
    have "app_run s (replicate (Suc n) Fire) = Some s'" using f run by simp
    then show ?thesis using n l e by (intro exI [of _ "Suc n"]) auto
  qed
qed

lemma ann_reach: "reach ann_state"
proof -
  have "app_run (app_init Map.empty) [Login tok_ann] = Some ann_state"
    unfolding ann_state_def by (rule run_some) code_simp
  then show ?thesis using reach_run [OF reach.init] by blast
qed

lemma ann_timers: "length (timers ann_state) = 1"
  by code_simp

lemma timers_drain_witness:
  "\<exists>n \<le> 1. \<exists>s'. app_run ann_state (replicate n Fire) = Some s' \<and> timers s' = []"
  using timers_drain [OF ann_reach] ann_timers by simp

end
