(* ===== verification/Survey.thy ===== *)
theory Survey
  imports Storage Complex_Main
begin

text \<open>
  The survey form, \<open>src/src/SurveyForm.jsx\<close>: the form record, validation in its fixed
  order, the step indicator (\<open>findIndex\<close> over the five steps) and its progress bar, the
  normalised payload, and \<open>handleSubmit\<close> with the API call's outcome as a parameter:
  on success it hands the result to \<open>onResult\<close> and appends a record to the shared
  \<open>surveyHistory\<close>; on failure it shows the server's detail. \<open>survey_render\<close> gives
  the texts and highlights the form renders.
\<close>

subsection \<open>The form\<close>

definition educationOptions :: "string list" where
  "educationOptions = ['''', ''High School'', ''Associate Degree'', ''Bachelor'' @ [CHR 0x27] @ ''s Degree'',
     ''Master'' @ [CHR 0x27] @ ''s Degree'', ''PhD'', ''Other'']"

record form =
  skills :: string
  education :: string
  interests :: string
  personality :: string
  goals :: string

definition empty_form :: form where
  "empty_form = \<lparr>skills = [], education = [], interests = [], personality = [], goals = []\<rparr>"

datatype field = FSkills | FEducation | FInterests | FPersonality | FGoals

text \<open>\<open>setForm({ ...form, [e.target.name]: e.target.value })\<close>.\<close>

fun handleChange :: "form \<Rightarrow> field \<Rightarrow> string \<Rightarrow> form" where
  "handleChange f FSkills v = f\<lparr>skills := v\<rparr>"
| "handleChange f FEducation v = f\<lparr>education := v\<rparr>"
| "handleChange f FInterests v = f\<lparr>interests := v\<rparr>"
| "handleChange f FPersonality v = f\<lparr>personality := v\<rparr>"
| "handleChange f FGoals v = f\<lparr>goals := v\<rparr>"

subsection \<open>Validation and the step indicator\<close>

definition validate :: "form \<Rightarrow> string" where
  "validate f =
     (if js_trim (skills f) = [] then ''Please enter at least one skill.''
      else if education f = [] then ''Please select your education.''
      else if js_trim (interests f) = [] then ''Please enter at least one interest.''
      else if js_trim (personality f) = [] then ''Please describe your personality.''
      else if js_trim (goals f) = [] then ''Please enter your goals.''
      else [])"

definition steps :: "string list" where
  "steps = [''Skills'', ''Education'', ''Interests'', ''Personality'', ''Goals'']"

text \<open>\<open>arr.findIndex((x, idx) => p(x, idx))\<close>: the first index, or -1.\<close>

fun find_index_from :: "('a \<Rightarrow> nat \<Rightarrow> bool) \<Rightarrow> nat \<Rightarrow> 'a list \<Rightarrow> int" where
  "find_index_from p i [] = -1"
| "find_index_from p i (x # xs) = (if p x i then int i else find_index_from p (Suc i) xs)"

definition js_findIndex :: "('a \<Rightarrow> nat \<Rightarrow> bool) \<Rightarrow> 'a list \<Rightarrow> int" where
  "js_findIndex p xs = find_index_from p 0 xs"

definition step_missing :: "form \<Rightarrow> nat \<Rightarrow> bool" where
  "step_missing f idx =
     (if idx = 0 then js_trim (skills f) = []
      else if idx = 1 then education f = []
      else if idx = 2 then js_trim (interests f) = []
      else if idx = 3 then js_trim (personality f) = []
      else if idx = 4 then js_trim (goals f) = []
      else False)"

definition currentStep :: "form \<Rightarrow> int" where
  "currentStep f = js_findIndex (\<lambda>step idx. step_missing f idx) steps"

text \<open>The progress bar width in percent, \<open>((currentStep+1)/steps.length)*100\<close>, as an exact rational.\<close>

definition progress :: "form \<Rightarrow> rat" where
  "progress f = of_int (currentStep f + 1) / of_nat (length steps) * 100"

text \<open>A step circle is highlighted when \<open>idx <= currentStep\<close>.\<close>

definition step_active :: "form \<Rightarrow> nat \<Rightarrow> bool" where
  "step_active f idx \<longleftrightarrow> int idx \<le> currentStep f"

subsection \<open>The payload\<close>

text \<open>\<open>s.split(',').map(s => s.trim()).filter(Boolean)\<close>.\<close>

definition normalize_list :: "string \<Rightarrow> string list" where
  "normalize_list s = filter (\<lambda>x. x \<noteq> []) (map js_trim (js_split CHR '','' s))"

definition payload :: "jsval \<Rightarrow> form \<Rightarrow> jsval" where
  "payload userId f = JObj [(''user_id'', userId), (''skills'', JArr (map JStr (normalize_list (skills f)))),
     (''education'', JStr (education f)), (''interests'', JArr (map JStr (normalize_list (interests f)))),
     (''personality'', JStr (personality f)), (''goals'', JStr (goals f))]"

subsection \<open>Submission\<close>

text \<open>
  The outcome of \<open>await predictCareer(payload, token)\<close>: the response data, or the axios
  error that was thrown.
\<close>

datatype api_result = ApiOk jsval | ApiFail jsval

text \<open>The history record pushed after a successful call; \<open>res.data.careers\<close> may throw.\<close>

definition hist_record :: "jsval \<Rightarrow> string \<Rightarrow> jsval \<Rightarrow> jsval \<Rightarrow> jsval js" where
  "hist_record userId date p data =
     js_then (get_prop data ''careers'') (\<lambda>cs.
       Inr (JObj [(''user_id'', userId), (''date'', JStr date), (''skills'', prop_of p ''skills''),
                  (''education'', prop_of p ''education''), (''interests'', prop_of p ''interests''),
                  (''personality'', prop_of p ''personality''), (''goals'', prop_of p ''goals''), (''careers'', cs)]))"

text \<open>\<open>history.push(r)\<close>: only an array has \<open>push\<close>.\<close>

definition js_push :: "jsval \<Rightarrow> jsval \<Rightarrow> jsval list js" where
  "js_push h r = (case h of JArr xs \<Rightarrow> Inr (xs @ [r]) | _ \<Rightarrow> Inl TypeError)"

text \<open>
  The \<open>catch\<close> block: \<open>err.response?.data?.detail\<close>, a string shown as it is, an array of
  field messages joined by spaces (\<open>e.msg\<close> throws on a \<open>null\<close> entry, and then nothing
  catches it), anything else the generic message. A JavaScript error thrown inside the \<open>try\<close>
  has no \<open>response\<close>.
\<close>

definition err_detail :: "jsval \<Rightarrow> jsval" where
  "err_detail err = opt_prop (opt_prop (opt_prop err ''response'') ''data'') ''detail''"

definition catch_msg :: "jsval \<Rightarrow> string js" where
  "catch_msg err =
     (case err_detail err of
        JStr m \<Rightarrow> Inr m
      | JArr ds \<Rightarrow> js_then (js_map_list (\<lambda>e. get_prop e ''msg'') ds) (\<lambda>ms. Inr (js_arr_join '' '' ms))
      | _ \<Rightarrow> Inr ''Error'')"

definition js_error_obj :: "js_error \<Rightarrow> jsval" where
  "js_error_obj e = JObj [(''name'', JStr (case e of TypeError \<Rightarrow> ''TypeError'' | SyntaxError \<Rightarrow> ''SyntaxError''
                                           | InvalidCharacterError \<Rightarrow> ''InvalidCharacterError''))]"

text \<open>
  What a submission leaves behind: the error message shown, the value handed to \<open>onResult\<close>,
  the store, the payload sent to the API, and whether an exception escaped the handler.
\<close>

record submit_out =
  s_error :: string
  s_result :: "jsval option"
  s_store :: store
  s_sent :: "jsval option"
  s_uncaught :: bool

definition catch_out :: "jsval option \<Rightarrow> jsval option \<Rightarrow> store \<Rightarrow> jsval \<Rightarrow> submit_out" where
  "catch_out sent res st err =
     (case catch_msg err of
        Inr m \<Rightarrow> \<lparr>s_error = m, s_result = res, s_store = st, s_sent = sent, s_uncaught = False\<rparr>
      | Inl _ \<Rightarrow> \<lparr>s_error = [], s_result = res, s_store = st, s_sent = sent, s_uncaught = True\<rparr>)"

definition handleSubmit :: "form \<Rightarrow> jsval \<Rightarrow> string \<Rightarrow> api_result \<Rightarrow> store \<Rightarrow> submit_out" where
  "handleSubmit f userId date resp st =
     (let v = validate f in
      if v \<noteq> [] then \<lparr>s_error = v, s_result = None, s_store = st, s_sent = None, s_uncaught = False\<rparr>
      else
        let p = payload userId f in
        (case resp of
           ApiFail err \<Rightarrow> catch_out (Some p) None st err
         | ApiOk data \<Rightarrow>
             (case js_then (load_json st ''surveyHistory'' ''[]'') (\<lambda>h.
                     js_then (hist_record userId date p data) (\<lambda>r. js_push h r)) of
                Inr h' \<Rightarrow> \<lparr>s_error = [], s_result = Some data, s_store = save_json st ''surveyHistory'' (JArr h'),
                           s_sent = Some p, s_uncaught = False\<rparr>
              | Inl e \<Rightarrow> catch_out (Some p) (Some data) st (js_error_obj e))))"

subsection \<open>The form as rendered\<close>

record survey_view =
  sv_progress :: rat
  sv_steps :: "(string \<times> string \<times> bool) list"
  sv_values :: "string list"
  sv_options :: "(string \<times> string) list"
  sv_error :: "string option"
  sv_submit :: string

text \<open>The progress bar, the stepper (number, name, highlight), the five inputs in order, the
  education options (value, text; the empty value reads \<open>Select education\<close>), the error
  line when the error is not empty, and the submit button.\<close>

definition survey_render :: "form \<Rightarrow> string \<Rightarrow> survey_view" where
  "survey_render f err =
     \<lparr>sv_progress = progress f,
      sv_steps = map (\<lambda>(idx, step). (digits_nat (idx + 1), step, step_active f idx)) (enumerate 0 steps),
      sv_values = [skills f, education f, interests f, personality f, goals f],
      sv_options = map (\<lambda>opt. (opt, if opt = [] then ''Select education'' else opt)) educationOptions,
      sv_error = (if err \<noteq> [] then Some err else None),
      sv_submit = ''Get Career Suggestions''\<rparr>"

subsection \<open>Examples\<close>

definition f_ok :: form where
  "f_ok = \<lparr>skills = '' Python, SQL '', education = ''PhD'', interests = ''AI'', personality = ''calm'',
           goals = ''Data scientist''\<rparr>"

definition data_ok :: jsval where
  "data_ok = JObj [(''careers'', JArr [JObj [(''career'', JStr ''Data Scientist''), (''score'', JNum 9 1)]])]"

definition err_422 :: jsval where
  "err_422 = JObj [(''response'', JObj [(''data'', JObj [(''detail'',
     JArr [JObj [(''msg'', JStr ''skills required'')], JObj [(''msg'', JStr ''bad goal'')]])])])]"

subsection \<open>Validation, steps and submission\<close>

lemma currentStep_eq:
  "currentStep f =
     (if js_trim (skills f) = [] then 0 else if education f = [] then 1
      else if js_trim (interests f) = [] then 2 else if js_trim (personality f) = [] then 3
      else if js_trim (goals f) = [] then 4 else -1)"
  by (simp add: currentStep_def js_findIndex_def steps_def step_missing_def)

text \<open>
  C13. Validation and the step indicator agree: the form is valid exactly when no step is
  missing, and otherwise the message shown is the one of the first missing step.
\<close>

theorem validate_currentStep:
  "validate f =
     (if currentStep f = -1 then []
      else [''Please enter at least one skill.'', ''Please select your education.'',
            ''Please enter at least one interest.'', ''Please describe your personality.'',
            ''Please enter your goals.''] ! nat (currentStep f))"
  by (simp add: currentStep_eq validate_def)

lemma validate_ok_iff: "validate f = [] \<longleftrightarrow> currentStep f = -1"
  by (simp add: currentStep_eq validate_def)

lemma currentStep_range: "-1 \<le> currentStep f \<and> currentStep f \<le> 4"
  by (simp add: currentStep_eq)

text \<open>
  C27. The progress bar the form renders stays between 0% and 100%, but it is empty exactly
  when the form is complete, and then no step of the stepper is highlighted:
  \<open>findIndex\<close> returns -1 for a complete form.
\<close>

theorem progress_bounds:
  "0 \<le> sv_progress (survey_render f e) \<and> sv_progress (survey_render f e) \<le> 100 \<and>
   (sv_progress (survey_render f e) = 0 \<longleftrightarrow> validate f = []) \<and>
   (validate f = [] \<longrightarrow> list_all (\<lambda>(n, st, act). \<not> act) (sv_steps (survey_render f e)))"
proof -
  have r: "-1 \<le> currentStep f" "currentStep f \<le> 4" using currentStep_range by simp_all
  have p: "sv_progress (survey_render f e) = of_int (currentStep f + 1) * 20"
    by (simp add: survey_render_def progress_def steps_def)
  have "0 \<le> sv_progress (survey_render f e)" using r(1) by (simp add: p)
  moreover have "sv_progress (survey_render f e) \<le> 100" using r(2) by (simp add: p)
  moreover have "sv_progress (survey_render f e) = 0 \<longleftrightarrow> validate f = []"
  proof -
    have "sv_progress (survey_render f e) = 0 \<longleftrightarrow> currentStep f + 1 = 0"
      unfolding p by (simp only: mult_eq_0_iff of_int_eq_0_iff) simp
    then show ?thesis by (simp add: validate_ok_iff) arith
  qed
  moreover have "validate f = [] \<longrightarrow> list_all (\<lambda>(n, st, act). \<not> act) (sv_steps (survey_render f e))"
    by (auto simp: validate_ok_iff step_active_def survey_render_def list_all_iff)
  ultimately show ?thesis by blast
qed

text \<open>
  A submission reaches the API exactly when the form is valid; an invalid form only shows
  its message.
\<close>

theorem submit_sends_iff_valid:
  "s_sent (handleSubmit f userId date resp st) = None \<longleftrightarrow> validate f \<noteq> []"
  by (auto simp: handleSubmit_def Let_def catch_out_def split: api_result.splits sum.splits)

text \<open>
  The list normalisation of the payload is idempotent: joining a normalised list with
  commas and normalising again gives it back.
\<close>

theorem normalize_list_idem: "normalize_list (js_join '','' (normalize_list s)) = normalize_list s"
proof (cases "normalize_list s = []")
  case True
  then show ?thesis by (simp add: normalize_list_def js_trim_def)
next
  case False
  have nosep: "\<forall>x \<in> set (normalize_list s). CHR '','' \<notin> set x"
    using js_split_no_sep set_js_trim by (fastforce simp: normalize_list_def)
  have "js_split CHR '','' (js_join '','' (normalize_list s)) = normalize_list s"
    using js_split_join [OF nosep False] by simp
  moreover have "map js_trim (normalize_list s) = normalize_list s"
    by (rule map_idI) (auto simp: normalize_list_def js_trim_idem)
  ultimately show ?thesis by (simp add: normalize_list_def)
qed

lemma json_ok_str_list [simp]: "json_ok (JArr (map JStr xs))"
  by simp

lemma hist_record_ok:
  assumes "get_prop data ''careers'' = Inr cs" "json_ok cs"
  shows "\<exists>r. hist_record (JStr u) date (payload (JStr u) f) data = Inr r \<and> json_ok r \<and>
             get_prop r ''careers'' = Inr cs \<and> prop_of r ''user_id'' = JStr u"
  using assms by (simp add: hist_record_def payload_def prop_of_def)

lemma submit_success_eq:
  assumes "validate f = []" "load_json st ''surveyHistory'' ''[]'' = Inr (JArr hs)"
    "hist_record userId date (payload userId f) data = Inr r"
  shows "handleSubmit f userId date (ApiOk data) st =
        \<lparr>s_error = [], s_result = Some data, s_store = save_json st ''surveyHistory'' (JArr (hs @ [r])),
         s_sent = Some (payload userId f), s_uncaught = False\<rparr>"
  using assms by (simp add: handleSubmit_def Let_def js_push_def)

text \<open>
  C4. When the form is valid, the stored history reads as an array that \<open>JSON.stringify\<close>
  prints exactly, and the response's \<open>careers\<close> field is printable, a successful submission
  appends exactly one record to that history; its careers are the response's careers, the
  result is shown with no error, and the record is retrieved by the submitting user's id only.
\<close>

theorem submit_appends_record:
  assumes "validate f = []" "load_json st ''surveyHistory'' ''[]'' = Inr (JArr hs)" "json_ok (JArr hs)"
    "get_prop data ''careers'' = Inr cs" "json_ok cs"
  shows "\<exists>r. load_json (s_store (handleSubmit f (JStr u) date (ApiOk data) st)) ''surveyHistory'' ''[]'' =
             Inr (JArr (hs @ [r])) \<and> get_prop r ''careers'' = Inr cs \<and> prop_of r ''user_id'' = JStr u \<and>
           s_result (handleSubmit f (JStr u) date (ApiOk data) st) = Some data \<and>
           s_error (handleSubmit f (JStr u) date (ApiOk data) st) = [] \<and>
           (\<forall>u'. filter (\<lambda>x. prop_of x ''user_id'' = JStr u') (hs @ [r]) =
                 filter (\<lambda>x. prop_of x ''user_id'' = JStr u') hs @ (if u' = u then [r] else []))"
proof -
  obtain r where r: "hist_record (JStr u) date (payload (JStr u) f) data = Inr r" "json_ok r"
    "get_prop r ''careers'' = Inr cs" "prop_of r ''user_id'' = JStr u"
    using hist_record_ok [OF assms(4,5)] by blast
  have ok: "json_ok (JArr (hs @ [r]))" using assms(3) r(2) by simp
  show ?thesis using submit_success_eq [OF assms(1,2) r(1)] load_json_save_json [OF ok] r(3,4) by auto
qed

lemma catch_msg_js_error: "catch_msg (js_error_obj e) = Inr ''Error''"
  by (simp add: catch_msg_def err_detail_def js_error_obj_def opt_prop_def)

text \<open>
  C26. When the stored history is malformed or not an array, a successful submission still
  delivers its result, but the record is dropped and the generic error is shown.
\<close>

theorem submit_history_malformed:
  assumes "validate f = []" "\<forall>hs. load_json st ''surveyHistory'' ''[]'' \<noteq> Inr (JArr hs)"
  shows "s_result (handleSubmit f userId date (ApiOk data) st) = Some data \<and>
         s_error (handleSubmit f userId date (ApiOk data) st) = ''Error'' \<and>
         s_store (handleSubmit f userId date (ApiOk data) st) = st"
proof -
  let ?x = "js_then (load_json st ''surveyHistory'' ''[]'') (\<lambda>h.
       js_then (hist_record userId date (payload userId f) data) (\<lambda>r. js_push h r))"
  have "isl ?x"
  proof (cases "load_json st ''surveyHistory'' ''[]''")
    case (Inr b)
    then have "\<forall>hs. b \<noteq> JArr hs" using assms(2) by simp
    then show ?thesis using Inr
      by (cases "hist_record userId date (payload userId f) data") (auto simp: js_push_def split: jsval.splits)
  qed simp
  then obtain e where "?x = Inl e" by (cases ?x) auto
  then show ?thesis using assms(1)
    by (simp add: handleSubmit_def Let_def catch_out_def catch_msg_js_error)
qed

text \<open>
  On an API failure nothing is stored or delivered, and the message is the server's detail
  string, its field messages joined by spaces, or the generic error.
\<close>

theorem submit_api_failure:
  assumes "validate f = []" "list_all (\<lambda>d. \<not> is_nullish d) (case err_detail err of JArr ds \<Rightarrow> ds | _ \<Rightarrow> [])"
  shows "s_error (handleSubmit f userId date (ApiFail err) st) =
           (case err_detail err of JStr m \<Rightarrow> m
            | JArr ds \<Rightarrow> js_arr_join '' '' (map (\<lambda>d. prop_of d ''msg'') ds) | _ \<Rightarrow> ''Error'') \<and>
         s_store (handleSubmit f userId date (ApiFail err) st) = st \<and>
         s_result (handleSubmit f userId date (ApiFail err) st) = None \<and>
         s_sent (handleSubmit f userId date (ApiFail err) st) = Some (payload userId f)"
proof -
  have "catch_msg err = Inr (case err_detail err of JStr m \<Rightarrow> m
            | JArr ds \<Rightarrow> js_arr_join '' '' (map (\<lambda>d. prop_of d ''msg'') ds) | _ \<Rightarrow> ''Error'')"
    using assms(2)
    by (cases "err_detail err")
       (simp_all add: catch_msg_def list_all_iff js_map_list_pure get_prop_total)
  then show ?thesis using assms(1) by (simp add: handleSubmit_def Let_def catch_out_def)
qed

lemma f_ok_valid: "validate f_ok = []"
  by code_simp

theorem submit_appends_record_witness:
  "\<exists>r. load_json (s_store (handleSubmit f_ok (JStr ''ann'') ''d'' (ApiOk data_ok) Map.empty)) ''surveyHistory'' ''[]'' =
         Inr (JArr ([] @ [r])) \<and>
       get_prop r ''careers'' = Inr (JArr [JObj [(''career'', JStr ''Data Scientist''), (''score'', JNum 9 1)]]) \<and>
       prop_of r ''user_id'' = JStr ''ann'' \<and>
       s_result (handleSubmit f_ok (JStr ''ann'') ''d'' (ApiOk data_ok) Map.empty) = Some data_ok \<and>
       s_error (handleSubmit f_ok (JStr ''ann'') ''d'' (ApiOk data_ok) Map.empty) = [] \<and>
       (\<forall>u'. filter (\<lambda>x. prop_of x ''user_id'' = JStr u') ([] @ [r]) =
             filter (\<lambda>x. prop_of x ''user_id'' = JStr u') [] @ (if u' = ''ann'' then [r] else []))"
proof -
  have l: "load_json Map.empty ''surveyHistory'' ''[]'' = Inr (JArr [])" by code_simp
  show ?thesis
    by (rule submit_appends_record [OF f_ok_valid l]) (simp_all add: data_ok_def num_canon_def)
qed

theorem submit_history_malformed_witness:
  "s_result (handleSubmit f_ok (JStr ''ann'') ''d'' (ApiOk data_ok) [''surveyHistory'' \<mapsto> ''{}'']) = Some data_ok \<and>
   s_error (handleSubmit f_ok (JStr ''ann'') ''d'' (ApiOk data_ok) [''surveyHistory'' \<mapsto> ''{}'']) = ''Error'' \<and>
   s_store (handleSubmit f_ok (JStr ''ann'') ''d'' (ApiOk data_ok) [''surveyHistory'' \<mapsto> ''{}'']) = [''surveyHistory'' \<mapsto> ''{}'']"
proof -
  have "load_json [''surveyHistory'' \<mapsto> ''{}''] ''surveyHistory'' ''[]'' = Inr (JObj [])" by code_simp
  then show ?thesis using submit_history_malformed [OF f_ok_valid] by simp
qed

theorem submit_api_failure_witness:
  "s_error (handleSubmit f_ok (JStr ''ann'') ''d'' (ApiFail err_422) Map.empty) = ''skills required bad goal'' \<and>
   s_store (handleSubmit f_ok (JStr ''ann'') ''d'' (ApiFail err_422) Map.empty) = Map.empty \<and>
   s_result (handleSubmit f_ok (JStr ''ann'') ''d'' (ApiFail err_422) Map.empty) = None \<and>
   s_sent (handleSubmit f_ok (JStr ''ann'') ''d'' (ApiFail err_422) Map.empty) = Some (payload (JStr ''ann'') f_ok)"
proof -
  have d: "err_detail err_422 = JArr [JObj [(''msg'', JStr ''skills required'')], JObj [(''msg'', JStr ''bad goal'')]]"
    by (simp add: err_detail_def err_422_def opt_prop_def)
  have "list_all (\<lambda>d. \<not> is_nullish d) (case err_detail err_422 of JArr ds \<Rightarrow> ds | _ \<Rightarrow> [])"
    by (simp add: d is_nullish_def)
  then show ?thesis
    using submit_api_failure [OF f_ok_valid, of err_422] d
    by (simp add: prop_of_def js_arr_join_def join_elem_def is_nullish_def)
qed

theorem progress_bounds_witness:
  "0 \<le> sv_progress (survey_render f_ok []) \<and> sv_progress (survey_render f_ok []) \<le> 100 \<and>
   sv_progress (survey_render f_ok []) = 0 \<and>
   list_all (\<lambda>(n, st, act). \<not> act) (sv_steps (survey_render f_ok []))"
  using progress_bounds [of f_ok "[]"] f_ok_valid by simp

end
