(* ===== verification/History.thy ===== *)
theory History
  imports Survey
begin

text \<open>
  The survey history panel, \<open>src/src/SurveyHistory.jsx\<close>: the effect that loads the
  user's records from the shared \<open>surveyHistory\<close> list inside a \<open>try\<close>, and the
  rendering of each record. A render that throws is not caught by anything.
\<close>

text \<open>
  The effect on \<open>[userId]\<close>: a parse error, a non-array value, or a record the filter cannot
  read (\<open>null\<close>) all end in the \<open>catch\<close> or the \<open>else\<close> branch, with an empty history.
\<close>

definition history_load :: "store \<Rightarrow> jsval \<Rightarrow> jsval list" where
  "history_load st userId =
     (case js_then (load_json st ''surveyHistory'' ''[]'') (\<lambda>h.
             case h of JArr xs \<Rightarrow> js_filter_list (\<lambda>x. js_then (get_prop x ''user_id'') (\<lambda>w. Inr (js_seq w userId))) xs
                     | _ \<Rightarrow> Inr []) of
        Inr v \<Rightarrow> v
      | Inl _ \<Rightarrow> [])"

text \<open>One list item: date, skills, education, interests, personality, goals and top career.\<close>

definition history_item :: "jsval \<Rightarrow> string list js" where
  "history_item h =
     js_then (get_prop h ''date'') (\<lambda>d. js_then (jsx_text (js_or d (JStr ''Unknown''))) (\<lambda>date.
     js_then (get_prop h ''skills'') (\<lambda>sk. js_then (js_join_call sk '', '') (\<lambda>skills.
     js_then (get_prop h ''education'') (\<lambda>ed. js_then (jsx_text ed) (\<lambda>education.
     js_then (get_prop h ''interests'') (\<lambda>it. js_then (js_join_call it '', '') (\<lambda>interests.
     js_then (get_prop h ''personality'') (\<lambda>pe. js_then (jsx_text pe) (\<lambda>personality.
     js_then (get_prop h ''goals'') (\<lambda>go. js_then (jsx_text go) (\<lambda>goals.
     js_then (jsx_text (js_or (opt_prop (opt_index0 (opt_prop h ''careers'')) ''career'') (JStr ''-''))) (\<lambda>top.
       Inr [date, skills, education, interests, personality, goals, top])))))))))))))"

text \<open>The panel: nothing without a user, else the items (an empty list shows the placeholder).\<close>

definition history_render :: "store \<Rightarrow> jsval \<Rightarrow> string list list option js" where
  "history_render st userId =
     (if \<not> js_truthy userId then Inr None
      else js_then (js_map_list history_item (history_load st userId)) (\<lambda>items. Inr (Some items)))"

text \<open>A stored history with a record written by another client.\<close>

definition bad_hist :: jsval where
  "bad_hist = JArr [JObj [(''user_id'', JStr ''ann''), (''skills'', JStr ''Python'')]]"

subsection \<open>Properties\<close>

lemma history_load_eq:
  assumes "load_json st ''surveyHistory'' ''[]'' = Inr (JArr xs)" "list_all (\<lambda>x. \<not> is_nullish x) xs"
  shows "history_load st (JStr u) = filter (\<lambda>x. prop_of x ''user_id'' = JStr u) xs"
proof -
  have "\<And>x. x \<in> set xs \<Longrightarrow> js_then (get_prop x ''user_id'') (\<lambda>w. Inr (js_seq w (JStr u))) =
              Inr (prop_of x ''user_id'' = JStr u)"
    using assms(2) by (simp add: list_all_iff get_prop_total js_seq_def split: jsval.split)
  then show ?thesis using assms(1) by (simp add: history_load_def js_filter_list_pure)
qed

text \<open>
  A stored history that is malformed or not an array yields an empty history, never an
  exception.
\<close>

theorem history_load_malformed:
  assumes "\<forall>xs. load_json st ''surveyHistory'' ''[]'' \<noteq> Inr (JArr xs)"
  shows "history_load st userId = []"
  using assms by (cases "load_json st ''surveyHistory'' ''[]''") (auto simp: history_load_def split: jsval.splits)

text \<open>
  C28. When the form is valid, the stored history reads as an array of records (no
  \<open>null\<close> entry) that \<open>JSON.stringify\<close> prints exactly, and the response's \<open>careers\<close>
  field is printable, then after a successful submission the submitting user's history
  panel shows the old entries followed by a new record with those careers, and every other
  user's panel is unchanged.
\<close>

theorem submit_then_history:
  assumes "validate f = []" "load_json st ''surveyHistory'' ''[]'' = Inr (JArr hs)" "json_ok (JArr hs)"
    "list_all (\<lambda>x. \<not> is_nullish x) hs" "get_prop data ''careers'' = Inr cs" "json_ok cs"
  shows "\<exists>r. get_prop r ''careers'' = Inr cs \<and>
           history_load (s_store (handleSubmit f (JStr u) date (ApiOk data) st)) (JStr u') =
           history_load st (JStr u') @ (if u' = u then [r] else [])"
proof -
  obtain r where r: "hist_record (JStr u) date (payload (JStr u) f) data = Inr r" "json_ok r"
    "get_prop r ''careers'' = Inr cs" "prop_of r ''user_id'' = JStr u"
    using hist_record_ok [OF assms(5,6)] by blast
  have ok: "json_ok (JArr (hs @ [r]))" using assms(3) r(2) by simp
  have nn: "list_all (\<lambda>x. \<not> is_nullish x) (hs @ [r])" using assms(4) r(4) by (auto simp: is_nullish_def prop_of_def)
  have "history_load (s_store (handleSubmit f (JStr u) date (ApiOk data) st)) (JStr u') =
        filter (\<lambda>x. prop_of x ''user_id'' = JStr u') (hs @ [r])"
    using submit_success_eq [OF assms(1,2) r(1)] load_json_save_json [OF ok] nn
    by (simp add: history_load_eq)
  then show ?thesis using history_load_eq [OF assms(2,4)] r(3,4) by auto
qed

lemma history_item_bad_skills:
  assumes "\<not> is_nullish h" "\<forall>xs. prop_of h ''skills'' \<noteq> JArr xs"
  shows "isl (history_item h)"
  unfolding history_item_def using assms
  by (auto simp: get_prop_total js_join_call_def intro!: js_then_isl split: jsval.split)

text \<open>
  C34: The load is guarded but the rendering is not: one of the user's records whose skills are
  not an array makes the history panel throw.
\<close>

theorem history_render_bad_record:
  assumes "load_json st ''surveyHistory'' ''[]'' = Inr (JArr xs)" "list_all (\<lambda>x. \<not> is_nullish x) xs"
    "h \<in> set xs" "prop_of h ''user_id'' = JStr u" "u \<noteq> []" "\<forall>ys. prop_of h ''skills'' \<noteq> JArr ys"
  shows "isl (history_render st (JStr u))"
proof -
  have items: "h \<in> set (history_load st (JStr u))" using history_load_eq [OF assms(1,2)] assms(3,4) by simp
  have "isl (history_item h)" using history_item_bad_skills assms(2,3,6) by (simp add: list_all_iff)
  then have "isl (js_map_list history_item (history_load st (JStr u)))"
    using items by (rule js_map_list_isl [rotated])
  then show ?thesis using assms(5) by (auto simp: history_render_def js_then_def split: sum.splits)
qed

theorem history_load_malformed_witness:
  "history_load [''surveyHistory'' \<mapsto> ''{}''] (JStr ''ann'') = []"
proof -
  have "load_json [''surveyHistory'' \<mapsto> ''{}''] ''surveyHistory'' ''[]'' = Inr (JObj [])" by code_simp
  then show ?thesis using history_load_malformed [of "[''surveyHistory'' \<mapsto> ''{}'']"] by simp
qed

theorem submit_then_history_witness:
  "\<exists>r. get_prop r ''careers'' = Inr (JArr [JObj [(''career'', JStr ''Data Scientist''), (''score'', JNum 9 1)]]) \<and>
     history_load (s_store (handleSubmit f_ok (JStr ''ann'') ''d'' (ApiOk data_ok) Map.empty)) (JStr ''ann'') =
     history_load Map.empty (JStr ''ann'') @ (if ''ann'' = ''ann'' then [r] else [])"
proof -
  have l: "load_json Map.empty ''surveyHistory'' ''[]'' = Inr (JArr [])" by code_simp
  show ?thesis
    by (rule submit_then_history [OF f_ok_valid l]) (simp_all add: data_ok_def num_canon_def)
qed

theorem history_render_bad_record_witness:
  "isl (history_render (save_json Map.empty ''surveyHistory'' bad_hist) (JStr ''ann''))"
proof -
  have l: "load_json (save_json Map.empty ''surveyHistory'' bad_hist) ''surveyHistory'' ''[]'' =
           Inr (JArr [JObj [(''user_id'', JStr ''ann''), (''skills'', JStr ''Python'')]])"
    by (simp add: load_json_save_json bad_hist_def)
  show ?thesis
    by (rule history_render_bad_record [OF l, of "JObj [(''user_id'', JStr ''ann''), (''skills'', JStr ''Python'')]"])
       (simp_all add: is_nullish_def prop_of_def)
qed

end
