(* ===== verification/Auth.thy ===== *)
theory Auth
  imports Survey
begin

text \<open>
  The sign-in page (\<open>src/src/Auth.jsx\<close>) and the API client it calls (\<open>src/src/api.js\<close>).
  The page keeps the form fields, the mode (login or signup), the arithmetic captcha
  and the loading flag in React state. The successive results of \<open>Math.random()\<close> are an
  explicit sequence \<open>rnd\<close> of draws in \<open>[0, 1)\<close>, of which \<open>draws\<close> have been
  used; \<open>regenerateCaptcha\<close> takes the next two. The
  asynchronous \<open>handleSubmit\<close> is split at its \<open>await\<close>: the event \<open>ASubmit\<close> runs
  it up to the network call (recorded in \<open>sent\<close>), and \<open>AResolve\<close> or \<open>AReject\<close>
  runs the rest with the values the closure captured (\<open>snap\<close>). The login body is
  form-encoded (\<open>URLSearchParams\<close>), whose serializer and parser are those of the URL
  standard on byte strings. \<open>auth_render\<close> gives the texts the page shows; the labels,
  mode line and buttons are shared with \<open>Auth_clean.jsx\<close> (\<open>AuthClean\<close>).
\<close>

subsection \<open>The API client\<close>

datatype http_body = JsonBody jsval | FormBody string

datatype http_req = Post string "(string \<times> string) list" http_body | Get string "(string \<times> string) list"

text \<open>The \<open>application/x-www-form-urlencoded\<close> byte serializer: space as \<open>+\<close>,
  alphanumerics and \<open>*-._\<close> as they are, every other byte as \<open>%XX\<close>.\<close>

definition url_unreserved :: "char \<Rightarrow> bool" where
  "url_unreserved c \<longleftrightarrow>
     (let n = (of_char c :: nat) in
      (48 \<le> n \<and> n \<le> 57) \<or> (65 \<le> n \<and> n \<le> 90) \<or> (97 \<le> n \<and> n \<le> 122) \<or> c \<in> set ''*-._'')"

definition hex_up :: "nat \<Rightarrow> char" where
  "hex_up k = (if k < 10 then char_of (48 + k) else char_of (55 + k))"

definition url_byte :: "char \<Rightarrow> string" where
  "url_byte c =
     (if c = CHR '' '' then ''+''
      else if url_unreserved c then [c]
      else [CHR ''%'', hex_up (of_char c div 16), hex_up (of_char c mod 16)])"

definition form_encode :: "string \<Rightarrow> string" where
  "form_encode s = concat (map url_byte s)"

definition form_serialize :: "(string \<times> string) list \<Rightarrow> string" where
  "form_serialize ps = js_join ''&'' (map (\<lambda>(n, v). form_encode n @ ''='' @ form_encode v) ps)"

text \<open>The parser the server applies: split at \<open>&\<close>, skip empty pieces, split each at
  its first \<open>=\<close>, read \<open>+\<close> as space, and decode \<open>%XX\<close> (a \<open>%\<close> not followed by two
  hex digits stays as it is).\<close>

fun pct_decode :: "string \<Rightarrow> string" where
  "pct_decode [] = []"
| "pct_decode (c # r) =
     (if c = CHR ''%'' then
        (case r of
           a # b # r' \<Rightarrow>
             (case (hex_val a, hex_val b) of
                (Some x, Some y) \<Rightarrow> char_of (16 * x + y) # pct_decode r'
              | _ \<Rightarrow> c # pct_decode r)
         | _ \<Rightarrow> c # pct_decode r)
      else c # pct_decode r)"

definition form_field :: "string \<Rightarrow> string" where
  "form_field t = pct_decode (map (\<lambda>c. if c = CHR ''+'' then CHR '' '' else c) t)"

definition form_parse :: "string \<Rightarrow> (string \<times> string) list" where
  "form_parse s =
     map (\<lambda>t. (form_field (takeWhile (\<lambda>c. c \<noteq> CHR ''='') t),
               form_field (drop 1 (dropWhile (\<lambda>c. c \<noteq> CHR ''='') t))))
         (filter (\<lambda>t. t \<noteq> []) (js_split CHR ''&'' s))"

definition bearer :: "string \<Rightarrow> (string \<times> string) list" where
  "bearer token = [(''Authorization'', ''Bearer '' @ token)]"

definition signup :: "jsval \<Rightarrow> http_req" where
  "signup data = Post ''/auth/signup'' [] (JsonBody data)"

definition login :: "string \<Rightarrow> string \<Rightarrow> http_req" where
  "login username password =
     Post ''/auth/token'' [(''Content-Type'', ''application/x-www-form-urlencoded'')]
       (FormBody (form_serialize [(''username'', username), (''password'', password)]))"

definition predictCareer :: "jsval \<Rightarrow> string \<Rightarrow> http_req" where
  "predictCareer data token = Post ''/predict-career-content-based'' (bearer token) (JsonBody data)"

text \<open>\<open>getResults\<close> is exported but called by no component.\<close>

definition getResults :: "string \<Rightarrow> string \<Rightarrow> http_req" where
  "getResults userId token = Get (''/results/'' @ userId) (bearer token)"

definition sendFeedback :: "jsval \<Rightarrow> string \<Rightarrow> http_req" where
  "sendFeedback data token = Post ''/feedback'' (bearer token) (JsonBody data)"

subsection \<open>The captcha\<close>

text \<open>\<open>getRandomInt(min, max)\<close> with the draw \<open>r\<close> of \<open>Math.random()\<close>.\<close>

definition getRandomInt :: "int \<Rightarrow> int \<Rightarrow> rat \<Rightarrow> int" where
  "getRandomInt lo hi r = \<lfloor>r * of_int (hi - lo + 1)\<rfloor> + lo"

record captcha =
  ca :: int
  cb :: int
  answer :: int

definition new_captcha :: "(nat \<Rightarrow> rat) \<Rightarrow> nat \<Rightarrow> captcha" where
  "new_captcha rs k =
     (let a = getRandomInt 1 10 (rs k); b = getRandomInt 1 10 (rs (k + 1))
      in \<lparr>ca = a, cb = b, answer = a + b\<rparr>)"

subsection \<open>The page state\<close>

text \<open>What the \<open>handleSubmit\<close> closure read from the render it belongs to.\<close>

record snap =
  c_isLogin :: bool
  c_username :: string
  c_password :: string
  c_fullName :: string
  c_email :: string
  c_age :: string
  c_phone :: string

record auth =
  username :: string
  password :: string
  isLogin :: bool
  auth_error :: string
  a_loading :: bool
  fullName :: string
  email :: string
  age :: string
  phone :: string
  captcha :: captcha
  captchaInput :: string
  rnd :: "nat \<Rightarrow> rat"
  draws :: nat
  auth_store :: store
  sent :: "http_req list"
  inflight :: "snap option"
  token_out :: "jsval list"
  a_uncaught :: bool

definition auth_init :: "(nat \<Rightarrow> rat) \<Rightarrow> store \<Rightarrow> auth" where
  "auth_init rs st =
     \<lparr>username = [], password = [], isLogin = True, auth_error = [], a_loading = False,
      fullName = [], email = [], age = [], phone = [], captcha = new_captcha rs 0,
      captchaInput = [], rnd = rs, draws = 2, auth_store = st, sent = [], inflight = None,
      token_out = [], a_uncaught = False\<rparr>"

definition saveProfile :: "store \<Rightarrow> jsval \<Rightarrow> store" where
  "saveProfile st profile = save_json st ''profile'' profile"

definition regenerateCaptcha :: "auth \<Rightarrow> auth" where
  "regenerateCaptcha s =
     s\<lparr>captcha := new_captcha (rnd s) (draws s), draws := draws s + 2, captchaInput := []\<rparr>"

definition snapshot :: "auth \<Rightarrow> snap" where
  "snapshot s =
     \<lparr>c_isLogin = isLogin s, c_username = username s, c_password = password s,
      c_fullName = fullName s, c_email = email s, c_age = age s, c_phone = phone s\<rparr>"

definition auth_request :: "snap \<Rightarrow> http_req" where
  "auth_request c =
     (if c_isLogin c then login (c_username c) (c_password c)
      else signup (JObj [(''username'', JStr (c_username c)), (''password'', JStr (c_password c))]))"

text \<open>\<open>handleSubmit\<close> up to its \<open>await\<close>.\<close>

definition handleSubmit_auth :: "auth \<Rightarrow> auth" where
  "handleSubmit_auth s =
     (let s0 = s\<lparr>auth_error := []\<rparr> in
      if isLogin s \<and> js_parseInt (captchaInput s) \<noteq> Some (answer (captcha s)) then
        regenerateCaptcha (s0\<lparr>auth_error := ''Captcha incorrect. Please try again.''\<rparr>)
      else s0\<lparr>a_loading := True, sent := sent s @ [auth_request (snapshot s)],
               inflight := Some (snapshot s)\<rparr>)"

text \<open>The \<open>finally\<close> block, which reads the captured \<open>isLogin\<close>.\<close>

definition auth_finally :: "snap \<Rightarrow> auth \<Rightarrow> auth" where
  "auth_finally c s =
     (let s1 = s\<lparr>a_loading := False, inflight := None\<rparr> in
      if c_isLogin c then regenerateCaptcha s1 else s1)"

text \<open>The \<open>catch\<close> block is the one of the survey form (\<open>catch_msg\<close>); an exception
  it raises leaves the handler after the \<open>finally\<close> block.\<close>

definition auth_catch :: "snap \<Rightarrow> auth \<Rightarrow> jsval \<Rightarrow> auth" where
  "auth_catch c s err =
     (case catch_msg err of
        Inr m \<Rightarrow> auth_finally c (s\<lparr>auth_error := m\<rparr>)
      | Inl _ \<Rightarrow> auth_finally c (s\<lparr>a_uncaught := True\<rparr>))"

definition profile_obj :: "snap \<Rightarrow> jsval" where
  "profile_obj c =
     JObj [(''username'', JStr (c_username c)), (''fullName'', JStr (c_fullName c)),
           (''email'', JStr (c_email c)), (''age'', JStr (c_age c)), (''phone'', JStr (c_phone c))]"

text \<open>The rest of \<open>handleSubmit\<close> once the request resolves with \<open>res\<close>.\<close>

definition auth_resolve :: "snap \<Rightarrow> auth \<Rightarrow> jsval \<Rightarrow> auth" where
  "auth_resolve c s res =
     (if c_isLogin c then
        (case js_then (get_prop res ''data'') (\<lambda>d. get_prop d ''access_token'') of
           Inr t \<Rightarrow> auth_finally c (s\<lparr>token_out := token_out s @ [t]\<rparr>)
         | Inl e \<Rightarrow> auth_catch c s (js_error_obj e))
      else auth_finally c (s\<lparr>auth_store := saveProfile (auth_store s) (profile_obj c), isLogin := True\<rparr>))"

subsection \<open>Events of the page\<close>

datatype afield = FUsername | FPassword | FFullName | FEmail | FAge | FPhone | FCaptcha

datatype auth_event =
    AType afield string
  | AToggle
  | ARefresh
  | ASubmit
  | AResolve jsval
  | AReject jsval

text \<open>The inputs the current mode renders: the profile fields only for signup, the
  captcha only for login.\<close>

fun field_shown :: "bool \<Rightarrow> afield \<Rightarrow> bool" where
  "field_shown lg FCaptcha = lg"
| "field_shown lg FUsername = True"
| "field_shown lg FPassword = True"
| "field_shown lg f = (\<not> lg)"

fun set_field :: "afield \<Rightarrow> string \<Rightarrow> auth \<Rightarrow> auth" where
  "set_field FUsername v s = s\<lparr>username := v\<rparr>"
| "set_field FPassword v s = s\<lparr>password := v\<rparr>"
| "set_field FFullName v s = s\<lparr>fullName := v\<rparr>"
| "set_field FEmail v s = s\<lparr>email := v\<rparr>"
| "set_field FAge v s = s\<lparr>age := v\<rparr>"
| "set_field FPhone v s = s\<lparr>phone := v\<rparr>"
| "set_field FCaptcha v s = s\<lparr>captchaInput := v\<rparr>"

text \<open>The submit button is disabled while loading, and the browser refuses to submit
  a form whose \<open>required\<close> captcha input is empty.\<close>

fun auth_step :: "auth \<Rightarrow> auth_event \<Rightarrow> auth option" where
  "auth_step s (AType f v) = (if field_shown (isLogin s) f then Some (set_field f v s) else None)"
| "auth_step s AToggle = Some (s\<lparr>isLogin := \<not> isLogin s\<rparr>)"
| "auth_step s ARefresh = (if isLogin s then Some (regenerateCaptcha s) else None)"
| "auth_step s ASubmit =
     (if a_loading s \<or> (isLogin s \<and> captchaInput s = []) then None else Some (handleSubmit_auth s))"
| "auth_step s (AResolve res) = map_option (\<lambda>c. auth_resolve c s res) (inflight s)"
| "auth_step s (AReject err) = map_option (\<lambda>c. auth_catch c s err) (inflight s)"

inductive auth_reach :: "auth \<Rightarrow> bool" where
  init: "(\<And>i. 0 \<le> rs i \<and> rs i < 1) \<Longrightarrow> auth_reach (auth_init rs st)"
| step: "auth_reach s \<Longrightarrow> auth_step s e = Some s' \<Longrightarrow> auth_reach s'"

definition captcha_ok :: "captcha \<Rightarrow> bool" where
  "captcha_ok c \<longleftrightarrow> 1 \<le> ca c \<and> ca c \<le> 10 \<and> 1 \<le> cb c \<and> cb c \<le> 10 \<and> answer c = ca c + cb c"

text \<open>The page invariant: the captcha shown is a sum of two numbers of \<open>1..10\<close> with
  its answer, the loading flag is set exactly while a request is outstanding, and the
  outstanding closure belongs to the last request sent.\<close>

definition auth_inv :: "auth \<Rightarrow> bool" where
  "auth_inv s \<longleftrightarrow>
     captcha_ok (captcha s) \<and> a_loading s = (inflight s \<noteq> None) \<and>
     (case inflight s of None \<Rightarrow> True | Some c \<Rightarrow> sent s \<noteq> [] \<and> last (sent s) = auth_request c)"

subsection \<open>The page as rendered\<close>

text \<open>The texts both sign-in pages share: the mode line, the labels of the inputs in
  order, the submit button and the mode switch.\<close>

definition mode_line :: "bool \<Rightarrow> string" where
  "mode_line lg = (if lg then ''Sign in to your account'' else ''Create a new account'')"

definition field_labels :: "bool \<Rightarrow> string list" where
  "field_labels lg = (if lg then [] else [''Full Name'', ''Email'', ''Age'', ''Phone'']) @ [''Username'', ''Password'']"

definition submit_label :: "bool \<Rightarrow> bool \<Rightarrow> string" where
  "submit_label loading lg =
     (if loading then (if lg then ''Logging in...'' else ''Signing up...'') else (if lg then ''Login'' else ''Sign Up''))"

definition toggle_label :: "bool \<Rightarrow> string" where
  "toggle_label lg = (if lg then ''Need an account? Sign up'' else ''Have an account? Login'')"

record auth_view =
  av_title :: string
  av_mode :: string
  av_labels :: "string list"
  av_captcha :: "string option"
  av_error :: "string option"
  av_submit :: string
  av_disabled :: bool
  av_toggle :: string

text \<open>\<open>Auth.jsx\<close>: the title and tagline, the captcha question in login mode, and the
  error line when the error is not empty.\<close>

definition auth_render :: "auth \<Rightarrow> auth_view" where
  "auth_render s =
     \<lparr>av_title = ''CareerSync'' @ ''Align Your Ambitions. Discover Your Path.'',
      av_mode = mode_line (isLogin s), av_labels = field_labels (isLogin s),
      av_captcha = (if isLogin s then Some (''Captcha: What is '' @ show_int (ca (captcha s)) @ '' + '' @
                                            show_int (cb (captcha s)) @ ''?'') else None),
      av_error = (if auth_error s \<noteq> [] then Some (auth_error s) else None),
      av_submit = submit_label (a_loading s) (isLogin s), av_disabled = a_loading s,
      av_toggle = toggle_label (isLogin s)\<rparr>"

subsection \<open>Example\<close>

definition auth_demo :: auth where
  "auth_demo = (auth_init (\<lambda>_. 1/2) Map.empty)\<lparr>username := ''ann'', password := ''p&q=1 2''\<rparr>"

subsection \<open>Form encoding\<close>

lemma hex_up_val: "k < 16 \<Longrightarrow> hex_val (hex_up k) = Some k"
  by (auto simp: hex_val_def hex_up_def Let_def)

lemma hex_up_code:
  assumes "k < 16" shows "hex_up k \<notin> {CHR ''+'', CHR ''%'', CHR ''&'', CHR ''=''}"
proof
  assume "hex_up k \<in> {CHR ''+'', CHR ''%'', CHR ''&'', CHR ''=''}"
  then have "(of_char (hex_up k) :: nat) \<in> {43, 37, 38, 61}" by auto
  with assms show False by (simp add: hex_up_def split: if_splits)
qed

lemma url_byte_sep: "CHR ''&'' \<notin> set (url_byte c)" "CHR ''='' \<notin> set (url_byte c)"
  using hex_up_code [of "of_char c div 16"] hex_up_code [of "of_char c mod 16"]
  by (auto simp: url_byte_def url_unreserved_def Let_def less_mult_imp_div_less)

lemma form_encode_sep [simp]: "CHR ''&'' \<notin> set (form_encode s)" "CHR ''='' \<notin> set (form_encode s)"
  by (auto simp: form_encode_def url_byte_sep)

lemma pct_decode_byte:
  "pct_decode (map (\<lambda>c. if c = CHR ''+'' then CHR '' '' else c) (url_byte c) @ r) = c # pct_decode r"
proof -
  have hi: "of_char c div 16 < (16::nat)"
    using nat_of_char_less_256 [of c] by (intro less_mult_imp_div_less) simp
  have lo: "of_char c mod 16 < (16::nat)" by simp
  have "16 * (of_char c div 16) + of_char c mod 16 = (of_char c :: nat)" by simp
  then show ?thesis
    using hex_up_code [OF hi] hex_up_code [OF lo] hex_up_val [OF hi] hex_up_val [OF lo]
    by (auto simp: url_byte_def url_unreserved_def Let_def)
qed

lemma form_field_encode: "form_field (form_encode s) = s"
proof -
  have "pct_decode (map (\<lambda>c. if c = CHR ''+'' then CHR '' '' else c) (form_encode s) @ r) = s @ pct_decode r" for r
    by (induction s arbitrary: r) (simp_all add: form_encode_def pct_decode_byte [simplified append_assoc [symmetric]])
  from this [of "[]"] show ?thesis by (simp add: form_field_def)
qed

lemma form_parse_serialize: "form_parse (form_serialize ps) = ps"
proof -
  let ?f = "\<lambda>(n, v). form_encode n @ ''='' @ form_encode v"
  have pieces: "\<forall>x \<in> set (map ?f ps). CHR ''&'' \<notin> set x" by auto
  have ne: "\<forall>x \<in> set (map ?f ps). x \<noteq> []" by auto
  have split: "filter (\<lambda>t. t \<noteq> []) (js_split CHR ''&'' (js_join ''&'' (map ?f ps))) = map ?f ps"
  proof (cases "ps = []")
    case False
    then show ?thesis using js_split_join [OF pieces] ne by (simp add: filter_id_conv)
  qed simp
  have field: "(form_field (takeWhile (\<lambda>c. c \<noteq> CHR ''='') (?f p)),
                form_field (drop 1 (dropWhile (\<lambda>c. c \<noteq> CHR ''='') (?f p)))) = p" for p
  proof (cases p)
    case (Pair a b)
    have "\<And>x. x \<in> set (form_encode a) \<Longrightarrow> x \<noteq> CHR ''=''" using form_encode_sep(2) by blast
    then show ?thesis by (simp add: Pair takeWhile_append2 dropWhile_append2 form_field_encode)
  qed
  show ?thesis unfolding form_parse_def form_serialize_def split map_map comp_def
    by (rule map_idI) (rule field)
qed

lemma getRandomInt_range:
  assumes "lo \<le> hi" "0 \<le> r" "r < 1"
  shows "lo \<le> getRandomInt lo hi r \<and> getRandomInt lo hi r \<le> hi"
proof -
  have "0 < hi - lo + 1" using assms(1) by simp
  then have n: "(0::rat) < of_int (hi - lo + 1)" by (simp only: of_int_0_less_iff)
  have "0 \<le> r * of_int (hi - lo + 1)" using assms(2) n by simp
  moreover have "r * of_int (hi - lo + 1) < of_int (hi - lo + 1)" using assms(3) n by simp
  ultimately have "0 \<le> \<lfloor>r * of_int (hi - lo + 1)\<rfloor>" "\<lfloor>r * of_int (hi - lo + 1)\<rfloor> < hi - lo + 1"
    by (simp_all only: zero_le_floor floor_less_iff)
  then show ?thesis by (simp add: getRandomInt_def)
qed

lemma new_captcha_ok: "(\<And>i. 0 \<le> rs i \<and> rs i < 1) \<Longrightarrow> captcha_ok (new_captcha rs k)"
  using getRandomInt_range [of 1 10 "rs k"] getRandomInt_range [of 1 10 "rs (k + 1)"]
  by (simp add: new_captcha_def captcha_ok_def Let_def)

lemma regenerateCaptcha_fields [simp]:
  "captcha (regenerateCaptcha s) = new_captcha (rnd s) (draws s)"
  "captchaInput (regenerateCaptcha s) = []"
  "rnd (regenerateCaptcha s) = rnd s" "sent (regenerateCaptcha s) = sent s"
  "a_loading (regenerateCaptcha s) = a_loading s" "inflight (regenerateCaptcha s) = inflight s"
  "auth_error (regenerateCaptcha s) = auth_error s" "token_out (regenerateCaptcha s) = token_out s"
  "a_uncaught (regenerateCaptcha s) = a_uncaught s" "auth_store (regenerateCaptcha s) = auth_store s"
  "isLogin (regenerateCaptcha s) = isLogin s"
  by (simp_all add: regenerateCaptcha_def)

lemma auth_finally_fields [simp]:
  "a_loading (auth_finally c s) = False" "inflight (auth_finally c s) = None"
  "rnd (auth_finally c s) = rnd s" "sent (auth_finally c s) = sent s"
  "auth_error (auth_finally c s) = auth_error s" "token_out (auth_finally c s) = token_out s"
  "a_uncaught (auth_finally c s) = a_uncaught s" "auth_store (auth_finally c s) = auth_store s"
  "isLogin (auth_finally c s) = isLogin s"
  "captcha (auth_finally c s) = (if c_isLogin c then new_captcha (rnd s) (draws s) else captcha s)"
  by (simp_all add: auth_finally_def Let_def)

lemma auth_catch_cases:
  "auth_catch c s err = auth_finally c
     (case catch_msg err of Inr m \<Rightarrow> s\<lparr>auth_error := m\<rparr> | Inl _ \<Rightarrow> s\<lparr>a_uncaught := True\<rparr>)"
  by (simp add: auth_catch_def split: sum.split)

lemma auth_catch_inv:
  "(\<And>i. 0 \<le> rnd s i \<and> rnd s i < 1) \<Longrightarrow> captcha_ok (captcha s) \<Longrightarrow>
   auth_inv (auth_catch c s err) \<and> rnd (auth_catch c s err) = rnd s"
  by (simp add: auth_catch_cases auth_inv_def new_captcha_ok split: sum.split)

lemma auth_resolve_inv:
  "(\<And>i. 0 \<le> rnd s i \<and> rnd s i < 1) \<Longrightarrow> captcha_ok (captcha s) \<Longrightarrow>
   auth_inv (auth_resolve c s res) \<and> rnd (auth_resolve c s res) = rnd s"
  using auth_catch_inv [of s]
  by (simp add: auth_resolve_def auth_inv_def new_captcha_ok split: sum.split)

lemma set_field_keeps [simp]:
  "captcha (set_field f v s) = captcha s" "rnd (set_field f v s) = rnd s"
  "sent (set_field f v s) = sent s" "a_loading (set_field f v s) = a_loading s"
  "inflight (set_field f v s) = inflight s"
  by (cases f; simp)+

lemma auth_step_inv:
  assumes rs: "\<And>i. 0 \<le> rnd s i \<and> rnd s i < 1" and inv: "auth_inv s"
    and st: "auth_step s e = Some s'"
  shows "auth_inv s' \<and> rnd s' = rnd s"
proof (cases e)
  case ASubmit
  with st inv rs show ?thesis
    by (auto simp: handleSubmit_auth_def auth_inv_def new_captcha_ok Let_def split: if_splits)
next
  case (AResolve res)
  with st inv rs auth_resolve_inv [of s] show ?thesis by (auto simp: auth_inv_def)
next
  case (AReject err)
  with st inv rs auth_catch_inv [of s] show ?thesis by (auto simp: auth_inv_def)
qed (use st inv rs in \<open>auto simp: auth_inv_def new_captcha_ok split: if_splits\<close>)

lemma auth_reach_inv: "auth_reach s \<Longrightarrow> (\<forall>i. 0 \<le> rnd s i \<and> rnd s i < 1) \<and> auth_inv s"
proof (induction rule: auth_reach.induct)
  case (init rs st)
  then show ?case by (simp add: auth_init_def auth_inv_def new_captcha_ok)
next
  case (step s e s')
  then show ?case using auth_step_inv [of s e s'] by simp
qed

subsection \<open>The page\<close>

lemma js_parseInt_Nil [simp]: "js_parseInt [] = None"
  by (simp add: js_parseInt_def)

text \<open>
  C8: the captcha is a sum of two numbers of \<open>1..10\<close>, the loading flag is set exactly
  while a request is outstanding and that request is the last one sent, on every state the
  page reaches.
\<close>

theorem auth_invariant: "auth_reach s \<Longrightarrow> auth_inv s"
  using auth_reach_inv by blast

text \<open>
  C5: in login mode a captcha answer that \<open>parseInt\<close> does not read as the expected
  sum blocks the submission: no request is sent, nothing is outstanding, the error is shown
  and a new challenge is drawn with its input cleared.
\<close>

theorem captcha_wrong_blocks:
  assumes "isLogin s" "\<not> a_loading s" "captchaInput s \<noteq> []"
    "js_parseInt (captchaInput s) \<noteq> Some (answer (captcha s))"
  shows "\<exists>s'. auth_step s ASubmit = Some s' \<and> sent s' = sent s \<and> inflight s' = inflight s \<and>
           a_loading s' = False \<and> auth_error s' = ''Captcha incorrect. Please try again.'' \<and>
           captcha s' = new_captcha (rnd s) (draws s) \<and> captchaInput s' = []"
  using assms by (simp add: handleSubmit_auth_def Let_def)

text \<open>
  C17: in login mode the right answer sends exactly one request, the form-encoded login
  with the typed credentials, and sets the loading flag.
\<close>

theorem captcha_right_sends:
  assumes "isLogin s" "\<not> a_loading s" "js_parseInt (captchaInput s) = Some (answer (captcha s))"
  shows "\<exists>s'. auth_step s ASubmit = Some s' \<and> sent s' = sent s @ [login (username s) (password s)] \<and>
           a_loading s' \<and> auth_error s' = []"
proof -
  have "captchaInput s \<noteq> []" using assms(3) by auto
  then show ?thesis
    using assms by (simp add: handleSubmit_auth_def auth_request_def snapshot_def Let_def)
qed

text \<open>
  C14: the login request goes to \<open>/auth/token\<close> with a form-encoded body from which the
  URL standard's parser reads back exactly the username and the password, whatever bytes
  they hold (\<open>&\<close>, \<open>=\<close>, \<open>+\<close>, \<open>%\<close> and spaces included).
\<close>

theorem login_body_roundtrip:
  "(case login u p of Post path hs (FormBody b) \<Rightarrow> path = ''/auth/token'' \<and>
       form_parse b = [(''username'', u), (''password'', p)] | _ \<Rightarrow> False)"
  by (simp add: login_def form_parse_serialize)

text \<open>
  A resolved login hands \<open>res.data.access_token\<close> to \<open>setToken\<close>, clears the
  loading flag and draws a new captcha (the \<open>finally\<close> block).
\<close>

theorem login_resolve_token:
  assumes "inflight s = Some c" "c_isLogin c"
  shows "\<exists>s'. auth_step s (AResolve (JObj [(''data'', JObj [(''access_token'', t)])])) = Some s' \<and>
           token_out s' = token_out s @ [t] \<and> \<not> a_loading s' \<and> inflight s' = None \<and>
           captcha s' = new_captcha (rnd s) (draws s)"
  using assms by (simp add: auth_resolve_def)

text \<open>
  A rejected request always clears the loading flag; the error shown is the server's
  detail as the survey form reads it, and when reading it throws the exception escapes
  the handler.
\<close>

theorem auth_reject_error:
  assumes "inflight s = Some c"
  shows "\<exists>s'. auth_step s (AReject err) = Some s' \<and> \<not> a_loading s' \<and> inflight s' = None \<and>
           (case catch_msg err of Inr m \<Rightarrow> auth_error s' = m | Inl _ \<Rightarrow> a_uncaught s')"
  using assms by (simp add: auth_catch_cases split: sum.split)

text \<open>
  While a request is outstanding on a reachable state, the submit button is disabled:
  a second, overlapping submission is impossible.
\<close>

theorem auth_no_overlap: "auth_reach s \<Longrightarrow> inflight s \<noteq> None \<Longrightarrow> auth_step s ASubmit = None"
  using auth_reach_inv [of s] by (simp add: auth_inv_def)

text \<open>
  \<open>getRandomInt(lo, hi)\<close> lies in \<open>[lo, hi]\<close> for every draw of \<open>Math.random()\<close>.
\<close>

theorem getRandomInt_bounds:
  "lo \<le> hi \<Longrightarrow> 0 \<le> r \<Longrightarrow> r < 1 \<Longrightarrow> lo \<le> getRandomInt lo hi r \<and> getRandomInt lo hi r \<le> hi"
  by (rule getRandomInt_range)

lemma auth_demo_reach: "auth_reach auth_demo"
proof -
  have r: "auth_reach (auth_init (\<lambda>_. 1/2) Map.empty)" by (rule auth_reach.init) simp
  have "auth_step (auth_init (\<lambda>_. 1/2) Map.empty) (AType FUsername ''ann'') =
          Some ((auth_init (\<lambda>_. 1/2) Map.empty)\<lparr>username := ''ann''\<rparr>)"
    by (simp add: auth_init_def)
  moreover have "auth_step ((auth_init (\<lambda>_. 1/2) Map.empty)\<lparr>username := ''ann''\<rparr>) (AType FPassword ''p&q=1 2'') =
          Some auth_demo"
    by (simp add: auth_init_def auth_demo_def)
  ultimately show ?thesis using r by (meson auth_reach.step)
qed

lemma auth_demo_facts:
  "answer (captcha auth_demo) = 12" "isLogin auth_demo" "\<not> a_loading auth_demo" "inflight auth_demo = None"
  by (simp_all add: auth_demo_def auth_init_def new_captcha_def getRandomInt_def)

lemma parse_3: "js_parseInt ''3'' = Some 3"
  by (simp add: js_parseInt_def js_ws_def is_digit_def digits_val_def)

lemma parse_12: "js_parseInt ''12'' = Some 12"
  by (simp add: js_parseInt_def js_ws_def is_digit_def digits_val_def)

lemma auth_invariant_witness: "auth_reach auth_demo \<and> auth_inv auth_demo"
  using auth_invariant [OF auth_demo_reach] auth_demo_reach by simp

lemma captcha_wrong_blocks_witness:
  "\<exists>s'. auth_step (auth_demo\<lparr>captchaInput := ''3''\<rparr>) ASubmit = Some s' \<and>
     sent s' = [] \<and> auth_error s' = ''Captcha incorrect. Please try again.''"
  using captcha_wrong_blocks [of "auth_demo\<lparr>captchaInput := ''3''\<rparr>"] auth_demo_facts parse_3
  by (simp add: auth_demo_def auth_init_def)

lemma captcha_right_sends_witness:
  "\<exists>s'. auth_step (auth_demo\<lparr>captchaInput := ''12''\<rparr>) ASubmit = Some s' \<and>
     sent s' = [login ''ann'' ''p&q=1 2''] \<and> a_loading s'"
  using captcha_right_sends [of "auth_demo\<lparr>captchaInput := ''12''\<rparr>"] auth_demo_facts parse_12
  by (simp add: auth_demo_def auth_init_def)

lemma login_resolve_token_witness:
  "\<exists>s'. auth_step (auth_demo\<lparr>inflight := Some (snapshot auth_demo), a_loading := True\<rparr>)
          (AResolve (JObj [(''data'', JObj [(''access_token'', JStr ''tok'')])])) = Some s' \<and>
     token_out s' = [JStr ''tok''] \<and> \<not> a_loading s'"
  using login_resolve_token [of "auth_demo\<lparr>inflight := Some (snapshot auth_demo), a_loading := True\<rparr>"
      "snapshot auth_demo" "JStr ''tok''"]
  by (simp add: auth_demo_def auth_init_def snapshot_def)

lemma auth_reject_error_witness:
  "\<exists>s'. auth_step (auth_demo\<lparr>inflight := Some (snapshot auth_demo), a_loading := True\<rparr>) (AReject err_422) = Some s' \<and>
     auth_error s' = ''skills required bad goal'' \<and> \<not> a_loading s'"
  using auth_reject_error [of "auth_demo\<lparr>inflight := Some (snapshot auth_demo), a_loading := True\<rparr>"
      "snapshot auth_demo" err_422]
  by (simp add: catch_msg_def err_detail_def err_422_def opt_prop_def js_arr_join_def join_elem_def is_nullish_def)

lemma auth_no_overlap_witness:
  "auth_step (auth_demo\<lparr>captchaInput := ''12''\<rparr>) ASubmit \<noteq> None \<and>
   auth_step (handleSubmit_auth (auth_demo\<lparr>captchaInput := ''12''\<rparr>)) ASubmit = None"
proof -
  let ?s = "auth_demo\<lparr>captchaInput := ''12''\<rparr>"
  have r: "auth_reach ?s"
    by (rule auth_reach.step [OF auth_demo_reach, of "AType FCaptcha ''12''"]) (simp add: auth_demo_facts)
  have s: "auth_step ?s ASubmit = Some (handleSubmit_auth ?s)" using auth_demo_facts by simp
  have "inflight (handleSubmit_auth ?s) \<noteq> None" using auth_demo_facts parse_12
    by (simp add: handleSubmit_auth_def Let_def)
  then show ?thesis using auth_no_overlap [OF auth_reach.step [OF r s]] s by simp
qed

lemma getRandomInt_bounds_witness: "1 \<le> getRandomInt 1 10 (99/100) \<and> getRandomInt 1 10 (99/100) \<le> 10"
  using getRandomInt_bounds [of 1 10 "99/100"] by simp

end
