(* ===== verification/Profile.thy ===== *)
theory Profile
  imports Auth History Badges
begin

text \<open>
  The profile page (\<open>src/src/Profile.jsx\<close>). Mounted with the \<open>userId\<close> of the session, it
  reads the single shared \<open>profile\<close> slot, keeps it only when its \<open>username\<close> is this
  user's, and otherwise starts from an empty record; the avatar is the data URL stored
  under \<open>avatar_<userId>\<close>. The page state is the record \<open>pstate\<close>; its handlers are
  the events of \<open>profile_step\<close>. The two-second \<open>setTimeout\<close> that clears the message
  after a save is a count of pending timeouts: they all have the same delay, so they
  fire in the order they were set (\<open>PMsgTimeout\<close>). The signup path of the sign-in page
  writes the same slot, which relates this theory to \<open>Auth\<close>.
\<close>

definition profile_default :: "jsval \<Rightarrow> jsval" where
  "profile_default u =
     JObj [(''username'', u), (''fullName'', JStr []), (''email'', JStr []), (''age'', JStr []),
           (''phone'', JStr [])]"

text \<open>\<open>typeof v === 'object'\<close>.\<close>

definition typeof_object :: "jsval \<Rightarrow> bool" where
  "typeof_object v \<longleftrightarrow> (case v of JNull \<Rightarrow> True | JArr _ \<Rightarrow> True | JObj _ \<Rightarrow> True | _ \<Rightarrow> False)"

text \<open>\<open>JSON.parse(localStorage.getItem('profile'))\<close>: a missing slot is \<open>null\<close>, which
  parses as \<open>null\<close>; a parse error is caught and keeps the default.\<close>

definition profile_load :: "jsval \<Rightarrow> store \<Rightarrow> jsval" where
  "profile_load u st =
     (case json_parse (case getItem st ''profile'' of None \<Rightarrow> ''null'' | Some t \<Rightarrow> t) of
        Inr v \<Rightarrow> if js_truthy v \<and> typeof_object v \<and> js_seq (prop_of v ''username'') u then v
                else profile_default u
      | Inl _ \<Rightarrow> profile_default u)"

record pstate =
  p_user :: jsval
  profile :: jsval
  avatar :: string
  edit :: bool
  msg :: string
  p_store :: store
  msg_timers :: nat

text \<open>The component: the not-logged-in view for a falsy \<open>userId\<close>, else its state.\<close>

definition profile_mount :: "jsval \<Rightarrow> store \<Rightarrow> pstate option" where
  "profile_mount u st =
     (if \<not> js_truthy u then None
      else Some \<lparr>p_user = u, profile = profile_load u st,
                 avatar = item_or st (''avatar_'' @ js_to_string u) [], edit = False, msg = [],
                 p_store = st, msg_timers = 0\<rparr>)"

text \<open>\<open>{...o, [k]: v}\<close>: an existing key keeps its place, a new one comes last. The
  profile is always an object (lemma \<open>profile_load_obj\<close>); spreading \<open>null\<close>,
  \<open>undefined\<close>, a boolean or a number gives \<open>{}\<close>.\<close>

definition obj_set :: "jsval \<Rightarrow> string \<Rightarrow> jsval \<Rightarrow> jsval" where
  "obj_set ob k v =
     (case ob of
        JObj ps \<Rightarrow> JObj (if k \<in> set (map fst ps) then map (\<lambda>(k', w). (k', if k' = k then v else w)) ps
                         else ps @ [(k, v)])
      | _ \<Rightarrow> JObj [(k, v)])"

datatype pfield = PFullName | PEmail | PAge | PPhone

fun pfield_name :: "pfield \<Rightarrow> string" where
  "pfield_name PFullName = ''fullName''"
| "pfield_name PEmail = ''email''"
| "pfield_name PAge = ''age''"
| "pfield_name PPhone = ''phone''"

definition handleChange_profile :: "pfield \<Rightarrow> string \<Rightarrow> pstate \<Rightarrow> pstate" where
  "handleChange_profile f v s = s\<lparr>profile := obj_set (profile s) (pfield_name f) (JStr v)\<rparr>"

definition handleSave :: "pstate \<Rightarrow> pstate" where
  "handleSave s =
     s\<lparr>p_store := save_json (p_store s) ''profile'' (profile s), edit := False,
       msg := ''Profile updated!'', msg_timers := msg_timers s + 1\<rparr>"

text \<open>\<open>handleAvatarChange\<close> with the file picked, if any; the reader's \<open>onload\<close>
  receives its data URL.\<close>

definition handleAvatarChange :: "string option \<Rightarrow> pstate \<Rightarrow> pstate" where
  "handleAvatarChange file s =
     (case file of
        None \<Rightarrow> s
      | Some d \<Rightarrow> s\<lparr>avatar := d, p_store := setItem (p_store s) (''avatar_'' @ js_to_string (p_user s)) d\<rparr>)"

datatype pevent = PEdit | PCancel | PChange pfield string | PSave | PAvatar "string option" | PMsgTimeout

text \<open>The buttons and inputs each mode renders: Edit outside edit mode, the inputs, Save
  and Cancel inside it.\<close>

fun profile_step :: "pstate \<Rightarrow> pevent \<Rightarrow> pstate option" where
  "profile_step s PEdit = (if edit s then None else Some (s\<lparr>edit := True\<rparr>))"
| "profile_step s PCancel = (if edit s then Some (s\<lparr>edit := False\<rparr>) else None)"
| "profile_step s (PChange f v) = (if edit s then Some (handleChange_profile f v s) else None)"
| "profile_step s PSave = (if edit s then Some (handleSave s) else None)"
| "profile_step s (PAvatar file) = Some (handleAvatarChange file s)"
| "profile_step s PMsgTimeout =
     (if msg_timers s = 0 then None else Some (s\<lparr>msg := [], msg_timers := msg_timers s - 1\<rparr>))"

inductive profile_reach :: "pstate \<Rightarrow> bool" where
  init: "profile_mount u st = Some s \<Longrightarrow> profile_reach s"
| step: "profile_reach s \<Longrightarrow> profile_step s e = Some s' \<Longrightarrow> profile_reach s'"

subsection \<open>Rendering\<close>

text \<open>\<open>s.toUpperCase()\<close> on ASCII letters; any other value has no such method.\<close>

definition js_upper :: "jsval \<Rightarrow> string js" where
  "js_upper v =
     (case v of
        JStr s \<Rightarrow> Inr (map (\<lambda>c. let n = (of_char c :: nat) in if 97 \<le> n \<and> n \<le> 122 then char_of (n - 32) else c) s)
      | _ \<Rightarrow> Inl TypeError)"

text \<open>The avatar circle: the image, or the initial \<open>userId[0].toUpperCase()\<close>.\<close>

definition avatar_view :: "pstate \<Rightarrow> string js" where
  "avatar_view s =
     (if avatar s \<noteq> [] then Inr (avatar s)
      else if js_truthy (p_user s) then js_upper (opt_index0 (p_user s)) else Inr ''U'')"

text \<open>A field: an input showing its value in edit mode, else the value or \<open>-\<close>.\<close>

definition field_view :: "pstate \<Rightarrow> pfield \<Rightarrow> string js" where
  "field_view s f =
     (let v = prop_of (profile s) (pfield_name f) in
      if edit s then Inr (if is_nullish v then [] else js_to_string v)
      else jsx_text (js_or v (JStr ''-'')))"

definition profile_render :: "pstate \<Rightarrow> string list js" where
  "profile_render s =
     js_then (avatar_view s) (\<lambda>a.
     js_then (jsx_text (js_or (p_user s) (JStr ''User''))) (\<lambda>n.
     js_then (field_view s PFullName) (\<lambda>f1. js_then (field_view s PEmail) (\<lambda>f2.
     js_then (field_view s PAge) (\<lambda>f3. js_then (field_view s PPhone) (\<lambda>f4.
       Inr ([a, n, f1, f2, f3, f4] @ (if msg s \<noteq> [] then [msg s] else []))))))))"

text \<open>The page invariant: a logged-in user, and a profile object whose \<open>username\<close>
  is that user.\<close>

definition profile_inv :: "pstate \<Rightarrow> bool" where
  "profile_inv s \<longleftrightarrow>
     js_truthy (p_user s) \<and> (case profile s of JObj _ \<Rightarrow> True | _ \<Rightarrow> False) \<and>
     prop_of (profile s) ''username'' = p_user s"

subsection \<open>Example\<close>

definition p_ann :: pstate where
  "p_ann = the (profile_mount (JStr ''ann'') Map.empty)"

subsection \<open>Objects, the loader and the invariant\<close>

lemma map_of_upd_vals:
  "map_of (map (\<lambda>(k', w). (k', if k' = k then v else w)) xs) x =
     (if x = k then map_option (\<lambda>_. v) (map_of xs x) else map_of xs x)"
  by (induction xs) auto

lemma map_of_rev_key: "k \<in> set (map fst ps) \<Longrightarrow> map_of (rev ps) k \<noteq> None"
  by (simp add: map_of_eq_None_iff)

lemma prop_of_obj_set_same [simp]: "prop_of (obj_set ob k v) k = v"
  by (cases ob) (auto simp: obj_set_def prop_of_def rev_map map_of_upd_vals map_of_eq_None_iff
                     split: option.split)

lemma prop_of_obj_set_other:
  "k' \<noteq> k \<Longrightarrow> prop_of (obj_set (JObj ps) k v) k' = prop_of (JObj ps) k'"
  by (simp add: obj_set_def prop_of_def rev_map map_of_upd_vals)

lemma obj_set_obj: "\<exists>ps. obj_set ob k v = JObj ps"
  by (cases ob) (simp_all add: obj_set_def)

lemma pfield_name_user [simp]: "pfield_name f \<noteq> ''username''" "''username'' \<noteq> pfield_name f"
  by (cases f; simp)+

lemma profile_load_obj:
  "js_truthy u \<Longrightarrow> \<exists>ps. profile_load u st = JObj ps \<and> prop_of (JObj ps) ''username'' = u"
  by (auto simp: profile_load_def typeof_object_def prop_of_def js_seq_def profile_default_def
           split: sum.split jsval.splits)

lemma handleChange_inv: "profile_inv s \<Longrightarrow> profile_inv (handleChange_profile f v s)"
proof -
  assume inv: "profile_inv s"
  then obtain ps where ps: "profile s = JObj ps" by (auto simp: profile_inv_def split: jsval.splits)
  obtain ps' where ps': "obj_set (JObj ps) (pfield_name f) (JStr v) = JObj ps'" using obj_set_obj by blast
  have "prop_of (JObj ps') ''username'' = prop_of (JObj ps) ''username''"
    using prop_of_obj_set_other [of "''username''" "pfield_name f" ps "JStr v"] ps' by simp
  then show ?thesis using inv ps ps' by (simp add: profile_inv_def handleChange_profile_def)
qed

lemma profile_step_inv: "profile_inv s \<Longrightarrow> profile_step s e = Some s' \<Longrightarrow> profile_inv s'"
proof (cases e)
  case (PChange f v)
  then show "profile_inv s \<Longrightarrow> profile_step s e = Some s' \<Longrightarrow> profile_inv s'"
    using handleChange_inv [of s f v] by (simp split: if_splits)
qed (auto simp: profile_inv_def handleSave_def handleAvatarChange_def split: if_splits option.splits)

lemma profile_mount_inv: "profile_mount u st = Some s \<Longrightarrow> profile_inv s"
  using profile_load_obj [of u st]
  by (auto simp: profile_mount_def profile_inv_def split: if_splits)

lemma profile_obj_ok: "json_ok (profile_obj c)"
  by (simp add: profile_obj_def)

lemma load_profile_saved:
  "json_ok v \<Longrightarrow> js_truthy v \<Longrightarrow> typeof_object v \<Longrightarrow> js_seq (prop_of v ''username'') u \<Longrightarrow>
   profile_load u (save_json st ''profile'' v) = v"
  using json_str_nonempty [of v]
  by (simp add: profile_load_def save_json_def js_stringify_def json_ok_defined json_roundtrip)

text \<open>
  C15: on every state of the page the user is logged in and the profile is an object
  whose \<open>username\<close> is that user; editing never changes it.
\<close>

theorem profile_invariant: "profile_reach s \<Longrightarrow> profile_inv s"
  by (induction rule: profile_reach.induct) (auto intro: profile_mount_inv profile_step_inv)

text \<open>
  C9: a signup that succeeds writes the profile typed on the sign-in page, and the
  profile page of that user, mounted afterwards, shows exactly that record.
\<close>

theorem signup_profile_roundtrip:
  assumes "inflight s = Some c" "\<not> c_isLogin c" "c_username c \<noteq> []"
  shows "\<exists>s' p. auth_step s (AResolve res) = Some s' \<and> isLogin s' \<and>
           profile_mount (JStr (c_username c)) (auth_store s') = Some p \<and> profile p = profile_obj c"
proof -
  have "profile_load (JStr (c_username c)) (saveProfile (auth_store s) (profile_obj c)) = profile_obj c"
    unfolding saveProfile_def
    by (rule load_profile_saved) (simp_all add: profile_obj_def typeof_object_def prop_of_def js_seq_def)
  then show ?thesis
    using assms by (simp add: auth_resolve_def auth_finally_def Let_def profile_mount_def)
qed

text \<open>
  Saving the profile and mounting the page again for the same user gives back the
  record that was saved, for every profile that \<open>JSON.stringify\<close> prints exactly.
\<close>

theorem save_remount_roundtrip:
  assumes "profile_inv s" "p_user s = JStr name" "json_ok (profile s)"
  shows "\<exists>p. profile_mount (p_user s) (p_store (handleSave s)) = Some p \<and> profile p = profile s"
proof -
  obtain ps where ps: "profile s = JObj ps" using assms(1) by (auto simp: profile_inv_def split: jsval.splits)
  have "profile_load (p_user s) (save_json (p_store s) ''profile'' (profile s)) = profile s"
    using assms ps by (intro load_profile_saved) (simp_all add: profile_inv_def typeof_object_def js_seq_def)
  then show ?thesis using assms by (simp add: profile_mount_def handleSave_def profile_inv_def)
qed

text \<open>
  C30: Cancel leaves edit mode but keeps the unsaved edits in the page state: the field
  shows the typed value while the store still holds the old profile.
\<close>

theorem cancel_keeps_edits:
  "edit s \<Longrightarrow> \<exists>s1 s2. profile_step s (PChange f v) = Some s1 \<and> profile_step s1 PCancel = Some s2 \<and>
     \<not> edit s2 \<and> prop_of (profile s2) (pfield_name f) = JStr v \<and> p_store s2 = p_store s"
  by (simp add: handleChange_profile_def)

text \<open>
  C29: with no avatar, a numeric \<open>userId\<close> (a token whose \<open>sub\<close> claim is a number)
  makes the page throw: \<open>userId[0]\<close> is \<open>undefined\<close> and has no \<open>toUpperCase\<close>.
\<close>

theorem profile_render_numeric_user:
  "avatar s = [] \<Longrightarrow> p_user s = JNum m e \<Longrightarrow> m \<noteq> 0 \<Longrightarrow> profile_render s = Inl TypeError"
  by (simp add: profile_render_def avatar_view_def opt_index0_def js_upper_def)

text \<open>
  An uploaded avatar is stored under the user's key, so the badge panel awards
  \<open>profile_pic\<close> whenever the stored history and favorites are arrays of records.
\<close>

theorem avatar_earns_badge:
  assumes "p_user s = JStr u" "d \<noteq> []"
    and H: "load_json (p_store s) ''surveyHistory'' ''[]'' = Inr (JArr hs)" "\<forall>h\<in>set hs. \<not> is_nullish h"
    and F: "load_json (p_store s) ''favorites'' ''[]'' = Inr (JArr fs)" "\<forall>f\<in>set fs. \<not> is_nullish f"
  shows "''profile_pic'' \<in> set (badge_keys (p_store (handleAvatarChange (Some d) s)) u)"
proof -
  let ?st = "p_store (handleAvatarChange (Some d) s)"
  have st: "?st = setItem (p_store s) (''avatar_'' @ u) d" using assms(1) by (simp add: handleAvatarChange_def)
  have l: "load_json ?st k dflt = load_json (p_store s) k dflt" if "k \<noteq> ''avatar_'' @ u" for k dflt
    using that by (simp add: st load_json_def item_or_def)
  have H': "load_json ?st ''surveyHistory'' ''[]'' = Inr (JArr hs)" using H(1) l [of "''surveyHistory''"] by simp
  have F': "load_json ?st ''favorites'' ''[]'' = Inr (JArr fs)" using F(1) l [of "''favorites''"] by simp
  have "''profile_pic'' \<in> set (fav_keys ?st u (JArr fs))"
    using F(2) assms(2) by (simp add: fav_keys_def js_filter_def js_filter_list_total st)
  then show ?thesis
    using earned_keys_history [OF H' H(2) F'] by (simp add: set_badge_keys catalog_keys)
qed

lemma p_ann_mount: "profile_mount (JStr ''ann'') Map.empty = Some p_ann"
  by (simp add: p_ann_def profile_mount_def)

lemma json_parse_null [simp]: "json_parse ''null'' = Inr JNull"
  using json_roundtrip [of JNull] by simp

lemma p_ann_fields:
  "p_user p_ann = JStr ''ann''" "profile p_ann = profile_default (JStr ''ann'')" "avatar p_ann = []"
  "p_store p_ann = Map.empty" "\<not> edit p_ann"
  by (simp_all add: p_ann_def profile_mount_def profile_load_def item_or_def getItem_def)

lemma profile_invariant_witness: "profile_reach p_ann \<and> profile_inv p_ann"
  using profile_invariant [OF profile_reach.init [OF p_ann_mount]] profile_reach.init [OF p_ann_mount] by simp

lemma signup_profile_roundtrip_witness:
  "\<exists>s' p. auth_step (auth_demo\<lparr>isLogin := False, a_loading := True,
        inflight := Some (snapshot (auth_demo\<lparr>isLogin := False\<rparr>))\<rparr>) (AResolve JNull) = Some s' \<and>
     profile_mount (JStr ''ann'') (auth_store s') = Some p \<and>
     profile p = profile_obj (snapshot (auth_demo\<lparr>isLogin := False\<rparr>))"
  using signup_profile_roundtrip [of "auth_demo\<lparr>isLogin := False, a_loading := True,
        inflight := Some (snapshot (auth_demo\<lparr>isLogin := False\<rparr>))\<rparr>"
      "snapshot (auth_demo\<lparr>isLogin := False\<rparr>)" JNull]
  by (simp add: snapshot_def auth_demo_def auth_init_def)

lemma save_remount_roundtrip_witness:
  "\<exists>p. profile_mount (JStr ''ann'') (p_store (handleSave p_ann)) = Some p \<and>
     profile p = profile_default (JStr ''ann'')"
  using save_remount_roundtrip [of p_ann "''ann''"] profile_mount_inv [OF p_ann_mount] p_ann_fields
  by (simp add: profile_default_def)

lemma cancel_keeps_edits_witness:
  "\<exists>s1 s2. profile_step (p_ann\<lparr>edit := True\<rparr>) (PChange PEmail ''a@b.c'') = Some s1 \<and>
     profile_step s1 PCancel = Some s2 \<and> prop_of (profile s2) ''email'' = JStr ''a@b.c'' \<and>
     p_store s2 = Map.empty"
  using cancel_keeps_edits [of "p_ann\<lparr>edit := True\<rparr>" PEmail "''a@b.c''"] p_ann_fields
  by (simp add: handleChange_profile_def)

lemma profile_render_numeric_user_witness:
  "profile_render (p_ann\<lparr>p_user := JNum 42 0\<rparr>) = Inl TypeError"
  using profile_render_numeric_user [of "p_ann\<lparr>p_user := JNum 42 0\<rparr>" 42 0] p_ann_fields by simp

lemma avatar_earns_badge_witness:
  "''profile_pic'' \<in> set (badge_keys (p_store (handleAvatarChange (Some ''data:image/png;base64,AA'')
      (p_ann\<lparr>p_store := save_json (save_json Map.empty ''surveyHistory'' (JArr [])) ''favorites'' (JArr [])\<rparr>))) ''ann'')"
proof -
  let ?st = "save_json (save_json Map.empty ''surveyHistory'' (JArr [])) ''favorites'' (JArr [])"
  have h: "load_json ?st ''surveyHistory'' ''[]'' = Inr (JArr [])" by (simp add: load_json_save_json)
  have f: "load_json ?st ''favorites'' ''[]'' = Inr (JArr [])" by (simp add: load_json_save_json)
  show ?thesis
    using avatar_earns_badge [of "p_ann\<lparr>p_store := ?st\<rparr>" "''ann''" "''data:image/png;base64,AA''" "[]" "[]"]
      h f p_ann_fields by simp
qed

end
