(* ===== verification/DashboardView.thy ===== *)
theory DashboardView
  imports Favorites Profile
begin

text \<open>
  What the dashboard of \<open>src/src/Dashboard.jsx\<close> renders (lines 52--140), and the career
  detail modal of \<open>src/src/CareerDetailModal.jsx\<close> it opens. The render is a function of
  the props (\<open>result\<close>, \<open>userId\<close>) and the state (\<open>checked\<close>, \<open>copied\<close>,
  \<open>favorites\<close>, \<open>surveyCount\<close>, \<open>showDetail\<close>) to the texts shown, in the order the
  JSX evaluates them, so that the first expression that throws is the error of the
  render. Text is UTF-8 bytes: the star of the favorite button is three bytes.
\<close>

definition star :: string where
  "star = [CHR 0xE2, CHR 0x98, CHR 0x85]"

text \<open>\<open>arr.map((x, i) => ...)\<close>.\<close>

fun js_mapi :: "(nat \<Rightarrow> jsval \<Rightarrow> 'a js) \<Rightarrow> nat \<Rightarrow> jsval list \<Rightarrow> 'a list js" where
  "js_mapi f i [] = Inr []"
| "js_mapi f i (x # xs) = js_then (f i x) (\<lambda>y. js_then (js_mapi f (i + 1) xs) (\<lambda>ys. Inr (y # ys)))"

definition js_map_arr :: "(nat \<Rightarrow> jsval \<Rightarrow> 'a js) \<Rightarrow> jsval \<Rightarrow> 'a list js" where
  "js_map_arr f v = (case v of JArr xs \<Rightarrow> js_mapi f 0 xs | _ \<Rightarrow> Inl TypeError)"

subsection \<open>The career detail modal\<close>

definition detail_catalog :: "(string \<times> string \<times> string \<times> string \<times> string) list" where
  "detail_catalog =
     [(''Software Engineer'', ''Programming, Problem-solving, Teamwork'', ''$80,000 - $150,000'',
       ''High demand, strong growth'', ''Designs, develops, and maintains software applications.''),
      (''Data Scientist'', ''Statistics, Machine Learning, Python'', ''$90,000 - $160,000'',
       ''Very high demand'', ''Analyzes and interprets complex data to help organizations make decisions.'')]"

text \<open>The names every object literal inherits from \<open>Object.prototype\<close>: \<open>details[k]\<close> is a
  function or an object for them, with none of the four fields.\<close>

definition proto_keys :: "string list" where
  "proto_keys = [''constructor'', ''hasOwnProperty'', ''isPrototypeOf'', ''propertyIsEnumerable'',
     ''toLocaleString'', ''toString'', ''valueOf'', ''__proto__'', ''__defineGetter__'',
     ''__defineSetter__'', ''__lookupGetter__'', ''__lookupSetter__'']"

text \<open>\<open>details[career.career] || {skills: career.skills || '-', salary: '-', outlook: '-',
  description: career.description || '-'}\<close>: skills, salary, outlook, description.\<close>

definition modal_info :: "jsval \<Rightarrow> (jsval \<times> jsval \<times> jsval \<times> jsval) js" where
  "modal_info career =
     js_then (get_prop career ''career'') (\<lambda>k.
       case map_of detail_catalog (js_to_string k) of
         Some (sk, sa, ou, de) \<Rightarrow> Inr (JStr sk, JStr sa, JStr ou, JStr de)
       | None \<Rightarrow>
           if js_to_string k \<in> set proto_keys then Inr (JUndefined, JUndefined, JUndefined, JUndefined)
           else Inr (js_or (prop_of career ''skills'') (JStr ''-''), JStr ''-'', JStr ''-'',
                     js_or (prop_of career ''description'') (JStr ''-'')))"

text \<open>The modal: nothing without a career, else the title, description, skills, salary
  and outlook.\<close>

definition modal_render :: "jsval \<Rightarrow> string list option js" where
  "modal_render career =
     (if \<not> js_truthy career then Inr None
      else js_then (modal_info career) (\<lambda>(sk, sa, ou, de).
        js_then (get_prop career ''career'') (\<lambda>k. js_then (jsx_text k) (\<lambda>title.
        js_then (jsx_text de) (\<lambda>d. js_then (jsx_text sk) (\<lambda>s.
        js_then (jsx_text sa) (\<lambda>a. js_then (jsx_text ou) (\<lambda>ol.
          Inr (Some [title, d, s, a, ol])))))))))"

subsection \<open>The dashboard\<close>

text \<open>One career row: name, whether it carries the Top Match badge, score, and the label
  of the favorite button (\<open>isFav\<close> is computed first). The score is
  \<open>c.match_score ?? c.score\<close>: \<open>c.score\<close> only when the match score is \<open>null\<close> or
  \<open>undefined\<close>.\<close>

definition career_row :: "jsval list \<Rightarrow> string \<Rightarrow> nat \<Rightarrow> jsval \<Rightarrow> (string \<times> bool \<times> string \<times> string) js" where
  "career_row favorites userId i c =
     js_then (isFav favorites c userId) (\<lambda>fav.
     js_then (get_prop c ''career'') (\<lambda>n. js_then (jsx_text n) (\<lambda>name.
     js_then (get_prop c ''match_score'') (\<lambda>m.
     js_then (if is_nullish m then get_prop c ''score'' else Inr m) (\<lambda>sc. js_then (jsx_text sc) (\<lambda>score.
       Inr (name, i = 0, score, star @ (if fav then '' Saved'' else '' Save''))))))))"

record dash_view =
  dv_avatar :: string
  dv_welcome :: string
  dv_surveys :: string
  dv_favcount :: string
  dv_rows :: "(string \<times> bool \<times> string \<times> string) list"
  dv_modal :: "string list option"
  dv_favs :: "string list"
  dv_reasoning :: string
  dv_roadmap :: "(string \<times> bool) list"
  dv_share :: string

definition dash_render ::
  "jsval \<Rightarrow> string \<Rightarrow> bool list \<Rightarrow> bool \<Rightarrow> jsval list \<Rightarrow> nat \<Rightarrow> jsval \<Rightarrow> dash_view option js" where
  "dash_render result userId checked copied favorites surveyCount showDetail =
     (if \<not> js_truthy result then Inr None
      else
        js_then (if userId \<noteq> [] then js_upper (JStr [hd userId]) else Inr ''U'') (\<lambda>avatar.
        js_then (jsx_text (js_or (JStr userId) (JStr ''User''))) (\<lambda>welcome.
        js_then (get_prop result ''careers'') (\<lambda>cs. js_then (js_map_arr (career_row favorites userId) cs) (\<lambda>rows.
        js_then (modal_render showDetail) (\<lambda>modal.
        js_then (js_map_list (\<lambda>f. js_then (get_prop f ''career'') jsx_text) favorites) (\<lambda>favs.
        js_then (get_prop result ''reasoning'') (\<lambda>r. js_then (jsx_text r) (\<lambda>reasoning.
        js_then (get_prop result ''roadmap'') (\<lambda>rm.
        js_then (js_map_arr (\<lambda>i st. js_then (jsx_text st) (\<lambda>t. Inr (t, i < length checked \<and> checked ! i))) rm)
          (\<lambda>roadmap.
          Inr (Some \<lparr>dv_avatar = avatar, dv_welcome = welcome, dv_surveys = digits_nat surveyCount,
                     dv_favcount = digits_nat (length favorites), dv_rows = rows, dv_modal = modal,
                     dv_favs = favs, dv_reasoning = reasoning, dv_roadmap = roadmap,
                     dv_share = (if copied then ''Copied!'' else ''Share'')\<rparr>))))))))))))"

subsection \<open>Example\<close>

definition dash_demo :: jsval where
  "dash_demo = JObj [(''careers'', JArr [JObj [(''career'', JStr ''Chef''), (''match_score'', JNum 0 0), (''score'', JNum 7 0)],
                                        JObj [(''career'', JStr ''Baker''), (''score'', JNum 5 0)]]),
                     (''reasoning'', JStr ''r''), (''roadmap'', JArr [])]"

subsection \<open>Rows, labels and the modal\<close>

lemma js_mapi_Inr:
  "js_mapi f k xs = Inr ys \<Longrightarrow> length ys = length xs \<and> (\<forall>i < length xs. f (k + i) (xs ! i) = Inr (ys ! i))"
proof (induction xs arbitrary: k ys)
  case (Cons x xs)
  then obtain y ys' where y: "f k x = Inr y" and r: "js_mapi f (k + 1) xs = Inr ys'" and ys: "ys = y # ys'"
    by (cases "f k x"; cases "js_mapi f (k + 1) xs") auto
  from Cons.IH [OF r] show ?case using y ys by (auto simp: nth_Cons' less_Suc_eq_0_disj)
qed simp

lemma career_row_Inr:
  assumes "career_row favorites u i c = Inr r"
  shows "fst (snd r) = (i = 0) \<and>
         jsx_text (if is_nullish (prop_of c ''match_score'') then prop_of c ''score'' else prop_of c ''match_score'')
           = Inr (fst (snd (snd r)))"
proof -
  have c: "\<not> is_nullish c"
    using assms by (cases "isFav favorites c u"; cases c) (auto simp: career_row_def is_nullish_def)
  show ?thesis
    using assms get_prop_total [OF c, of "''match_score''"] get_prop_total [OF c, of "''score''"]
    by (auto simp: career_row_def js_then_eq_Inr split: if_splits)
qed

lemma dash_render_rows:
  "dash_render result u checked copied favorites n sd = Inr (Some v) \<Longrightarrow>
   get_prop result ''careers'' = Inr cs \<Longrightarrow> js_map_arr (career_row favorites u) cs = Inr (dv_rows v)"
  by (auto simp: dash_render_def js_then_eq_Inr split: if_splits)

text \<open>
  C16: the favorite button's label refines the favorites abstraction: for a string-named
  career and the user's entries of a readable stored list, the dashboard shows it as saved
  exactly when the career is in the user's favorite set.
\<close>

theorem isFav_refines:
  assumes "wf_favs favs" "career_ok c"
  shows "isFav (filter (owned u) favs) c u = Inr (prop_of c ''career'' \<in> fav_abs favs u)"
proof -
  have c: "\<not> is_nullish c" "prim_val (prop_of c ''career'')" using assms(2) by (simp_all add: career_ok_def)
  have "isFav (filter (owned u) favs) c u = Inr (\<exists>f\<in>set (filter (owned u) favs). fav_hit u (prop_of c ''career'') f)"
    unfolding isFav_def
  proof (rule js_some_list_pure)
    fix f assume f: "f \<in> set (filter (owned u) favs)"
    then have "\<not> is_nullish f" "owned u f" using assms(1) by (auto simp: wf_favs_def)
    then show "(js_then (get_prop f ''career'') (\<lambda>a. js_then (get_prop c ''career'') (\<lambda>b.
        if js_seq a b then js_then (get_prop f ''userId'') (\<lambda>u'. Inr (js_seq u' (JStr u))) else Inr False)))
        = Inr (fav_hit u (prop_of c ''career'') f)"
      using c by (simp add: get_prop_total js_seq_prim prim_val_def fav_hit_def owned_def)
  qed
  then show ?thesis by (auto simp: fav_abs_def fav_set_def fav_hit_def)
qed

text \<open>
  The dashboard lists one row per career of the result, only the first carries the
  Top Match badge, and each shows \<open>match_score\<close> unless it is \<open>null\<close> or
  \<open>undefined\<close>, then \<open>score\<close> (a match score of 0 is shown as 0).
\<close>

theorem dash_rows_top_score:
  assumes "dash_render result u checked copied favorites n sd = Inr (Some v)"
    and "get_prop result ''careers'' = Inr (JArr cs)"
  shows "length (dv_rows v) = length cs \<and>
         (\<forall>i < length cs. fst (snd (dv_rows v ! i)) = (i = 0) \<and>
            jsx_text (if is_nullish (prop_of (cs ! i) ''match_score'') then prop_of (cs ! i) ''score''
                      else prop_of (cs ! i) ''match_score'') = Inr (fst (snd (snd (dv_rows v ! i)))))"
proof -
  have m: "js_mapi (career_row favorites u) 0 cs = Inr (dv_rows v)"
    using dash_render_rows [OF assms] by (simp add: js_map_arr_def)
  have len: "length (dv_rows v) = length cs"
    and rows: "\<And>i. i < length cs \<Longrightarrow> career_row favorites u i (cs ! i) = Inr (dv_rows v ! i)"
    using js_mapi_Inr [OF m] by simp_all
  show ?thesis using len career_row_Inr [OF rows] by simp
qed

lemma isFav_refines_witness:
  "isFav (filter (owned ''ann'') [JObj [(''userId'', JStr ''ann''), (''career'', JStr ''Chef'')]])
      (JObj [(''career'', JStr ''Chef'')]) ''ann'' = Inr True"
proof -
  have "JStr ''Chef'' \<in> fav_abs [JObj [(''userId'', JStr ''ann''), (''career'', JStr ''Chef'')]] ''ann''"
    by (simp add: fav_abs_def fav_set_def fav_hit_def owned_def prop_of_def)
  then show ?thesis
    using isFav_refines [of "[JObj [(''userId'', JStr ''ann''), (''career'', JStr ''Chef'')]]"
        "JObj [(''career'', JStr ''Chef'')]" "''ann''"]
    by (simp add: wf_favs_def is_nullish_def career_ok_def prim_val_def prop_of_def)
qed

lemma dash_demo_render:
  "dash_render dash_demo ''ann'' [] False [] 0 JNull =
     Inr (Some \<lparr>dv_avatar = ''A'', dv_welcome = ''ann'', dv_surveys = ''0'', dv_favcount = ''0'',
       dv_rows = [(''Chef'', True, ''0'', star @ '' Save''), (''Baker'', False, ''5'', star @ '' Save'')],
       dv_modal = None, dv_favs = [], dv_reasoning = ''r'', dv_roadmap = [], dv_share = ''Share''\<rparr>)"
  by code_simp

lemma dash_rows_top_score_witness:
  "map (\<lambda>r. (fst (snd r), fst (snd (snd r))))
     [(''Chef'', True, ''0'', star @ '' Save''), (''Baker'', False, ''5'', star @ '' Save'')] = [(True, ''0''), (False, ''5'')] \<and>
   length [(''Chef'', True, ''0'', star @ '' Save''), (''Baker'', False, ''5'', star @ '' Save'')] = 2"
proof -
  have c: "get_prop dash_demo ''careers'' = Inr (JArr [JObj [(''career'', JStr ''Chef''), (''match_score'', JNum 0 0), (''score'', JNum 7 0)],
                                        JObj [(''career'', JStr ''Baker''), (''score'', JNum 5 0)]])"
    by (simp add: dash_demo_def)
  from dash_rows_top_score [OF dash_demo_render c] show ?thesis by simp
qed

end
