(* ===== verification/Help.thy ===== *)
theory Help
  imports JsValue
begin

text \<open>
  The floating help chat, \<open>src/src/FloatingHelpButton.jsx\<close>, rendered by \<open>App\<close> on
  the survey, dashboard and profile pages (\<open>App.jsx\<close> line 143). Its state is the panel flag, the message list (the greeting first), the
  input line, and the replies still to come: \<open>handleSend\<close> appends the user's message and
  sets a 600 ms timeout whose callback appends \<open>getBotReply(input)\<close> for the input it
  captured. Every timeout has the same delay, so they fire in the order they were set: the
  pending replies are a queue of captured inputs, and \<open>HReply\<close> fires the first. Closing
  the panel hides it but cancels nothing.
\<close>

datatype sender = Bot | User

record chat =
  chat_open :: bool
  messages :: "(sender \<times> string) list"
  chat_input :: string
  pending :: "string list"

definition greeting :: string where
  "greeting = ''Hi! I am your CareerPredict Assistant. How can I help you with this project?''"

definition chat_init :: chat where
  "chat_init = \<lparr>chat_open = False, messages = [(Bot, greeting)], chat_input = [], pending = []\<rparr>"

text \<open>\<open>toLowerCase\<close> on ASCII letters, and \<open>s.includes(t)\<close>.\<close>

definition js_lower :: "string \<Rightarrow> string" where
  "js_lower s = map (\<lambda>c. let n = (of_char c :: nat) in if 65 \<le> n \<and> n \<le> 90 then char_of (n + 32) else c) s"

fun js_includes :: "string \<Rightarrow> string \<Rightarrow> bool" where
  "js_includes [] t = (t = [])"
| "js_includes (c # s) t = (take (length t) (c # s) = t \<or> js_includes s t)"

definition getBotReply :: "string \<Rightarrow> string" where
  "getBotReply userMsg =
     (let msg = js_lower userMsg in
      if js_includes msg ''survey'' then ''You can fill out the career survey to get personalized career recommendations.''
      else if js_includes msg ''profile'' then ''On the Profile page, you can edit your details and upload a profile picture.''
      else if js_includes msg ''badge'' \<or> js_includes msg ''achievement'' then ''You earn badges for completing surveys, saving favorites, and uploading a profile picture!''
      else if js_includes msg ''favorite'' then ''You can save favorite careers from your dashboard for quick access later.''
      else if js_includes msg ''dark'' then ''Use the sun/moon icon in the top bar to toggle dark mode.''
      else if js_includes msg ''dashboard'' then ''The dashboard shows your career recommendations and achievements.''
      else if js_includes msg ''help'' \<or> js_includes msg ''feedback'' then ''Just type your question about the app, and I will do my best to help!''
      else if js_includes msg ''reset'' then ''To reset your progress, clear your browser localStorage.''
      else ''Sorry, I am a simple project assistant. Please ask about surveys, profile, badges, favorites, or dashboard.'')"

definition handleSend :: "chat \<Rightarrow> chat" where
  "handleSend s =
     (if js_trim (chat_input s) = [] then s
      else s\<lparr>messages := messages s @ [(User, chat_input s)], pending := pending s @ [chat_input s],
             chat_input := []\<rparr>)"

text \<open>The first pending timeout fires.\<close>

definition reply_fire :: "chat \<Rightarrow> chat option" where
  "reply_fire s =
     (case pending s of
        [] \<Rightarrow> None
      | m # ms \<Rightarrow> Some (s\<lparr>messages := messages s @ [(Bot, getBotReply m)], pending := ms\<rparr>))"

datatype chat_event = HOpen | HClose | HType string | HSend | HEnter | HReply

text \<open>The button is always there; the close button, the input and Send only in the open
  panel, where Enter in the input also sends.\<close>

fun chat_step :: "chat \<Rightarrow> chat_event \<Rightarrow> chat option" where
  "chat_step s HOpen = Some (s\<lparr>chat_open := True\<rparr>)"
| "chat_step s HClose = (if chat_open s then Some (s\<lparr>chat_open := False\<rparr>) else None)"
| "chat_step s (HType v) = (if chat_open s then Some (s\<lparr>chat_input := v\<rparr>) else None)"
| "chat_step s HSend = (if chat_open s then Some (handleSend s) else None)"
| "chat_step s HEnter = (if chat_open s then Some (handleSend s) else None)"
| "chat_step s HReply = reply_fire s"

fun chat_run :: "chat \<Rightarrow> chat_event list \<Rightarrow> chat option" where
  "chat_run s [] = Some s"
| "chat_run s (e # es) = (case chat_step s e of None \<Rightarrow> None | Some s' \<Rightarrow> chat_run s' es)"

inductive chat_reach :: "chat \<Rightarrow> bool" where
  init: "chat_reach chat_init"
| step: "chat_reach s \<Longrightarrow> chat_step s e = Some s' \<Longrightarrow> chat_reach s'"

definition said_by :: "sender \<Rightarrow> (sender \<times> string) list \<Rightarrow> string list" where
  "said_by w ms = map snd (filter (\<lambda>m. fst m = w) ms)"

text \<open>The conversation invariant: after the greeting, the bot's messages followed by the
  replies still pending are the replies to the user's messages, in order; and no user
  message is blank.\<close>

definition chat_inv :: "chat \<Rightarrow> bool" where
  "chat_inv s \<longleftrightarrow>
     messages s \<noteq> [] \<and> hd (messages s) = (Bot, greeting) \<and>
     said_by Bot (tl (messages s)) @ map getBotReply (pending s) =
       map getBotReply (said_by User (tl (messages s))) \<and>
     list_all (\<lambda>m. js_trim m \<noteq> []) (said_by User (messages s))"

subsection \<open>Example\<close>

definition chat_demo :: "chat_event list" where
  "chat_demo = [HOpen, HType ''How do I earn a BADGE?'', HSend, HType ''  '', HSend, HType ''dark mode?'', HEnter]"

subsection \<open>The conversation\<close>

lemma said_by_append [simp]: "said_by w (xs @ ys) = said_by w xs @ said_by w ys"
  by (simp add: said_by_def)

lemma said_by_single [simp]: "said_by w [(v, m)] = (if v = w then [m] else [])"
  by (simp add: said_by_def)

lemma handleSend_inv: "chat_inv s \<Longrightarrow> chat_inv (handleSend s)"
  by (auto simp: chat_inv_def handleSend_def)

lemma reply_fire_inv: "chat_inv s \<Longrightarrow> reply_fire s = Some s' \<Longrightarrow> chat_inv s'"
  by (auto simp: chat_inv_def reply_fire_def split: list.splits)

lemma chat_step_cases:
  "chat_step s e = Some s' \<Longrightarrow>
     s' = handleSend s \<or> reply_fire s = Some s' \<or> (messages s' = messages s \<and> pending s' = pending s)"
  by (cases e) (auto split: if_splits)

lemma chat_inv_same: "messages s' = messages s \<Longrightarrow> pending s' = pending s \<Longrightarrow> chat_inv s = chat_inv s'"
  by (simp add: chat_inv_def)

lemma chat_step_inv: "chat_inv s \<Longrightarrow> chat_step s e = Some s' \<Longrightarrow> chat_inv s'"
  using chat_step_cases [of s e s'] handleSend_inv [of s] reply_fire_inv [of s s'] chat_inv_same [of s' s]
  by blast

lemma chat_invariant_aux: "chat_reach s \<Longrightarrow> chat_inv s"
proof (induction rule: chat_reach.induct)
  case init
  then show ?case by (simp add: chat_inv_def chat_init_def said_by_def)
next
  case (step s e s')
  then show ?case using chat_step_inv by blast
qed

lemma replies_drain:
  "chat_inv s \<Longrightarrow> \<exists>s'. chat_run s (replicate (length (pending s)) HReply) = Some s' \<and>
     pending s' = [] \<and> chat_inv s'"
proof (induction "pending s" arbitrary: s)
  case Nil
  then show ?case by simp
next
  case (Cons m ms)
  let ?s1 = "s\<lparr>messages := messages s @ [(Bot, getBotReply m)], pending := ms\<rparr>"
  have f: "reply_fire s = Some ?s1" using Cons.hyps(2) [symmetric] by (simp add: reply_fire_def)
  have "chat_inv ?s1" using reply_fire_inv [OF Cons.prems f] .
  from Cons.hyps(1) [of ?s1] this obtain s' where
    "chat_run ?s1 (replicate (length ms) HReply) = Some s' \<and> pending s' = [] \<and> chat_inv s'" by auto
  then show ?case using f Cons.hyps(2) [symmetric] by simp
qed

text \<open>
  C22: on every state of the chat, after the greeting, the bot's messages followed by the
  pending replies are the replies to the user's messages in the order they were sent,
  each computed from the message it answers; no blank message is ever sent.
\<close>

theorem chat_invariant: "chat_reach s \<Longrightarrow> chat_inv s"
  by (rule chat_invariant_aux)

text \<open>
  The replies do come: from every reachable state, firing the pending timeouts
  empties the queue, and then every user message has its reply, in order.
\<close>

theorem chat_replies_complete:
  "chat_reach s \<Longrightarrow> \<exists>s'. chat_run s (replicate (length (pending s)) HReply) = Some s' \<and>
     pending s' = [] \<and> said_by Bot (tl (messages s')) = map getBotReply (said_by User (tl (messages s')))"
  using replies_drain [OF chat_invariant_aux] by (fastforce simp: chat_inv_def)

lemma chat_run_reach: "chat_reach s \<Longrightarrow> chat_run s es = Some s' \<Longrightarrow> chat_reach s'"
  by (induction es arbitrary: s) (auto intro: chat_reach.step split: option.splits)

lemma chat_demo_run:
  "chat_run chat_init chat_demo = Some \<lparr>chat_open = True,
     messages = [(Bot, greeting), (User, ''How do I earn a BADGE?''), (User, ''dark mode?'')],
     chat_input = [], pending = [''How do I earn a BADGE?'', ''dark mode?'']\<rparr>"
  by (simp add: chat_demo_def chat_init_def handleSend_def js_trim_def js_ws_def)

lemma chat_invariant_witness:
  "chat_inv \<lparr>chat_open = True,
     messages = [(Bot, greeting), (User, ''How do I earn a BADGE?''), (User, ''dark mode?'')],
     chat_input = [], pending = [''How do I earn a BADGE?'', ''dark mode?'']\<rparr>"
  using chat_invariant [OF chat_run_reach [OF chat_reach.init chat_demo_run]] .

lemma chat_replies_complete_witness:
  "chat_run \<lparr>chat_open = True,
     messages = [(Bot, greeting), (User, ''How do I earn a BADGE?''), (User, ''dark mode?'')],
     chat_input = [], pending = [''How do I earn a BADGE?'', ''dark mode?'']\<rparr> [HReply, HReply] \<noteq> None"
  using chat_replies_complete [OF chat_run_reach [OF chat_reach.init chat_demo_run]] by auto

end
