(* ===== verification/Forum.thy ===== *)
theory Forum
  imports Storage
begin

text \<open>
  The community forum of \<open>src/src/Forum.jsx\<close>. Its state is the list of posts, the text
  being typed and the author's name; the mount effect reads the posts from the
  \<open>forumPosts\<close> slot and the author from the shared \<open>profile\<close> slot, and \<open>handlePost\<close>
  puts the new post first and writes the whole list back. \<open>App.jsx\<close> has the import of
  the forum commented out, so the component is not mounted by the application; it is
  modelled as written. A handler that throws leaves the state as it was
  (\<open>f_uncaught\<close> records the exception); a render that throws unmounts the page, so no
  event reaches a state whose render throws.
\<close>

record forum =
  posts :: jsval
  f_text :: string
  f_user :: jsval
  f_store :: store
  f_uncaught :: bool

text \<open>\<open>localStorage.getItem('profile') ? JSON.parse(localStorage.getItem('profile')).username
  : 'Anonymous'\<close>: the empty string is falsy, and the property read throws on \<open>null\<close>.\<close>

definition forum_user :: "store \<Rightarrow> jsval js" where
  "forum_user st =
     (case getItem st ''profile'' of
        Some p \<Rightarrow> if p \<noteq> [] then js_then (json_parse p) (\<lambda>v. get_prop v ''username'')
                  else Inr (JStr ''Anonymous'')
      | None \<Rightarrow> Inr (JStr ''Anonymous''))"

text \<open>The mount effect; an exception in it unmounts the page.\<close>

definition forum_mount :: "store \<Rightarrow> forum js" where
  "forum_mount st =
     js_then (load_json st ''forumPosts'' ''[]'') (\<lambda>ps. js_then (forum_user st) (\<lambda>u.
       Inr \<lparr>posts = ps, f_text = [], f_user = u, f_store = st, f_uncaught = False\<rparr>))"

text \<open>\<open>[...v]\<close>: an array gives its elements, a string its characters (bytes here);
  any other value is not iterable.\<close>

definition js_spread :: "jsval \<Rightarrow> jsval list js" where
  "js_spread v = (case v of JArr xs \<Rightarrow> Inr xs | JStr s \<Rightarrow> Inr (map (\<lambda>c. JStr [c]) s) | _ \<Rightarrow> Inl TypeError)"

definition new_post :: "jsval \<Rightarrow> string \<Rightarrow> string \<Rightarrow> jsval" where
  "new_post user text date = JObj [(''user'', user), (''text'', JStr text), (''date'', JStr date)]"

text \<open>\<open>handlePost\<close>; \<open>date\<close> is \<open>new Date().toLocaleString()\<close> at the click.\<close>

definition handlePost :: "string \<Rightarrow> forum \<Rightarrow> forum js" where
  "handlePost date s =
     (if js_trim (f_text s) = [] then Inr s
      else js_then (js_spread (posts s)) (\<lambda>ps.
        let updated = JArr (new_post (f_user s) (f_text s) date # ps) in
        Inr (s\<lparr>posts := updated, f_store := save_json (f_store s) ''forumPosts'' updated, f_text := []\<rparr>)))"

text \<open>One post as rendered: author, date, text.\<close>

definition post_view :: "jsval \<Rightarrow> (string \<times> string \<times> string) js" where
  "post_view p =
     js_then (get_prop p ''user'') (\<lambda>u. js_then (jsx_text u) (\<lambda>ut.
     js_then (get_prop p ''date'') (\<lambda>d. js_then (jsx_text d) (\<lambda>dt.
     js_then (get_prop p ''text'') (\<lambda>t. js_then (jsx_text t) (\<lambda>tt. Inr (ut, dt, tt)))))))"

text \<open>\<open>posts.length === 0 ? 'No posts yet...' : posts.map(...)\<close>: \<open>None\<close> is the
  empty-forum message.\<close>

definition forum_render :: "forum \<Rightarrow> (string \<times> string \<times> string) list option js" where
  "forum_render s =
     js_then (get_prop (posts s) ''length'') (\<lambda>n.
       if js_seq n (JNum 0 0) then Inr None
       else js_then (js_map post_view (posts s)) (\<lambda>vs. Inr (Some vs)))"

datatype forum_event = FType string | FPost string

fun forum_step :: "forum \<Rightarrow> forum_event \<Rightarrow> forum option" where
  "forum_step s (FType v) = (if isl (forum_render s) then None else Some (s\<lparr>f_text := v\<rparr>))"
| "forum_step s (FPost date) =
     (if isl (forum_render s) then None
      else Some (case handlePost date s of Inr s' \<Rightarrow> s' | Inl _ \<Rightarrow> s\<lparr>f_uncaught := True\<rparr>))"

inductive forum_reach :: "forum \<Rightarrow> bool" where
  init: "forum_mount st = Inr s \<Longrightarrow> forum_reach s"
| step: "forum_reach s \<Longrightarrow> forum_step s e = Some s' \<Longrightarrow> forum_reach s'"

text \<open>The forum invariant: when the author is a value \<open>JSON.stringify\<close> prints exactly
  (a name read from a profile record), the posts shown are printable and the
  \<open>forumPosts\<close> slot reads back as exactly those posts.\<close>

definition forum_inv :: "forum \<Rightarrow> bool" where
  "forum_inv s \<longleftrightarrow>
     (json_ok (f_user s) \<longrightarrow> json_ok (posts s) \<and> load_json (f_store s) ''forumPosts'' ''[]'' = Inr (posts s))"

subsection \<open>Example\<close>

definition forum_demo_store :: store where
  "forum_demo_store = [''profile'' \<mapsto> ''{\"username\":\"ann\"}'', ''forumPosts'' \<mapsto> ''[]'']"

subsection \<open>Posting\<close>

lemma js_spread_ok: "json_ok v \<Longrightarrow> js_spread v = Inr xs \<Longrightarrow> \<forall>x \<in> set xs. json_ok x"
  by (auto simp: js_spread_def split: jsval.splits)

lemma handlePost_cases:
  "handlePost date s = Inr s' \<Longrightarrow>
     s' = s \<or> (\<exists>ps. js_spread (posts s) = Inr ps \<and>
       s' = s\<lparr>posts := JArr (new_post (f_user s) (f_text s) date # ps),
              f_store := save_json (f_store s) ''forumPosts'' (JArr (new_post (f_user s) (f_text s) date # ps)),
              f_text := []\<rparr>)"
  by (auto simp: handlePost_def Let_def js_then_eq_Inr split: if_splits)

lemma handlePost_inv: "forum_inv s \<Longrightarrow> handlePost date s = Inr s' \<Longrightarrow> forum_inv s'"
proof -
  assume inv: "forum_inv s" and h: "handlePost date s = Inr s'"
  from handlePost_cases [OF h] show ?thesis
  proof
    assume "s' = s" then show ?thesis using inv by simp
  next
    assume "\<exists>ps. js_spread (posts s) = Inr ps \<and>
       s' = s\<lparr>posts := JArr (new_post (f_user s) (f_text s) date # ps),
              f_store := save_json (f_store s) ''forumPosts'' (JArr (new_post (f_user s) (f_text s) date # ps)),
              f_text := []\<rparr>"
    then obtain ps where sp: "js_spread (posts s) = Inr ps" and s': "s' = s\<lparr>posts := JArr (new_post (f_user s) (f_text s) date # ps),
              f_store := save_json (f_store s) ''forumPosts'' (JArr (new_post (f_user s) (f_text s) date # ps)),
              f_text := []\<rparr>" by blast
    show ?thesis unfolding forum_inv_def
    proof
      assume u: "json_ok (f_user s')"
      then have "json_ok (posts s)" using inv s' by (simp add: forum_inv_def)
      then have "json_ok (JArr (new_post (f_user s) (f_text s) date # ps))"
        using js_spread_ok [OF _ sp] u s' by (simp add: new_post_def)
      then show "json_ok (posts s') \<and> load_json (f_store s') ''forumPosts'' ''[]'' = Inr (posts s')"
        using s' by (simp add: load_json_save_json)
    qed
  qed
qed

lemma forum_step_inv: "forum_inv s \<Longrightarrow> forum_step s e = Some s' \<Longrightarrow> forum_inv s'"
proof (cases e)
  case (FPost date)
  assume "forum_inv s" "forum_step s e = Some s'"
  with FPost show ?thesis
  proof (cases "handlePost date s")
    case (Inr t)
    with FPost \<open>forum_inv s\<close> \<open>forum_step s e = Some s'\<close> show ?thesis
      using handlePost_inv by (auto split: if_splits)
  qed (auto simp: forum_inv_def split: if_splits)
qed (auto simp: forum_inv_def split: if_splits)

lemma forum_mount_inv: "forum_mount st = Inr s \<Longrightarrow> forum_inv s"
  by (auto simp: forum_mount_def forum_inv_def js_then_eq_Inr load_json_def json_parse_ok)

lemma forum_reach_inv: "forum_reach s \<Longrightarrow> forum_inv s"
  by (induction rule: forum_reach.induct) (auto intro: forum_mount_inv forum_step_inv)


subsection \<open>The posts are persisted\<close>

lemma forum_demo_parse:
  "json_parse ''{\"username\":\"ann\"}'' = Inr (JObj [(''username'', JStr ''ann'')])"
  "json_parse ''[]'' = Inr (JArr [])"
  by code_simp+

lemma forum_demo_mount:
  "forum_mount forum_demo_store =
     Inr \<lparr>posts = JArr [], f_text = [], f_user = JStr ''ann'', f_store = forum_demo_store, f_uncaught = False\<rparr>"
  by (simp add: forum_mount_def forum_user_def load_json_def item_or_def getItem_def forum_demo_store_def
                forum_demo_parse)

text \<open>
  C24: the forum's persistence. On every state the forum reaches from its mount, when the
  author is a value \<open>JSON.stringify\<close> prints exactly (a name read from a profile
  record), the \<open>forumPosts\<close> slot read back with \<open>JSON.parse\<close> is exactly the list
  of posts on screen: every post is written through, newest first.
\<close>

theorem forum_persisted:
  "forum_reach s \<Longrightarrow> json_ok (f_user s) \<Longrightarrow> load_json (f_store s) ''forumPosts'' ''[]'' = Inr (posts s)"
  using forum_reach_inv by (simp add: forum_inv_def)

theorem forum_persisted_witness:
  "forum_reach \<lparr>posts = JArr [new_post (JStr ''ann'') ''hi'' ''d''], f_text = [], f_user = JStr ''ann'',
      f_store = save_json forum_demo_store ''forumPosts'' (JArr [new_post (JStr ''ann'') ''hi'' ''d'']),
      f_uncaught = False\<rparr> \<and>
   json_ok (JStr ''ann'') \<and>
   load_json (save_json forum_demo_store ''forumPosts'' (JArr [new_post (JStr ''ann'') ''hi'' ''d''])) ''forumPosts'' ''[]''
     = Inr (JArr [new_post (JStr ''ann'') ''hi'' ''d''])"
proof -
  let ?s0 = "\<lparr>posts = JArr [], f_text = [], f_user = JStr ''ann'', f_store = forum_demo_store, f_uncaught = False\<rparr>"
  let ?s2 = "\<lparr>posts = JArr [new_post (JStr ''ann'') ''hi'' ''d''], f_text = [], f_user = JStr ''ann'',
      f_store = save_json forum_demo_store ''forumPosts'' (JArr [new_post (JStr ''ann'') ''hi'' ''d'']),
      f_uncaught = False\<rparr>"
  have r0: "forum_reach ?s0" by (rule forum_reach.init [OF forum_demo_mount])
  have e0: "\<not> isl (forum_render ?s0)" by (simp add: forum_render_def js_seq_def)
  have r1: "forum_reach (?s0\<lparr>f_text := ''hi''\<rparr>)"
    by (rule forum_reach.step [OF r0, of "FType ''hi''"]) (simp add: e0)
  have e1: "\<not> isl (forum_render (?s0\<lparr>f_text := ''hi''\<rparr>))" by (simp add: forum_render_def js_seq_def)
  have h: "handlePost ''d'' (?s0\<lparr>f_text := ''hi''\<rparr>) = Inr ?s2"
    by (simp add: handlePost_def js_spread_def js_trim_def js_ws_def Let_def)
  have r2: "forum_reach ?s2"
    by (rule forum_reach.step [OF r1, of "FPost ''d''"]) (simp only: forum_step.simps e1 h if_False sum.case)
  show ?thesis using forum_persisted [OF r2] r2 by simp
qed

end
