(* ===== verification/Compare.thy ===== *)
theory Compare
  imports Prelude
begin

text \<open>
  The career comparison of \<open>src/src/CareerCompare.jsx\<close>: a fixed catalog, a selection of
  titles toggled by one button per catalog entry, and a table of the selected entries.
  \<open>App.jsx\<close> has the import commented out, so the page is not mounted by the
  application; it is modelled as written. The selection is a list, as in the code;
  \<open>Compare\<close> proves that it refines a set of titles toggled by each click.
\<close>

definition rsquo :: string where
  "rsquo = [CHR 0xE2, CHR 0x80, CHR 0x99]"

text \<open>\<open>CAREER_DATA\<close>: title, skills, salary, outlook, education.\<close>

definition CAREER_DATA :: "(string \<times> string \<times> string \<times> string \<times> string) list" where
  "CAREER_DATA =
     [(''Software Engineer'', ''Programming, Problem-solving, Teamwork'', ''$80,000 - $150,000'',
       ''High demand, strong growth'', ''Bachelor'' @ rsquo @ ''s in CS or related''),
      (''Data Scientist'', ''Statistics, Machine Learning, Python'', ''$90,000 - $160,000'',
       ''Very high demand'', ''Bachelor'' @ rsquo @ ''s/Master'' @ rsquo @ ''s in Data Science'')]"

text \<open>\<open>prev.includes(title) ? prev.filter((t) => t !== title) : [...prev, title]\<close>.\<close>

definition handleSelect :: "string \<Rightarrow> string list \<Rightarrow> string list" where
  "handleSelect title prev = (if title \<in> set prev then filter (\<lambda>t. t \<noteq> title) prev else prev @ [title])"

text \<open>\<open>CAREER_DATA.filter((c) => selected.includes(c.title))\<close>.\<close>

definition careers :: "string list \<Rightarrow> (string \<times> string \<times> string \<times> string \<times> string) list" where
  "careers selected = filter (\<lambda>c. fst c \<in> set selected) CAREER_DATA"

text \<open>The render: one button per catalog entry with its highlight, and the table when
  at least one career is selected.\<close>

definition compare_render ::
  "string list \<Rightarrow> (string \<times> bool) list \<times> (string \<times> string \<times> string \<times> string \<times> string) list option" where
  "compare_render selected =
     (map (\<lambda>c. (fst c, fst c \<in> set selected)) CAREER_DATA,
      if length (careers selected) > 0 then Some (careers selected) else None)"

text \<open>A run of clicks on the buttons, from the initial empty selection; a click names
  the title of its button.\<close>

definition compare_run :: "string list \<Rightarrow> string list" where
  "compare_run clicks = fold handleSelect clicks []"

subsection \<open>The abstract selection\<close>

text \<open>The selection as a set: a click toggles its title.\<close>

definition toggle :: "string \<Rightarrow> string set \<Rightarrow> string set" where
  "toggle t A = (if t \<in> A then A - {t} else insert t A)"

definition compare_abs :: "string list \<Rightarrow> string set" where
  "compare_abs clicks = fold toggle clicks {}"

lemma handleSelect_set: "set (handleSelect t sel) = toggle t (set sel)"
  by (auto simp: handleSelect_def toggle_def)

lemma handleSelect_distinct: "distinct sel \<Longrightarrow> distinct (handleSelect t sel)"
  by (simp add: handleSelect_def)

lemma fold_handleSelect:
  "distinct sel \<Longrightarrow>
     distinct (fold handleSelect ts sel) \<and> set (fold handleSelect ts sel) = fold toggle ts (set sel)"
  by (induction ts arbitrary: sel) (simp_all add: handleSelect_distinct handleSelect_set)

text \<open>
  C25: the selection refines a set. After any run of clicks from the empty selection, the
  selected list has no duplicates and holds exactly the set obtained by toggling each
  clicked title in turn, and the table shows the catalog entries with
  those titles in catalog order, whatever the order of the clicks.
\<close>

theorem compare_refines:
  "distinct (compare_run ts) \<and> set (compare_run ts) = compare_abs ts \<and>
   snd (compare_render (compare_run ts)) =
     (if filter (\<lambda>c. fst c \<in> compare_abs ts) CAREER_DATA \<noteq> []
      then Some (filter (\<lambda>c. fst c \<in> compare_abs ts) CAREER_DATA) else None)"
  using fold_handleSelect [of "[]" ts]
  by (simp add: compare_run_def compare_abs_def compare_render_def careers_def)

end
