(* ===== verification/Feedback.thy ===== *)
theory Feedback
  imports Auth
begin

text \<open>
  The suggestion form of \<open>src/src/FeedbackForm.jsx\<close> (props \<open>token\<close>, \<open>userId\<close>). Its
  state is the suggestion being typed and the message line. \<open>handleSubmit\<close> clears the
  message and sends the suggestion with \<open>sendFeedback\<close> of \<open>api.js\<close>; after the
  \<open>await\<close> it shows the thanks and clears the input. There is no \<open>try\<close>: a rejected
  request is an unhandled rejection and the rest of the handler does not run. The submit
  button is never disabled, so several requests may be outstanding; their continuations
  read no captured state, so the outstanding requests are a count. \<open>App.jsx\<close> has the
  import commented out, so the form is not mounted by the application; it is modelled as
  written.
\<close>

record fb =
  suggestion :: string
  fb_msg :: string
  fb_sent :: "http_req list"
  fb_pending :: nat
  fb_unhandled :: nat

definition fb_init :: fb where
  "fb_init = \<lparr>suggestion = [], fb_msg = [], fb_sent = [], fb_pending = 0, fb_unhandled = 0\<rparr>"

text \<open>\<open>handleSubmit\<close> up to its \<open>await\<close>.\<close>

definition handleSubmit_fb :: "string \<Rightarrow> jsval \<Rightarrow> fb \<Rightarrow> fb" where
  "handleSubmit_fb token userId s =
     s\<lparr>fb_msg := [],
       fb_sent := fb_sent s @ [sendFeedback (JObj [(''user_id'', userId), (''feedback'', JStr (suggestion s))]) token],
       fb_pending := fb_pending s + 1\<rparr>"

text \<open>The rest of the handler once a request resolves; a rejection skips it.\<close>

definition fb_resolve :: "fb \<Rightarrow> fb" where
  "fb_resolve s = s\<lparr>fb_msg := ''Thank you for your suggestion!'', suggestion := [], fb_pending := fb_pending s - 1\<rparr>"

definition fb_reject :: "fb \<Rightarrow> fb" where
  "fb_reject s = s\<lparr>fb_pending := fb_pending s - 1, fb_unhandled := fb_unhandled s + 1\<rparr>"

datatype fb_event = FbType string | FbSubmit | FbResolve | FbReject

fun fb_step :: "string \<Rightarrow> jsval \<Rightarrow> fb \<Rightarrow> fb_event \<Rightarrow> fb option" where
  "fb_step token userId s (FbType v) = Some (s\<lparr>suggestion := v\<rparr>)"
| "fb_step token userId s FbSubmit = Some (handleSubmit_fb token userId s)"
| "fb_step token userId s FbResolve = (if fb_pending s = 0 then None else Some (fb_resolve s))"
| "fb_step token userId s FbReject = (if fb_pending s = 0 then None else Some (fb_reject s))"

fun fb_run :: "string \<Rightarrow> jsval \<Rightarrow> fb \<Rightarrow> fb_event list \<Rightarrow> fb option" where
  "fb_run token userId s [] = Some s"
| "fb_run token userId s (e # es) =
     (case fb_step token userId s e of None \<Rightarrow> None | Some s' \<Rightarrow> fb_run token userId s' es)"

text \<open>The render: the suggestion in the text area, and the message when it is not empty.\<close>

definition fb_render :: "fb \<Rightarrow> string \<times> string option" where
  "fb_render s = (suggestion s, if fb_msg s \<noteq> [] then Some (fb_msg s) else None)"

subsection \<open>Failures and overlapping submissions\<close>

lemma fb_run_no_resolve:
  "fb_run token userId s es = Some s' \<Longrightarrow> FbResolve \<notin> set es \<Longrightarrow>
     fb_msg s' = (if FbSubmit \<in> set es then [] else fb_msg s) \<and>
     length (fb_sent s') = length (fb_sent s) + count_list es FbSubmit \<and>
     fb_unhandled s' = fb_unhandled s + count_list es FbReject \<and>
     fb_pending s' + count_list es FbReject = fb_pending s + count_list es FbSubmit \<and>
     (suggestion s' = suggestion s \<or> (\<exists>v. FbType v \<in> set es \<and> suggestion s' = v))"
proof (induction es arbitrary: s)
  case Nil
  then show ?case by simp
next
  case (Cons e es)
  show ?case
  proof (cases e)
    case (FbType v)
    then show ?thesis using Cons.prems Cons.IH [of "s\<lparr>suggestion := v\<rparr>"] by auto
  next
    case FbSubmit
    then show ?thesis using Cons.prems Cons.IH [of "handleSubmit_fb token userId s"]
      by (auto simp: handleSubmit_fb_def)
  next
    case FbResolve
    then show ?thesis using Cons.prems by simp
  next
    case FbReject
    then show ?thesis using Cons.prems Cons.IH [of "fb_reject s"]
      by (auto simp: fb_reject_def split: if_splits)
  qed
qed

text \<open>
  C35: the form's error path. In any run in which no request succeeds and at least one
  suggestion is submitted, every submission is sent (nothing disables the button), the
  form ends with no message shown, the typed suggestion is never cleared (it is the initial
  one or the last one typed), every rejection is counted as unhandled, and a rejection
  settles one outstanding request.
\<close>

theorem feedback_reject_silent:
  assumes "fb_run token userId s es = Some s'" "FbResolve \<notin> set es" "FbSubmit \<in> set es"
  shows "snd (fb_render s') = None \<and>
         length (fb_sent s') = length (fb_sent s) + count_list es FbSubmit \<and>
         fb_unhandled s' = fb_unhandled s + count_list es FbReject \<and>
         fb_pending s' + count_list es FbReject = fb_pending s + count_list es FbSubmit \<and>
         (suggestion s' = suggestion s \<or> (\<exists>v. FbType v \<in> set es \<and> suggestion s' = v))"
  using fb_run_no_resolve [OF assms(1,2)] assms(3) by (simp add: fb_render_def)

theorem feedback_reject_silent_witness:
  "snd (fb_render (the (fb_run ''t'' (JStr ''ann'') fb_init [FbType ''hi'', FbSubmit, FbSubmit, FbReject, FbReject]))) = None \<and>
   fb_unhandled (the (fb_run ''t'' (JStr ''ann'') fb_init [FbType ''hi'', FbSubmit, FbSubmit, FbReject, FbReject])) = 2"
proof -
  have r: "fb_run ''t'' (JStr ''ann'') fb_init [FbType ''hi'', FbSubmit, FbSubmit, FbReject, FbReject] =
             Some (the (fb_run ''t'' (JStr ''ann'') fb_init [FbType ''hi'', FbSubmit, FbSubmit, FbReject, FbReject]))"
    by code_simp
  show ?thesis
    using feedback_reject_silent [OF r] by (simp add: fb_init_def)
qed

end
