(* ===== verification/AuthClean.thy ===== *)
theory AuthClean
  imports Auth
begin

text \<open>
  \<open>src/src/Auth_clean.jsx\<close>, the sign-in page without a captcha. No file imports it; it
  is modelled as written because it is the reference the captcha page was built from:
  the same state less the captcha, the same \<open>saveProfile\<close>, the same requests
  (\<open>auth_request\<close>), and the same \<open>catch\<close> block. Its \<open>handleSubmit\<close> is split at its
  \<open>await\<close> as in \<open>Auth\<close>. The last part proves that \<open>Auth.jsx\<close> refines it: forgetting
  the captcha, every step of the captcha page is a step of this page or leaves its state
  unchanged, except a submission with a wrong captcha answer, which only sets the error.
\<close>

record authc =
  ac_username :: string
  ac_password :: string
  ac_isLogin :: bool
  ac_error :: string
  ac_loading :: bool
  ac_fullName :: string
  ac_email :: string
  ac_age :: string
  ac_phone :: string
  ac_store :: store
  ac_sent :: "http_req list"
  ac_inflight :: "snap option"
  ac_token_out :: "jsval list"
  ac_uncaught :: bool

definition authc_init :: "store \<Rightarrow> authc" where
  "authc_init st =
     \<lparr>ac_username = [], ac_password = [], ac_isLogin = True, ac_error = [], ac_loading = False,
      ac_fullName = [], ac_email = [], ac_age = [], ac_phone = [], ac_store = st, ac_sent = [],
      ac_inflight = None, ac_token_out = [], ac_uncaught = False\<rparr>"

definition snapshot_clean :: "authc \<Rightarrow> snap" where
  "snapshot_clean s =
     \<lparr>c_isLogin = ac_isLogin s, c_username = ac_username s, c_password = ac_password s,
      c_fullName = ac_fullName s, c_email = ac_email s, c_age = ac_age s, c_phone = ac_phone s\<rparr>"

text \<open>\<open>handleSubmit\<close> up to its \<open>await\<close>: no captcha check.\<close>

definition handleSubmit_clean :: "authc \<Rightarrow> authc" where
  "handleSubmit_clean s =
     s\<lparr>ac_error := [], ac_loading := True, ac_sent := ac_sent s @ [auth_request (snapshot_clean s)],
       ac_inflight := Some (snapshot_clean s)\<rparr>"

definition clean_finally :: "authc \<Rightarrow> authc" where
  "clean_finally s = s\<lparr>ac_loading := False, ac_inflight := None\<rparr>"

definition clean_catch :: "authc \<Rightarrow> jsval \<Rightarrow> authc" where
  "clean_catch s err =
     (case catch_msg err of
        Inr m \<Rightarrow> clean_finally (s\<lparr>ac_error := m\<rparr>)
      | Inl _ \<Rightarrow> clean_finally (s\<lparr>ac_uncaught := True\<rparr>))"

definition clean_resolve :: "snap \<Rightarrow> authc \<Rightarrow> jsval \<Rightarrow> authc" where
  "clean_resolve c s res =
     (if c_isLogin c then
        (case js_then (get_prop res ''data'') (\<lambda>d. get_prop d ''access_token'') of
           Inr t \<Rightarrow> clean_finally (s\<lparr>ac_token_out := ac_token_out s @ [t]\<rparr>)
         | Inl e \<Rightarrow> clean_catch s (js_error_obj e))
      else clean_finally (s\<lparr>ac_store := saveProfile (ac_store s) (profile_obj c), ac_isLogin := True\<rparr>))"

datatype authc_event =
    CType afield string
  | CToggle
  | CSubmit
  | CResolve jsval
  | CReject jsval

text \<open>The inputs: the profile fields only for signup; there is no captcha input.\<close>

definition field_shown_clean :: "bool \<Rightarrow> afield \<Rightarrow> bool" where
  "field_shown_clean lg f = (f \<noteq> FCaptcha \<and> field_shown lg f)"

fun set_field_clean :: "afield \<Rightarrow> string \<Rightarrow> authc \<Rightarrow> authc" where
  "set_field_clean FUsername v s = s\<lparr>ac_username := v\<rparr>"
| "set_field_clean FPassword v s = s\<lparr>ac_password := v\<rparr>"
| "set_field_clean FFullName v s = s\<lparr>ac_fullName := v\<rparr>"
| "set_field_clean FEmail v s = s\<lparr>ac_email := v\<rparr>"
| "set_field_clean FAge v s = s\<lparr>ac_age := v\<rparr>"
| "set_field_clean FPhone v s = s\<lparr>ac_phone := v\<rparr>"
| "set_field_clean FCaptcha v s = s"

fun authc_step :: "authc \<Rightarrow> authc_event \<Rightarrow> authc option" where
  "authc_step s (CType f v) = (if field_shown_clean (ac_isLogin s) f then Some (set_field_clean f v s) else None)"
| "authc_step s CToggle = Some (s\<lparr>ac_isLogin := \<not> ac_isLogin s\<rparr>)"
| "authc_step s CSubmit = (if ac_loading s then None else Some (handleSubmit_clean s))"
| "authc_step s (CResolve res) = map_option (\<lambda>c. clean_resolve c s res) (ac_inflight s)"
| "authc_step s (CReject err) = map_option (\<lambda>c. clean_catch s err) (ac_inflight s)"

text \<open>The page as rendered: the same texts as the captcha page under the title
  \<open>Career Prediction\<close>, and no captcha question.\<close>

definition clean_render :: "authc \<Rightarrow> auth_view" where
  "clean_render s =
     \<lparr>av_title = ''Career Prediction'',
      av_mode = mode_line (ac_isLogin s), av_labels = field_labels (ac_isLogin s), av_captcha = None,
      av_error = (if ac_error s \<noteq> [] then Some (ac_error s) else None),
      av_submit = submit_label (ac_loading s) (ac_isLogin s), av_disabled = ac_loading s,
      av_toggle = toggle_label (ac_isLogin s)\<rparr>"

subsection \<open>The captcha page refines the clean page\<close>

text \<open>The state of the captcha page without the captcha.\<close>

definition forget :: "auth \<Rightarrow> authc" where
  "forget s =
     \<lparr>ac_username = username s, ac_password = password s, ac_isLogin = isLogin s,
      ac_error = auth_error s, ac_loading = a_loading s, ac_fullName = fullName s,
      ac_email = email s, ac_age = age s, ac_phone = phone s, ac_store = auth_store s,
      ac_sent = sent s, ac_inflight = inflight s, ac_token_out = token_out s,
      ac_uncaught = a_uncaught s\<rparr>"

text \<open>The clean event an event of the captcha page corresponds to; the captcha input and
  the refresh button have none.\<close>

fun clean_event :: "auth_event \<Rightarrow> authc_event option" where
  "clean_event (AType FCaptcha v) = None"
| "clean_event (AType f v) = Some (CType f v)"
| "clean_event AToggle = Some CToggle"
| "clean_event ARefresh = None"
| "clean_event ASubmit = Some CSubmit"
| "clean_event (AResolve r) = Some (CResolve r)"
| "clean_event (AReject e) = Some (CReject e)"

definition captcha_rejects :: "auth \<Rightarrow> auth_event \<Rightarrow> bool" where
  "captcha_rejects s e \<longleftrightarrow>
     e = ASubmit \<and> isLogin s \<and> js_parseInt (captchaInput s) \<noteq> Some (answer (captcha s))"

lemma forget_regenerate [simp]: "forget (regenerateCaptcha s) = forget s"
  by (simp add: forget_def regenerateCaptcha_def)

lemma forget_finally [simp]: "forget (auth_finally c s) = clean_finally (forget s)"
  by (simp add: forget_def auth_finally_def clean_finally_def regenerateCaptcha_def Let_def)

lemma snapshot_forget [simp]: "snapshot_clean (forget s) = snapshot s"
  by (simp add: snapshot_clean_def snapshot_def forget_def)

lemma forget_catch: "forget (auth_catch c s err) = clean_catch (forget s) err"
  by (simp add: auth_catch_def clean_catch_def split: sum.split) (simp add: forget_def)

lemma forget_resolve: "forget (auth_resolve c s res) = clean_resolve c (forget s) res"
  by (simp add: auth_resolve_def clean_resolve_def forget_catch split: sum.split) (simp add: forget_def)

lemma forget_set_field:
  "f \<noteq> FCaptcha \<Longrightarrow> forget (set_field f v s) = set_field_clean f v (forget s)"
  by (cases f) (simp_all add: forget_def)

lemma forget_submit:
  "\<not> captcha_rejects s ASubmit \<Longrightarrow> forget (handleSubmit_auth s) = handleSubmit_clean (forget s)"
  by (simp add: captcha_rejects_def handleSubmit_auth_def handleSubmit_clean_def Let_def)
     (simp add: forget_def)

lemma forget_submit_rejected:
  "captcha_rejects s ASubmit \<Longrightarrow>
     forget (handleSubmit_auth s) = (forget s)\<lparr>ac_error := ''Captcha incorrect. Please try again.''\<rparr>"
  by (simp add: captcha_rejects_def handleSubmit_auth_def Let_def) (simp add: forget_def)


text \<open>The two pages show the same texts for corresponding states, apart from the
  title and the captcha question.\<close>

lemma render_forget:
  "(auth_render s)\<lparr>av_title := [], av_captcha := None\<rparr> = (clean_render (forget s))\<lparr>av_title := []\<rparr>"
  by (simp add: auth_render_def clean_render_def forget_def)

lemma forget_sel [simp]:
  "ac_isLogin (forget s) = isLogin s" "ac_loading (forget s) = a_loading s"
  "ac_inflight (forget s) = inflight s"
  by (simp_all add: forget_def)

text \<open>
  C6: the captcha page refines the page without captcha. Forgetting the captcha, every step
  of \<open>Auth.jsx\<close> is the corresponding step of \<open>Auth_clean.jsx\<close> (typing, toggling,
  submitting, the answer or the failure of a request), or, for the captcha input and its
  refresh button, changes nothing; the one exception is a login submitted with a wrong
  captcha answer, which sends nothing and only sets the error message.
\<close>

theorem auth_refines_clean:
  "auth_step s e = Some s' \<Longrightarrow>
   (if captcha_rejects s e then forget s' = (forget s)\<lparr>ac_error := ''Captcha incorrect. Please try again.''\<rparr>
    else case clean_event e of
           None \<Rightarrow> forget s' = forget s
         | Some e' \<Rightarrow> authc_step (forget s) e' = Some (forget s'))"
proof (cases e)
  case (AType f v)
  assume st: "auth_step s e = Some s'"
  show ?thesis
  proof (cases "f = FCaptcha")
    case True
    with st AType show ?thesis by (auto simp: captcha_rejects_def forget_def split: if_splits)
  next
    case False
    with st AType show ?thesis
      by (cases f) (auto simp: captcha_rejects_def field_shown_clean_def forget_def split: if_splits)
  qed
next
  case ASubmit
  assume st: "auth_step s e = Some s'"
  with ASubmit show ?thesis
    by (auto simp: forget_submit forget_submit_rejected split: if_splits)
next
  case (AResolve res)
  assume "auth_step s e = Some s'"
  with AResolve show ?thesis by (auto simp: captcha_rejects_def forget_resolve)
next
  case (AReject err)
  assume "auth_step s e = Some s'"
  with AReject show ?thesis by (auto simp: captcha_rejects_def forget_catch)
qed (auto simp: captcha_rejects_def forget_def regenerateCaptcha_def split: if_splits)

theorem auth_refines_clean_witness:
  "auth_step (auth_demo\<lparr>captchaInput := ''12''\<rparr>) ASubmit = Some (handleSubmit_auth (auth_demo\<lparr>captchaInput := ''12''\<rparr>)) \<and>
   authc_step (forget (auth_demo\<lparr>captchaInput := ''12''\<rparr>)) CSubmit =
     Some (forget (handleSubmit_auth (auth_demo\<lparr>captchaInput := ''12''\<rparr>)))"
proof -
  let ?s = "auth_demo\<lparr>captchaInput := ''12''\<rparr>"
  have st: "auth_step ?s ASubmit = Some (handleSubmit_auth ?s)" using auth_demo_facts by simp
  have "\<not> captcha_rejects ?s ASubmit" using auth_demo_facts parse_12 by (simp add: captcha_rejects_def)
  then show ?thesis using auth_refines_clean [OF st] st by simp
qed

end
