(* ===== verification/Spec2Isabelle.thy ===== *)
theory Spec2Isabelle
  imports Badges Favorites Session History Profile DashboardView Help Forum Compare Feedback AuthClean
begin

text \<open>
  \<^bold>\<open>CareerSync client.\<close> A React single-page application (\<open>src/src/\<close>) in which a user
  signs in, answers a career survey, gets career suggestions from a remote API, and keeps
  favorites, badges, a survey history and a profile. All persistent state is text in the
  browser's \<open>localStorage\<close>, written with \<open>JSON.stringify\<close> and read with \<open>JSON.parse\<close>.

  \<^bold>\<open>How the parts interact.\<close> \<open>App.jsx\<close> owns the session (token, decoded user id,
  current page, last result) and a 30-minute expiry timer. The sign-in page \<open>Auth.jsx\<close>
  posts credentials through \<open>api.js\<close> and hands the access token to \<open>App\<close>, which
  decodes the user id from the token's payload with \<open>atob\<close> and \<open>JSON.parse\<close>. The survey
  \<open>SurveyForm.jsx\<close> validates its fields, calls the prediction API, appends a record to
  the shared \<open>surveyHistory\<close> list and passes the result to \<open>App\<close>, which shows it on the
  dashboard after a 1200 ms delay. \<open>Dashboard.jsx\<close> shows the result, toggles favorites
  in the shared \<open>favorites\<close> list and exports the result as text. \<open>Profile.jsx\<close> edits
  the single shared \<open>profile\<close> slot (also written by signup) and the avatar; the panels
  \<open>BadgeDisplay.jsx\<close> and \<open>SurveyHistory.jsx\<close> read the shared lists filtered by user.
  Four components are in the repository but never run: \<open>App.jsx\<close> has the imports of
  \<open>Forum.jsx\<close>, \<open>CareerCompare.jsx\<close> and \<open>FeedbackForm.jsx\<close> commented out, and no file
  imports \<open>Auth_clean.jsx\<close>, the sign-in page before the captcha was added. They are
  modelled as written, with what they would do on the shared storage.

  \<^bold>\<open>Theories.\<close>
  \<^item> \<open>Prelude\<close>: JavaScript exceptions as values (\<open>js_error\<close>, the result type
    \<open>'a js\<close> and its bind \<open>js_then\<close>).
  \<^item> \<open>JsValue\<close>: the values the client handles (\<open>jsval\<close>) and the built-ins it calls:
    property access (throwing on \<open>null\<close>/\<open>undefined\<close>), truthiness, \<open>String()\<close>,
    \<open>trim\<close>, \<open>split\<close>, \<open>join\<close>, \<open>parseInt\<close>, \<open>filter\<close>, \<open>some\<close>, \<open>map\<close>, and the
    text a JSX child renders (\<open>jsx_text\<close>, which throws on an object).
  \<^item> \<open>Json\<close>: \<open>JSON.stringify\<close> (\<open>json_str\<close>) and \<open>JSON.parse\<close> (\<open>json_parse\<close>, a
    pushdown parser), with the round trip \<open>json_roundtrip\<close> for the values the printer
    prints exactly (\<open>json_ok\<close>), and \<open>json_parse_ok\<close>: every value the parser returns
    is one of them (an invariant of the parser's stack, \<open>frame_ok\<close>).
  \<^item> \<open>Storage\<close>: \<open>localStorage\<close> as a map (\<open>getItem\<close>, \<open>setItem\<close>, \<open>removeItem\<close>) and
    the accessor idiom \<open>JSON.parse(getItem(k) || d)\<close> (\<open>load_json\<close>, \<open>save_json\<close>).
  \<^item> \<open>Badges\<close>: \<open>getEarnedBadges\<close> of \<open>BadgeDisplay.jsx\<close>, statement by statement, and
    the panel it renders (\<open>badge_render\<close>).
  \<^item> \<open>Dashboard\<close>: \<open>handleFavorite\<close>, \<open>isFav\<close>, the load effect, the roadmap checklist,
    \<open>handleCopy\<close>/\<open>handleDownload\<close> of \<open>Dashboard.jsx\<close>; \<open>Favorites\<close> abstracts the
    favorites list to one set of careers per user and proves that the handler refines it.
  \<^item> \<open>Survey\<close>: the form, \<open>validate\<close>, the step indicator and progress bar, the payload
    and \<open>handleSubmit\<close> of \<open>SurveyForm.jsx\<close>, with the API outcome as a parameter;
    \<open>History\<close>: the load effect and the render of \<open>SurveyHistory.jsx\<close>.
  \<^item> \<open>Base64\<close>: the browser's \<open>btoa\<close>/\<open>atob\<close> (forgiving base64), with their round trip.
  \<^item> \<open>App\<close>: \<open>App.jsx\<close> as a discrete-event system. The state \<open>app\<close> holds React state,
    the store, a clock and the pending timers; \<open>app_step\<close> takes a UI event, lets time
    pass (\<open>Idle\<close>) or fires the earliest timer (\<open>Fire\<close>); the effects on \<open>[token]\<close>
    run after every handler (\<open>commit\<close>), with their cleanup. The prediction request of
    the survey form is sent by \<open>SurveySubmit\<close> and counted in \<open>surveys_out\<close>; its
    outcome (\<open>SurveyDone\<close>, which runs \<open>onResult\<close>, or \<open>SurveyFail\<close>) may arrive on
    any page, after a logout or an expiry, since nothing cancels it. The user id is the
    token payload decoded by \<open>atob\<close>, whose bytes \<open>JSON.parse\<close> reads as Latin-1
    characters (\<open>latin1_utf8\<close>). \<open>reach\<close> is the set of
    reachable states; \<open>navbar_view\<close> is what \<open>NavBar\<close> shows. \<open>Session\<close> holds the
    properties.
  \<^item> \<open>Auth\<close>: \<open>Auth.jsx\<close> and \<open>api.js\<close>. The page state \<open>auth\<close>, the captcha drawn from
    an explicit sequence of \<open>Math.random()\<close> results, and \<open>handleSubmit\<close> split at its
    \<open>await\<close> (\<open>ASubmit\<close>, then \<open>AResolve\<close>/\<open>AReject\<close> run with the captured closure);
    requests are values (\<open>http_req\<close>); the form encoding of the login body follows the
    URL standard; \<open>auth_render\<close> is the text the page shows.
  \<^item> \<open>AuthClean\<close>: \<open>Auth_clean.jsx\<close> (\<open>authc_step\<close>, \<open>clean_render\<close>), sharing the
    requests, \<open>saveProfile\<close> and the \<open>catch\<close> block with \<open>Auth\<close>, and the abstraction
    \<open>forget\<close> of the captcha page onto it.
  \<^item> \<open>Profile\<close>: \<open>Profile.jsx\<close>, its loader, handlers (\<open>profile_step\<close>) and render.
  \<^item> \<open>DashboardView\<close>: what \<open>Dashboard.jsx\<close> renders (\<open>dash_render\<close>, one
    \<open>career_row\<close> per career) and the modal of \<open>CareerDetailModal.jsx\<close>.
  \<^item> \<open>Help\<close>: the chat of \<open>FloatingHelpButton.jsx\<close>, with its keyword replies
    (\<open>getBotReply\<close>) and the 600 ms reply timeouts as a queue (\<open>chat_step\<close>).
  \<^item> \<open>Forum\<close>: \<open>Forum.jsx\<close>, its mount effect, \<open>handlePost\<close> (with the spread
    \<open>js_spread\<close>) and render, and the states it reaches (\<open>forum_reach\<close>).
  \<^item> \<open>Compare\<close>: \<open>CareerCompare.jsx\<close>, its catalog, \<open>handleSelect\<close> and table, and the
    abstract selection, a set toggled by each click (\<open>compare_abs\<close>).
  \<^item> \<open>Feedback\<close>: \<open>FeedbackForm.jsx\<close>, \<open>handleSubmit\<close> split at its \<open>await\<close>, with
    the outstanding requests as a count.
  \<^item> This theory: the header, and the properties that span components.

  \<^bold>\<open>What is proved.\<close> Each component theory states, near its end, the claims about it
  (text blocks C1 to C36), each with a witness at a concrete input where it has
  hypotheses. The main groups are the following.
  \<^item> Invariants of all reachable states, by rule induction: the session (\<open>session_invariant\<close>),
    the sign-in page (\<open>auth_invariant\<close>), the profile page (\<open>profile_invariant\<close>)
    and the help chat (\<open>chat_invariant\<close>).
  \<^item> Timing: expiry at exactly login + 30 min and never before (\<open>session_expiry_exact\<close>),
    and that it does happen (\<open>session_expiry_live\<close>); every chat question gets
    its reply (\<open>chat_replies_complete\<close>).
  \<^item> Termination of the event loop: no timer callback schedules another, so the pending
    timers drain within as many firings as there are timers (\<open>timers_drain\<close>).
  \<^item> Round trips: storage read-back, favorites toggled twice, the JWT payload through
    \<open>btoa\<close>/\<open>atob\<close>, the login form body, and signup or save followed by a profile reload.
  \<^item> Refinement of the per-user favorite sets by \<open>handleFavorite\<close>, for one click and for
    any sequence of clicks, and by the dashboard's favorite label (\<open>isFav_refines\<close>); of
    \<open>Auth_clean.jsx\<close> by \<open>Auth.jsx\<close>, step by step once the captcha is forgotten
    (\<open>auth_refines_clean\<close>); of a set of titles by the comparison's selection list
    (\<open>compare_refines\<close>).
  \<^item> Persistence: a value read from the store and written back reads the same
    (\<open>read_write_back\<close>), and the forum's slot always holds the posts on screen
    (\<open>forum_persisted\<close>).
  \<^item> The functional behaviour of badges, submission, export, captcha and the handlers.
  \<^item> Error paths: what each malformed stored value or API failure does.
  Where the code departs from the spec or from its own intent, the claim states what the
  code does: the uncancelled result timer, expiry keeping the result, \<open>atob\<close> on
  base64url, the 0% progress of a complete form, the unguarded history render, Cancel
  keeping edits, a numeric user id crashing the profile page, a prediction that resolves
  after logout or expiry still opening the dashboard, the feedback form's repeated and
  silently failing submissions, and the forum signing posts with the last account
  created on the browser (\<open>forum_author_last_signup\<close>, the one claim of this theory).

  \<^bold>\<open>Bounds and fuel.\<close> No definition uses fuel: every loop of the code is a structural
  recursion or a \<open>fun\<close> with an automatic termination proof, and the JSON parser
  recurses on its input. Time is a natural-number clock in milliseconds with the code's
  constants: 1800000 for the session, 1200 for the result delay. The message timeouts of
  the profile page (2000 ms each) and the chat replies (600 ms each) all have one delay
  per component, so they fire in the order they were set: a count, and a queue. The
  feedback form's outstanding requests are a count as well: nothing disables its button,
  and their continuations read no captured state.
  Random draws are assumed in \<open>[0, 1)\<close>, as \<open>Math.random\<close> guarantees. Numbers are exact
  decimals \<open>m / 10^e\<close>, enough for the values JSON text and the API produce.

  \<^bold>\<open>Not modelled.\<close>
  \<^item> Of the components that never run, nothing is left out but their styling; the
    date string of a forum post (\<open>new Date().toLocaleString()\<close>) is a parameter of the
    event.
  \<^item> Inline styles and class names of every page, and the static markup (icons, logos,
    the decorative blobs of the survey form).
  \<^item> Of the dashboard markup, the checklist's \<open>onChange\<close> wiring
    (\<open>handleCheck\<close> itself is modelled); the clipboard, \<open>Blob\<close> and download link of
    \<open>handleCopy\<close>/\<open>handleDownload\<close> beyond the exported text.
  \<^item> Outside the repository: styling, the network and the server, the \<open>FileReader\<close> (reduced
    to the data URL it delivers), and writes from other browser tabs.
  \<^item> Strings are byte strings, so case mapping and trimming cover ASCII only, and
    \<open>userId[0]\<close> of the profile page is the first byte of the id, not its first UTF-16
    unit.
  \<^item> The browser's own validation of the \<open>type="email"\<close> and \<open>type="number"\<close> inputs of
    the sign-in form: the model lets any text through to \<open>handleSubmit\<close>, as a script or
    a browser without that validation would.
  \<^item> A response without \<open>access_token\<close>: the model's token is always a string, while the
    code would pass \<open>undefined\<close> to \<open>handleSetToken\<close>, which stores the text
    \<open>"undefined"\<close>.
\<close>


subsection \<open>Properties across components\<close>

lemma signup_store: "\<not> c_isLogin c \<Longrightarrow> auth_store (auth_resolve c s res) = saveProfile (auth_store s) (profile_obj c)"
  by (simp add: auth_resolve_def)

lemma forum_user_saved:
  "json_ok v \<Longrightarrow> forum_user (setItem (save_json st ''profile'' v) ''token'' t) = get_prop v ''username''"
  using json_str_nonempty [of v]
  by (simp add: forum_user_def save_json_def js_stringify_def json_ok_defined json_roundtrip)

text \<open>
  C36: the forum signs posts with the last account created on the browser. After a signup
  on the sign-in page succeeds, and whichever user then logs in (\<open>App\<close> stores any token
  \<open>t\<close>), the forum mounted on that storage takes its author from the shared profile slot:
  the username of the signup, not the user whose token is stored.
\<close>

theorem forum_author_last_signup:
  "\<not> c_isLogin c \<Longrightarrow> forum_mount (setItem (auth_store (auth_resolve c s res)) ''token'' t) = Inr f \<Longrightarrow>
   f_user f = JStr (c_username c)"
  by (auto simp: signup_store saveProfile_def forum_mount_def forum_user_saved profile_obj_ok js_then_eq_Inr)
     (simp add: profile_obj_def)

theorem forum_author_last_signup_witness:
  "\<exists>f. forum_mount (setItem (auth_store (auth_resolve
          \<lparr>c_isLogin = False, c_username = ''bob'', c_password = ''pw'', c_fullName = [], c_email = [],
           c_age = [], c_phone = []\<rparr> auth_demo JNull)) ''token'' ''ann-token'') = Inr f \<and>
        f_user f = JStr ''bob''"
proof -
  let ?c = "\<lparr>c_isLogin = False, c_username = ''bob'', c_password = ''pw'', c_fullName = [], c_email = [],
           c_age = [], c_phone = []\<rparr>"
  let ?st = "setItem (auth_store (auth_resolve ?c auth_demo JNull)) ''token'' ''ann-token''"
  have posts: "load_json ?st ''forumPosts'' ''[]'' = Inr (JArr [])"
    by (simp add: signup_store saveProfile_def save_json_def load_json_def item_or_def auth_demo_def auth_init_def getItem_def setItem_def
                  forum_demo_parse(2))
  have user: "forum_user ?st = Inr (JStr ''bob'')"
    by (simp add: signup_store saveProfile_def forum_user_saved profile_obj_ok) (simp add: profile_obj_def)
  obtain f where f: "forum_mount ?st = Inr f" using posts user by (simp add: forum_mount_def)
  show ?thesis using forum_author_last_signup [of ?c auth_demo JNull "''ann-token''" f] f by simp
qed

end
